theory Spec2Isabelle
  imports Complex_Main
begin

section \<open>Python values and errors\<close>

text \<open>
  The gateway speaks JSON; the code handles the decoded values as Python dicts, lists,
  strings and numbers. An object is an association list (the first binding of a key is
  the one a lookup sees). A float is carried as the text Python prints for it: the code
  only tests floats for truth and prints them.

  Text literals that the source writes in Cyrillic are given here in Latin
  transliteration, since a HOL string literal is ASCII.
\<close>

datatype json =
    JNull
  | JBool bool
  | JInt int
  | JFloat string
  | JStr string
  | JArr "json list"
  | JObj "(string \<times> json) list"

datatype py_error =
    KeyError string
  | TypeError
  | AttributeError
  | ValueError
  | RuntimeError string
  | IntegrityError
  | OSError
  | ZeroDivisionError
  | JSONDecodeError
  | HTTPBadRequest
  | GreenAPIThrottleError string
  | GreenAPIError string

text \<open>Python's truth value of an object (\<^verbatim>\<open>bool(x)\<close>, \<^verbatim>\<open>if x\<close>, \<^verbatim>\<open>x or y\<close>).\<close>

fun truthy :: "json \<Rightarrow> bool" where
  "truthy JNull = False"
| "truthy (JBool b) = b"
| "truthy (JInt i) = (i \<noteq> 0)"
| "truthy (JFloat r) = (r \<noteq> ''0.0'' \<and> r \<noteq> ''-0.0'')"
| "truthy (JStr s) = (s \<noteq> [])"
| "truthy (JArr xs) = (xs \<noteq> [])"
| "truthy (JObj kvs) = (kvs \<noteq> [])"

text \<open>\<^verbatim>\<open>x or y\<close>.\<close>

definition py_or :: "json \<Rightarrow> json \<Rightarrow> json" where
  "py_or x y = (if truthy x then x else y)"

text \<open>\<^verbatim>\<open>d[k]\<close>: a missing key raises KeyError, a non-dict raises TypeError.\<close>

fun subscript :: "json \<Rightarrow> string \<Rightarrow> py_error + json" where
  "subscript (JObj kvs) k =
     (case map_of kvs k of None \<Rightarrow> Inl (KeyError k) | Some v \<Rightarrow> Inr v)"
| "subscript _ k = Inl TypeError"

text \<open>\<^verbatim>\<open>d.get(k, default)\<close>; \<^verbatim>\<open>d.get(k)\<close> is \<open>get_default d k JNull\<close>.\<close>

fun get_default :: "json \<Rightarrow> string \<Rightarrow> json \<Rightarrow> py_error + json" where
  "get_default (JObj kvs) k dflt =
     (case map_of kvs k of None \<Rightarrow> Inr dflt | Some v \<Rightarrow> Inr v)"
| "get_default _ k dflt = Inl AttributeError"

definition get :: "json \<Rightarrow> string \<Rightarrow> py_error + json" where
  "get d k = get_default d k JNull"

text \<open>Sequencing of steps that may raise.\<close>

fun bindE :: "'e + 'a \<Rightarrow> ('a \<Rightarrow> 'e + 'b) \<Rightarrow> 'e + 'b" where
  "bindE (Inl e) f = Inl e"
| "bindE (Inr v) f = f v"

text \<open>\<^verbatim>\<open>str.lower()\<close> on ASCII text.\<close>

definition lower_char :: "char \<Rightarrow> char" where
  "lower_char c =
     (case map_of (zip ''ABCDEFGHIJKLMNOPQRSTUVWXYZ'' ''abcdefghijklmnopqrstuvwxyz'') c of
        None \<Rightarrow> c
      | Some d \<Rightarrow> d)"

definition lower :: "string \<Rightarrow> string" where
  "lower s = map lower_char s"

section \<open>Text helpers\<close>

definition nl :: string where
  "nl = [CHR 0x0A]"

definition digit_char :: "nat \<Rightarrow> char" where
  "digit_char d = ''0123456789'' ! d"

fun dec :: "nat \<Rightarrow> string" where
  "dec n = (if n < 10 then [digit_char n] else dec (n div 10) @ [digit_char (n mod 10)])"

declare dec.simps [simp del]

definition str_int :: "int \<Rightarrow> string" where
  "str_int i = (if i < 0 then CHR ''-'' # dec (nat (- i)) else dec (nat i))"

text \<open>\<^verbatim>\<open>sep.join(xs)\<close>.\<close>

definition join :: "string \<Rightarrow> string list \<Rightarrow> string" where
  "join sep xs = (case xs of [] \<Rightarrow> [] | y # ys \<Rightarrow> y @ concat (map (\<lambda>z. sep @ z) ys))"

text \<open>
  What an f-string prints for a value. Inside a list or a dict a string is printed in
  single quotes, without the escapes Python would add.
\<close>

fun py_repr :: "json \<Rightarrow> string" where
  "py_repr JNull = ''None''"
| "py_repr (JBool b) = (if b then ''True'' else ''False'')"
| "py_repr (JInt i) = str_int i"
| "py_repr (JFloat r) = r"
| "py_repr (JStr s) = [CHR 0x27] @ s @ [CHR 0x27]"
| "py_repr (JArr xs) = ''['' @ join '', '' (map py_repr xs) @ '']''"
| "py_repr (JObj kvs) =
     ''{'' @ join '', ''
        (map (\<lambda>(k, v). [CHR 0x27] @ k @ [CHR 0x27] @ '': '' @ py_repr v) kvs) @ ''}''"

definition py_str :: "json \<Rightarrow> string" where
  "py_str v = (case v of JStr s \<Rightarrow> s | _ \<Rightarrow> py_repr v)"

text \<open>
  A value used as text by a string method: any other type raises (AttributeError in
  Python).
\<close>

definition as_str :: "json \<Rightarrow> py_error + string" where
  "as_str v = (case v of JStr s \<Rightarrow> Inr s | _ \<Rightarrow> Inl AttributeError)"

text \<open>
  \<^verbatim>\<open>s.rsplit(c, 1)\<close> unpacked into two names: the text before the last \<open>c\<close> and the
  text after it; with no \<open>c\<close> in \<open>s\<close> the unpacking raises ValueError.
\<close>

definition rsplit1 :: "char \<Rightarrow> string \<Rightarrow> py_error + string \<times> string" where
  "rsplit1 c s =
     (if c \<in> set s then
        Inr (rev (tl (dropWhile (\<lambda>x. x \<noteq> c) (rev s))), rev (takeWhile (\<lambda>x. x \<noteq> c) (rev s)))
      else Inl ValueError)"

text \<open>\<^verbatim>\<open>s.split(c)[-1]\<close>.\<close>

definition last_segment :: "char \<Rightarrow> string \<Rightarrow> string" where
  "last_segment c s = rev (takeWhile (\<lambda>x. x \<noteq> c) (rev s))"

text \<open>\<^verbatim>\<open>s.endswith(t)\<close> and \<^verbatim>\<open>s.startswith(t)\<close>.\<close>

definition endswith :: "string \<Rightarrow> string \<Rightarrow> bool" where
  "endswith s t = (length t \<le> length s \<and> drop (length s - length t) s = t)"

definition startswith :: "string \<Rightarrow> string \<Rightarrow> bool" where
  "startswith s t = (take (length t) s = t)"

text \<open>
  \<^verbatim>\<open>s.split(sep)[-1]\<close> for a non-empty separator, when \<open>sep\<close> occurs in \<open>s\<close>: the text
  after the last occurrence.
\<close>

fun after_last :: "string \<Rightarrow> string \<Rightarrow> string option" where
  "after_last sep [] = None"
| "after_last sep (x # xs) =
     (case after_last sep xs of
        Some r \<Rightarrow> Some r
      | None \<Rightarrow> if startswith (x # xs) sep then Some (drop (length sep) (x # xs)) else None)"

text \<open>\<^verbatim>\<open>s.splitlines()\<close>, for the ASCII line boundaries.\<close>

definition is_break :: "char \<Rightarrow> bool" where
  "is_break c = (c \<in> set [CHR 0x0A, CHR 0x0B, CHR 0x0C, CHR 0x1C, CHR 0x1D, CHR 0x1E])"

fun splitlines_from :: "string \<Rightarrow> string \<Rightarrow> string list" where
  "splitlines_from cur [] = (if cur = [] then [] else [cur])"
| "splitlines_from cur (c # cs) =
     (if c = CHR 0x0D then
        (case cs of
           [] \<Rightarrow> [cur]
         | d # ds \<Rightarrow>
             if d = CHR 0x0A then cur # splitlines_from [] ds
             else cur # splitlines_from [] cs)
      else if is_break c then cur # splitlines_from [] cs
      else splitlines_from (cur @ [c]) cs)"

definition splitlines :: "string \<Rightarrow> string list" where
  "splitlines s = splitlines_from [] s"

text \<open>\<^verbatim>\<open>s.strip() == ""\<close>.\<close>

definition is_space :: "char \<Rightarrow> bool" where
  "is_space c =
     (c \<in> set [CHR '' '', CHR 0x09, CHR 0x0A, CHR 0x0B, CHR 0x0C, CHR 0x0D,
                CHR 0x1C, CHR 0x1D, CHR 0x1E, CHR 0x1F])"

definition blank :: "string \<Rightarrow> bool" where
  "blank s = list_all is_space s"

text \<open>
  \<^verbatim>\<open>x in {...}\<close> for a set (or the keys of a dict) of strings: a list or a dict on the
  left cannot be hashed and raises TypeError.
\<close>

definition in_strs :: "json \<Rightarrow> string list \<Rightarrow> py_error + bool" where
  "in_strs v xs =
     (case v of
        JStr s \<Rightarrow> Inr (s \<in> set xs)
      | JArr _ \<Rightarrow> Inl TypeError
      | JObj _ \<Rightarrow> Inl TypeError
      | _ \<Rightarrow> Inr False)"

section \<open>The persisted data\<close>

text \<open>\<^verbatim>\<open>shared/models.py\<close>: the enums and the rows the gateway reads and writes.\<close>

datatype MessageDirection = D_inc | D_out | D_sys

datatype MessageType =
    T_text | T_file_image | T_file_video | T_file_audio | T_file_doc
  | T_notification | T_call | T_location | T_contact

datatype MessageStatus =
    S_pending | S_sent | S_error_api | S_error_int | S_delivered | S_read | S_incoming

datatype FileType = F_image | F_video | F_audio | F_other

record MessageFile =
  file_type :: FileType
  f_name :: string
  mime :: json
  file_path :: string
  file_url :: string
  f_size :: nat

text \<open>
  A Message object. \<open>row_id\<close> is the primary key, \<open>None\<close> until the row is inserted.
  The attributes the code fills from a payload hold the payload's value as it is
  (\<open>JNull\<close> is Python's \<^verbatim>\<open>None\<close>).
\<close>

record Message =
  row_id :: "nat option"
  instance_id :: int
  conversation_id :: nat
  wa_message_id :: json
  tg_message_id :: "int option"
  chat_id :: string
  chat_name :: json
  created_at :: json
  from_app :: bool
  direction :: MessageDirection
  status :: MessageStatus
  message_type :: MessageType
  msg_text :: json
  is_archived :: bool
  files :: "MessageFile list"

record Conversation =
  conv_id :: nat
  c_instance_id :: int
  c_chat_id :: string
  c_phone :: string
  c_title :: json
  c_is_group :: bool

datatype log_level = DEBUG | INFO | WARNING | ERROR

text \<open>
  Everything the gateway changes: the tables (an account row is its row id and its
  provider id), the two notification channels the triggers write to
  (\<^verbatim>\<open>app/utils/triggers.py\<close>), the media files, the download requests issued, the
  sleeps taken, the log, the files and texts sent to the provider, and the reactions set
  on the Telegram side.
\<close>

record upload =
  u_chat_id :: string
  u_filename :: string
  u_mime :: json
  u_bytes :: string
  u_caption :: json

record world =
  instances :: "(int \<times> int) list"
  conversations :: "Conversation list"
  messages :: "Message list"
  msg_in :: "nat list"
  msg_out :: "nat list"
  fs :: "string \<rightharpoonup> string"
  gets :: "string list"
  slept :: "rat list"
  logged :: "(log_level \<times> string) list"
  uploads :: "upload list"
  texts_sent :: "(string \<times> json) list"
  reactions :: "(int \<times> bool) list"

text \<open>
  What the outside supplies: the media root and the month directory
  (\<^verbatim>\<open>datetime.utcnow().strftime("%Y/%m")\<close>), the answer to each download request, the
  draws of \<^verbatim>\<open>random()\<close>, the file name in a URL
  (\<^verbatim>\<open>os.path.basename(unquote(urlparse(u).path))\<close>), whether the client manager has a
  client for an account, what the client's \<^verbatim>\<open>download_file\<close> returns, what the
  provider answers to the k-th file upload and to a text, and whether the throttle
  error is a subclass of the provider error (\<^verbatim>\<open>app/green_api/exceptions.py\<close> is not
  among the sources).
\<close>

datatype get_outcome =
    Refused
  | Partial string
  | Body string

record env =
  media_root :: string
  year_month :: string
  http_get :: "string \<Rightarrow> nat \<Rightarrow> get_outcome"
  rand :: "nat \<Rightarrow> rat"
  url_basename :: "string \<Rightarrow> string"
  has_client :: "json \<Rightarrow> bool"
  client_download_file :: "string \<Rightarrow> json \<Rightarrow> py_error + json"
  send_file_reply :: "nat \<Rightarrow> upload \<Rightarrow> py_error + json"
  send_message_reply :: "string \<Rightarrow> json \<Rightarrow> py_error + json"
  throttle_is_api_error :: bool

definition log_msg :: "log_level \<Rightarrow> string \<Rightarrow> world \<Rightarrow> world" where
  "log_msg lv txt w = w\<lparr>logged := logged w @ [(lv, txt)]\<rparr>"

subsection \<open>The messages table\<close>

text \<open>
  \<^verbatim>\<open>UniqueConstraint("instance_id", "wa_message_id", name="uq_msg_wa")\<close>: two rows may
  not agree on both columns; a NULL provider id never collides.
\<close>

definition same_key :: "Message \<Rightarrow> Message \<Rightarrow> bool" where
  "same_key m r = (instance_id r = instance_id m \<and> wa_message_id r = wa_message_id m)"

definition violates_uq_msg_wa :: "Message \<Rightarrow> Message list \<Rightarrow> bool" where
  "violates_uq_msg_wa m rows = (wa_message_id m \<noteq> JNull \<and> list_ex (same_key m) rows)"

definition fresh_id :: "Message list \<Rightarrow> nat" where
  "fresh_id rows = Suc (fold max (map (\<lambda>r. case row_id r of None \<Rightarrow> 0 | Some i \<Rightarrow> i) rows) 0)"

text \<open>
  The triggers of \<^verbatim>\<open>init_triggers_pg\<close>, after an insert into messages: an envelope on
  \<^verbatim>\<open>msg_in\<close> for a system or inbound row, one on \<^verbatim>\<open>msg_out\<close> for a pending outbound row.
\<close>

definition after_insert :: "Message \<Rightarrow> nat \<Rightarrow> world \<Rightarrow> world" where
  "after_insert m i w =
     (let w1 = (if direction m = D_sys \<or> direction m = D_inc
                then w\<lparr>msg_in := msg_in w @ [i]\<rparr> else w)
      in if direction m = D_out \<and> status m = S_pending
         then w1\<lparr>msg_out := msg_out w1 @ [i]\<rparr> else w1)"

text \<open>
  The columns declared \<^verbatim>\<open>nullable=False\<close>. Of those, \<^verbatim>\<open>message_files.mime\<close> is the one
  a handler can leave without a value: \<^verbatim>\<open>payload_to_msg\<close> fills it from
  \<^verbatim>\<open>fm["mimeType"]\<close>, which may be null. (\<^verbatim>\<open>chat_name\<close> is the sender's name or else the
  phone, the name and the paths of a file are texts, and \<^verbatim>\<open>created_at\<close> has a default.)
\<close>

definition violates_not_null :: "Message \<Rightarrow> bool" where
  "violates_not_null m = list_ex (\<lambda>f. mime f = JNull) (files m)"

text \<open>
  \<^verbatim>\<open>db.add(msg); await db.commit()\<close> for a new object: the insert of the row and of its
  files either violates a constraint, and then the commit raises IntegrityError and
  nothing is stored, or stores the row under a new id.
\<close>

definition add_commit :: "Message \<Rightarrow> world \<Rightarrow> (py_error + Message) \<times> world" where
  "add_commit m w =
     (if violates_not_null m \<or> violates_uq_msg_wa m (messages w) then (Inl IntegrityError, w)
      else
        (let i = fresh_id (messages w); r = m\<lparr>row_id := Some i\<rparr>
         in (Inr r, after_insert r i (w\<lparr>messages := messages w @ [r]\<rparr>))))"

text \<open>
  \<^verbatim>\<open>select(Message).where(instance_id == i, wa_message_id == wa)\<close>, first row.
\<close>

definition find_message :: "int \<Rightarrow> json \<Rightarrow> world \<Rightarrow> Message option" where
  "find_message i wa w =
     find (\<lambda>r. instance_id r = i \<and> wa_message_id r = wa) (messages w)"

text \<open>An attribute change of a stored row, committed.\<close>

definition update_row :: "Message \<Rightarrow> world \<Rightarrow> world" where
  "update_row m w =
     w\<lparr>messages := map (\<lambda>r. if row_id r = row_id m then m else r) (messages w)\<rparr>"

text \<open>
  \<^verbatim>\<open>resolve_internal_id\<close> (\<^verbatim>\<open>webhook.py\<close>): the row id of the account with this
  provider id. The column is an integer; a null matches no row, and a value of another
  type is refused by the database driver.
\<close>

definition resolve_internal_id :: "json \<Rightarrow> world \<Rightarrow> py_error + int option" where
  "resolve_internal_id a w =
     (case a of
        JInt n \<Rightarrow> Inr (map_option fst (find (\<lambda>r. snd r = n) (instances w)))
      | JNull \<Rightarrow> Inr None
      | _ \<Rightarrow> Inl TypeError)"

subsection \<open>Conversations\<close>

text \<open>
  \<^verbatim>\<open>shared/crud/conversations.py\<close>, \<^verbatim>\<open>get_or_create_conversation\<close>: the conversation
  of (account, chat), created and committed when there is none.
\<close>

definition fresh_conv_id :: "Conversation list \<Rightarrow> nat" where
  "fresh_conv_id cs = Suc (fold max (map conv_id cs) 0)"

definition get_or_create_conversation ::
  "int \<Rightarrow> string \<Rightarrow> string \<Rightarrow> json \<Rightarrow> world \<Rightarrow> Conversation \<times> world" where
  "get_or_create_conversation inst chat phone cname w =
     (case find (\<lambda>c. c_instance_id c = inst \<and> c_chat_id c = chat) (conversations w) of
        Some c \<Rightarrow> (c, w)
      | None \<Rightarrow>
          (let c = \<lparr>conv_id = fresh_conv_id (conversations w), c_instance_id = inst,
                    c_chat_id = chat, c_phone = phone,
                    c_title = py_or cname (JStr phone),
                    c_is_group = endswith chat ''@g.us''\<rparr>
           in (c, w\<lparr>conversations := conversations w @ [c]\<rparr>)))"

section \<open>Media download\<close>

text \<open>
  \<^verbatim>\<open>app/green_api/green_msg.py\<close>, \<^verbatim>\<open>download_safe\<close>. One pass of the \<^verbatim>\<open>try\<close> block:
  the request, then the file opened for writing and the chunks written. \<open>Refused\<close> is
  a failure before anything is written (the request, the status check or the open
  raises), \<open>Partial\<close> a stream that breaks after some bytes, \<open>Body\<close> a stream read to
  its end. The result is the size on success; an empty file counts as a failure
  (\<^verbatim>\<open>raise ValueError("downloaded file is empty")\<close>).
\<close>

definition attempt_get :: "get_outcome \<Rightarrow> string \<Rightarrow> world \<Rightarrow> nat option \<times> world" where
  "attempt_get oc local w =
     (case oc of
        Refused \<Rightarrow> (None, w)
      | Partial b \<Rightarrow> (None, w\<lparr>fs := (fs w)(local \<mapsto> b)\<rparr>)
      | Body b \<Rightarrow>
          (if length b = 0 then None else Some (length b), w\<lparr>fs := (fs w)(local \<mapsto> b)\<rparr>))"

text \<open>
  The loop \<^verbatim>\<open>while attempt <= retries\<close>:
  \<^verbatim>\<open>
    except (ClientError, asyncio.TimeoutError, OSError, ValueError) as e:
        attempt += 1
        logger.warning("Download failed (try %s/%s) url=%s err=%s", attempt, retries, url, e)
        try:
            local.unlink(missing_ok=True)
        except OSError:
            pass
        if attempt > retries:
            logger.error("All retries exhausted; give up downloading %s", url)
            return None
        await asyncio.sleep((backoff ** attempt) * (0.5 + random() / 2))
  \<close>
\<close>

function download_loop ::
  "env \<Rightarrow> string \<Rightarrow> string \<Rightarrow> nat \<Rightarrow> rat \<Rightarrow> nat \<Rightarrow> world \<Rightarrow> (string \<times> nat) option \<times> world" where
  "download_loop e url local retries backoff attempt w =
     (if attempt \<le> retries then
        (case attempt_get (http_get e url attempt) local (w\<lparr>gets := gets w @ [url]\<rparr>) of
           (Some n, w1) \<Rightarrow> (Some (local, n), w1)
         | (None, w1) \<Rightarrow>
             (let w2 = log_msg WARNING ''Download failed'' w1;
                  w3 = w2\<lparr>fs := (fs w2)(local := None)\<rparr>
              in if attempt + 1 > retries then
                   (None, log_msg ERROR ''All retries exhausted; give up downloading'' w3)
                 else
                   download_loop e url local retries backoff (attempt + 1)
                     (w3\<lparr>slept := slept w3 @
                          [backoff ^ (attempt + 1) * (1 / 2 + rand e attempt / 2)]\<rparr>)))
      else (None, w))"
  by pat_completeness auto

termination
  by (relation "measure (\<lambda>(e, url, local, retries, backoff, attempt, w). Suc retries - attempt)")
     auto

declare download_loop.simps [simp del]

definition retries_default :: nat where
  "retries_default = 3"

definition backoff_default :: rat where
  "backoff_default = 3 / 2"

text \<open>
  \<^verbatim>\<open>download_safe(url, fname, session)\<close>, with the default \<^verbatim>\<open>retries=3\<close> and
  \<^verbatim>\<open>backoff=1.5\<close>. The target is \<^verbatim>\<open>MEDIA_ROOT/<yyyy>/<mm>/<fname>\<close>.
\<close>

definition local_path :: "env \<Rightarrow> string \<Rightarrow> string" where
  "local_path e fname = media_root e @ ''/'' @ year_month e @ ''/'' @ fname"

definition download_safe ::
  "env \<Rightarrow> json \<Rightarrow> string \<Rightarrow> world \<Rightarrow> (py_error + (string \<times> nat) option) \<times> world" where
  "download_safe e url fname w =
     (if \<not> truthy url then (Inr None, w)
      else
        (case as_str url of
           Inl er \<Rightarrow> (Inl er, w)
         | Inr u \<Rightarrow>
             if blank u then (Inr None, w)
             else
               (case download_loop e u (local_path e fname) retries_default backoff_default 0 w of
                  (r, w') \<Rightarrow> (Inr r, w'))))"

text \<open>\<^verbatim>\<open>_public_url\<close>: the path below the media root; a path outside it raises.\<close>

definition public_url :: "env \<Rightarrow> string \<Rightarrow> py_error + string" where
  "public_url e abs_path =
     (if startswith abs_path (media_root e @ ''/'')
      then Inr (''/media/'' @ drop (length (media_root e) + 1) abs_path)
      else Inl ValueError)"

text \<open>
  \<^verbatim>\<open>admin/utils/files.py\<close>, \<^verbatim>\<open>_build_media_path\<close>, the upload path of the admin panel:
  \<^verbatim>\<open>
    stem, suf = Path(fname).stem, Path(fname).suffix
    candidate = dst / fname
    n = 1
    while candidate.exists():
        candidate = dst / f"{stem}_{n}{suf}";
        n += 1
    return candidate
  \<close>
  The search for a free name is bounded here by the number of files there are: among
  \<open>k + 1\<close> candidates that differ, one is not among \<open>k\<close> files.
\<close>

definition stem_suffix :: "string \<Rightarrow> string \<times> string" where
  "stem_suffix fname =
     (let ext = rev (takeWhile (\<lambda>c. c \<noteq> CHR ''.'') (rev fname));
          stem = take (length fname - length ext - 1) fname
      in if CHR ''.'' \<notin> set fname \<or> stem = [] \<or> ext = [] then (fname, [])
         else (stem, CHR ''.'' # ext))"

definition candidate :: "string \<Rightarrow> string \<Rightarrow> nat \<Rightarrow> string" where
  "candidate dst fname n =
     (if n = 0 then dst @ ''/'' @ fname
      else (case stem_suffix fname of
              (stem, suf) \<Rightarrow> dst @ ''/'' @ stem @ ''_'' @ dec n @ suf))"

fun first_free :: "(string \<Rightarrow> bool) \<Rightarrow> string \<Rightarrow> string \<Rightarrow> nat \<Rightarrow> nat \<Rightarrow> string option" where
  "first_free ex dst fname n 0 = None"
| "first_free ex dst fname n (Suc fuel) =
     (if ex (candidate dst fname n) then first_free ex dst fname (Suc n) fuel
      else Some (candidate dst fname n))"

definition build_media_path :: "env \<Rightarrow> string \<Rightarrow> nat \<Rightarrow> world \<Rightarrow> string option" where
  "build_media_path e fname fuel w =
     first_free (\<lambda>p. fs w p \<noteq> None) (media_root e @ ''/'' @ year_month e) fname 0 fuel"

section \<open>From a provider payload to a Message\<close>

text \<open>\<^verbatim>\<open>app/green_api/green_msg.py\<close>.\<close>

definition EXT2FCLS :: "(string \<times> MessageType \<times> FileType) list" where
  "EXT2FCLS =
     [(''imageMessage'', T_file_image, F_image),
      (''stickerMessage'', T_file_image, F_image),
      (''videoMessage'', T_file_video, F_video),
      (''audioMessage'', T_file_audio, F_audio),
      (''documentMessage'', T_file_doc, F_other)]"

definition IGNORE_MTYPE :: "string list" where
  "IGNORE_MTYPE = [''pollUpdateMessage'', ''interactiveButtonsReply'', ''templateButtonsReplyMessage'']"

definition TEXT_MTYPES :: "string list" where
  "TEXT_MTYPES = [''textMessage'', ''extendedTextMessage'', ''reactionMessage'', ''quotedMessage'']"

fun mapE :: "('a \<Rightarrow> 'e + 'b) \<Rightarrow> 'a list \<Rightarrow> 'e + 'b list" where
  "mapE f [] = Inr []"
| "mapE f (x # xs) = bindE (f x) (\<lambda>y. bindE (mapE f xs) (\<lambda>ys. Inr (y # ys)))"

text \<open>
  What a \<^verbatim>\<open>for\<close> loop sees in a value: the items of a list, the characters of a string,
  the keys of a dict; anything else is not iterable.
\<close>

definition iter_items :: "json \<Rightarrow> py_error + json list" where
  "iter_items v =
     (case v of
        JArr xs \<Rightarrow> Inr xs
      | JStr s \<Rightarrow> Inr (map (\<lambda>c. JStr [c]) s)
      | JObj kvs \<Rightarrow> Inr (map (\<lambda>kv. JStr (fst kv)) kvs)
      | _ \<Rightarrow> Inl TypeError)"

text \<open>
  \<^verbatim>\<open>_location_to_text\<close>. The source writes \<^verbatim>\<open>d['longitude' or "--"]\<close>, which reads the
  key \<^verbatim>\<open>longitude\<close>.
\<close>

definition location_to_text :: "json \<Rightarrow> py_error + string" where
  "location_to_text data =
     bindE (subscript data ''locationMessageData'') (\<lambda>d.
     bindE (get d ''nameLocation'') (\<lambda>nm.
     bindE (get_default d ''address'' (JStr [])) (\<lambda>addr.
     bindE (subscript d ''latitude'') (\<lambda>lat.
     bindE (subscript d ''longitude'') (\<lambda>lon.
       Inr (''<mestopolozhenie>'' @ nl @ py_str (py_or nm (JStr [])) @ nl @ py_str addr @ nl
            @ ''shir. '' @ py_str (py_or lat (JStr ''--'')) @ '', dolg. '' @ py_str lon))))))"

definition contact_to_text :: "json \<Rightarrow> py_error + string" where
  "contact_to_text d =
     bindE (get d ''displayName'') (\<lambda>dn.
     bindE (subscript d ''vcard'') (\<lambda>vc.
     bindE (as_str vc) (\<lambda>v.
       Inr (''<kontakt>'' @ nl @ py_str (py_or dn (JStr ''Contact'')) @ '':'' @ nl
            @ join '', '' (List.map_filter (after_last ''waid='') (splitlines v))))))"

definition contacts_to_text :: "json \<Rightarrow> py_error + string" where
  "contacts_to_text mdata =
     bindE (subscript mdata ''messageData'') (\<lambda>md.
     bindE (subscript md ''contacts'') (\<lambda>arr.
     bindE (iter_items arr) (\<lambda>cs.
     bindE (mapE contact_to_text cs) (\<lambda>ts. Inr (join nl ts)))))"

definition group_invite_to_text :: "json \<Rightarrow> py_error + string" where
  "group_invite_to_text mdata =
     bindE (subscript mdata ''groupInviteMessageData'') (\<lambda>g.
     bindE (subscript g ''groupName'') (\<lambda>gn.
     bindE (subscript g ''groupJid'') (\<lambda>gj.
       Inr (''<priglashenie v gruppu>'' @ nl @ py_str gn @ '' ('' @ py_str gj @ '')''))))"

definition poll_to_text :: "json \<Rightarrow> py_error + string" where
  "poll_to_text mdata =
     bindE (subscript mdata ''pollMessageData'') (\<lambda>p.
     bindE (subscript p ''options'') (\<lambda>ops.
     bindE (iter_items ops) (\<lambda>items.
     bindE (mapE (\<lambda>opt. bindE (subscript opt ''optionName'') (\<lambda>n. Inr (''- '' @ py_str n))) items)
       (\<lambda>opts.
     bindE (subscript p ''name'') (\<lambda>name.
       Inr (''<opros>'' @ nl @ py_str name @ nl @ join nl opts))))))"

text \<open>\<^verbatim>\<open>" | ".join(...)\<close> takes strings only.\<close>

definition join_item :: "json \<Rightarrow> py_error + string" where
  "join_item v = (case v of JStr s \<Rightarrow> Inr s | _ \<Rightarrow> Inl TypeError)"

definition buttons_to_text :: "json \<Rightarrow> py_error + string" where
  "buttons_to_text mdata =
     bindE (subscript mdata ''interactiveButtons'') (\<lambda>b.
     bindE (subscript b ''buttons'') (\<lambda>bs.
     bindE (iter_items bs) (\<lambda>items.
     bindE (mapE (\<lambda>btn. subscript btn ''buttonText'') items) (\<lambda>labels.
     bindE (mapE join_item labels) (\<lambda>btns.
     bindE (get_default b ''titleText'' (JStr [])) (\<lambda>title.
     bindE (subscript b ''contentText'') (\<lambda>content.
       Inr (py_str title @ nl @ py_str content @ nl @ ''-------'' @ nl @ join '' | '' btns))))))))"

text \<open>The text branch: the field a text-like type carries its text in.\<close>

definition text_of_mdata :: "json \<Rightarrow> string \<Rightarrow> py_error + json" where
  "text_of_mdata mdata mtype =
     (if mtype = ''textMessage''
      then bindE (subscript mdata ''textMessageData'') (\<lambda>d. subscript d ''textMessage'')
      else bindE (subscript mdata ''extendedTextMessageData'') (\<lambda>d. subscript d ''text''))"

text \<open>
  The media branch, before the network: the file section, the file name, the caption
  and the inline download URL.
  \<^verbatim>\<open>
    fm = mdata["fileMessageData"]
    fname = fm.get("fileName")
    if not fname:
        path = unquote(urlparse(fm.get("downloadUrl", "")).path)
        fname = os.path.basename(path) or f"{msg.wa_message_id}"
    if '.' not in fname and fm.get("mimeType"):
        ext = fm["mimeType"].split('/')[-1]
        fname = f"{fname}.{ext}"
    fcaption = fm.get("caption")
    dl_url = fm.get("downloadUrl")
  \<close>
  A file name or URL that is not text raises where the code first uses it as text.
\<close>

definition url_text :: "json \<Rightarrow> py_error + string" where
  "url_text v = (case v of JStr u \<Rightarrow> Inr u | JNull \<Rightarrow> Inr [] | _ \<Rightarrow> Inl AttributeError)"

definition file_name :: "env \<Rightarrow> json \<Rightarrow> json \<Rightarrow> py_error + string" where
  "file_name e fm wa =
     bindE (get fm ''fileName'') (\<lambda>fname0.
     bindE (if truthy fname0 then (case fname0 of JStr s \<Rightarrow> Inr s | _ \<Rightarrow> Inl TypeError)
            else bindE (get_default fm ''downloadUrl'' (JStr [])) (\<lambda>u0.
                 bindE (url_text u0) (\<lambda>u.
                   Inr (if url_basename e u \<noteq> [] then url_basename e u else py_str wa))))
       (\<lambda>fname1.
     bindE (get fm ''mimeType'') (\<lambda>mt.
       if CHR ''.'' \<notin> set fname1 \<and> truthy mt
       then bindE (as_str mt) (\<lambda>ms. Inr (fname1 @ ''.'' @ last_segment CHR ''/'' ms))
       else Inr fname1)))"

text \<open>
  \<^verbatim>\<open>
    async with im.get_client(payload["instanceData"]["idInstance"]) as cl:
        if not dl_url:
            dl_url = await cl.download_file(chat_id=msg.chat_id,
                                            id_message=msg.wa_message_id) or ""
  \<close>
  A manager with no client for the account raises KeyError
  (\<^verbatim>\<open>yield self._clients[api_id]\<close>).
\<close>

definition resolve_url :: "env \<Rightarrow> json \<Rightarrow> Message \<Rightarrow> json \<Rightarrow> py_error + json" where
  "resolve_url e payload msg dl_url =
     bindE (subscript payload ''instanceData'') (\<lambda>idata.
     bindE (subscript idata ''idInstance'') (\<lambda>api.
       if \<not> has_client e api then Inl (KeyError ''api_id'')
       else if \<not> truthy dl_url then
         bindE (client_download_file e (chat_id msg) (wa_message_id msg))
           (\<lambda>r. Inr (py_or r (JStr [])))
       else Inr dl_url))"

text \<open>The placeholder of a message whose file could not be downloaded.\<close>

definition not_downloaded_text :: "json \<Rightarrow> json \<Rightarrow> string" where
  "not_downloaded_text fcaption fname0 =
     (if truthy fcaption
      then py_str fcaption @ nl @ ''<Ne udalos skachat fail ('' @ py_str (py_or fname0 (JStr ''--'')) @ '')>''
      else ''<Ne udalos skachat fail ('' @ py_str (py_or fname0 (JStr ''no-name'')) @ '')>'')"

definition media_branch ::
  "env \<Rightarrow> json \<Rightarrow> json \<Rightarrow> MessageType \<Rightarrow> FileType \<Rightarrow> Message \<Rightarrow> world
     \<Rightarrow> (py_error + Message) \<times> world" where
  "media_branch e payload mdata mt fcls msg0 w =
     (let msg = msg0\<lparr>message_type := mt\<rparr> in
      case bindE (subscript mdata ''fileMessageData'') (\<lambda>fm.
           bindE (file_name e fm (wa_message_id msg)) (\<lambda>fname.
           bindE (get fm ''caption'') (\<lambda>fcaption.
           bindE (get fm ''downloadUrl'') (\<lambda>dl_url0.
           bindE (resolve_url e payload msg dl_url0) (\<lambda>dl_url.
           bindE (get fm ''fileName'') (\<lambda>fname0.
             Inr (fm, fname, fcaption, dl_url, fname0))))))) of
        Inl er \<Rightarrow> (Inl er, w)
      | Inr (fm, fname, fcaption, dl_url, fname0) \<Rightarrow>
          (case download_safe e dl_url fname w of
             (Inl er, w1) \<Rightarrow> (Inl er, w1)
           | (Inr None, w1) \<Rightarrow>
               (Inr (msg\<lparr>message_type := T_text,
                         msg_text := JStr (not_downloaded_text fcaption fname0)\<rparr>), w1)
           | (Inr (Some (fpath, fsize)), w1) \<Rightarrow>
               (bindE (subscript fm ''mimeType'') (\<lambda>mm.
                bindE (public_url e fpath) (\<lambda>url.
                  Inr (msg\<lparr>files := files msg @
                              [\<lparr>file_type = fcls, f_name = fname, mime = mm, file_path = fpath,
                                file_url = url, f_size = fsize\<rparr>],
                            msg_text := fcaption\<rparr>))), w1)))"

text \<open>The branch on the message type, in the order of the source.\<close>

definition with_text :: "Message \<Rightarrow> py_error + string \<Rightarrow> py_error + Message" where
  "with_text msg r = bindE r (\<lambda>t. Inr (msg\<lparr>message_type := T_text, msg_text := JStr t\<rparr>))"

definition fill_content ::
  "env \<Rightarrow> json \<Rightarrow> json \<Rightarrow> json \<Rightarrow> Message \<Rightarrow> world \<Rightarrow> (py_error + Message) \<times> world" where
  "fill_content e payload mdata mtype msg w =
     (case mtype of
        JStr t \<Rightarrow>
          if t \<in> set TEXT_MTYPES then
            (bindE (text_of_mdata mdata t)
               (\<lambda>v. Inr (msg\<lparr>message_type := T_text, msg_text := v\<rparr>)), w)
          else
            (case map_of EXT2FCLS t of
               Some (mt, fcls) \<Rightarrow> media_branch e payload mdata mt fcls msg w
             | None \<Rightarrow>
                 if t = ''locationMessage'' then (with_text msg (location_to_text mdata), w)
                 else if t = ''contactMessage'' then
                   (with_text msg
                      (bindE (subscript mdata ''contactMessageData'') contact_to_text), w)
                 else if t = ''contactsArrayMessage'' then
                   (with_text msg (contacts_to_text mdata), w)
                 else if t = ''groupInviteMessage'' then
                   (with_text msg (group_invite_to_text mdata), w)
                 else if t = ''pollMessage'' then (with_text msg (poll_to_text mdata), w)
                 else if t = ''interactiveButtons'' then
                   (with_text msg (buttons_to_text mdata), w)
                 else
                   (with_text msg
                      (Inr (''<Soobshchenie nepredusmotrennogo tipa: '' @ t @ ''>'')), w))
      | _ \<Rightarrow>
          (with_text msg
             (Inr (''<Soobshchenie nepredusmotrennogo tipa: '' @ py_str mtype @ ''>'')), w))"

text \<open>\<^verbatim>\<open>datetime.utcfromtimestamp(payload["timestamp"])\<close> takes a number.\<close>

definition utcfromtimestamp :: "json \<Rightarrow> py_error + json" where
  "utcfromtimestamp v =
     (case v of JInt n \<Rightarrow> Inr v | JFloat r \<Rightarrow> Inr v | _ \<Rightarrow> Inl TypeError)"

text \<open>
  The head of \<^verbatim>\<open>payload_to_msg\<close>: the message type, and the ignored types.
\<close>

definition classify :: "json \<Rightarrow> py_error + json \<times> json \<times> bool" where
  "classify payload =
     bindE (subscript payload ''messageData'') (\<lambda>mdata.
     bindE (subscript mdata ''typeMessage'') (\<lambda>mtype.
     bindE (in_strs mtype IGNORE_MTYPE) (\<lambda>ign. Inr (mdata, mtype, ign))))"

definition sender_of :: "json \<Rightarrow> py_error + string \<times> string \<times> json" where
  "sender_of payload =
     bindE (subscript payload ''senderData'') (\<lambda>sd.
     bindE (subscript sd ''chatId'') (\<lambda>c.
     bindE (as_str c) (\<lambda>chat.
     bindE (rsplit1 CHR ''@'' chat) (\<lambda>(phone, gtype).
     bindE (get sd ''senderName'') (\<lambda>sn.
       Inr (chat, phone, py_or sn (JStr phone)))))))"

definition payload_to_msg ::
  "env \<Rightarrow> json \<Rightarrow> int \<Rightarrow> bool \<Rightarrow> bool \<Rightarrow> world \<Rightarrow> (py_error + Message option) \<times> world" where
  "payload_to_msg e payload db_instance_id incoming archived w =
     (case classify payload of
        Inl er \<Rightarrow> (Inl er, w)
      | Inr (mdata, mtype, ign) \<Rightarrow>
          if ign then (Inr None, w)
          else
            (case sender_of payload of
               Inl er \<Rightarrow> (Inl er, w)
             | Inr (chat, phone, cname) \<Rightarrow>
                 (case get_or_create_conversation db_instance_id chat phone cname w of
                    (conv, w1) \<Rightarrow>
                      (case bindE (subscript payload ''idMessage'') (\<lambda>wa.
                            bindE (subscript payload ''timestamp'') (\<lambda>ts.
                            bindE (utcfromtimestamp ts) (\<lambda>t. Inr (wa, t)))) of
                         Inl er \<Rightarrow> (Inl er, w1)
                       | Inr (wa, t) \<Rightarrow>
                           (case fill_content e payload mdata mtype
                                   \<lparr>row_id = None, instance_id = db_instance_id,
                                    conversation_id = conv_id conv, wa_message_id = wa,
                                    tg_message_id = None, chat_id = chat, chat_name = cname,
                                    created_at = t, from_app = False,
                                    direction = (if incoming then D_inc else D_out),
                                    status = S_incoming, message_type = T_notification,
                                    msg_text = JNull, is_archived = archived, files = []\<rparr>
                                   w1 of
                              (Inl er, w2) \<Rightarrow> (Inl er, w2)
                            | (Inr m, w2) \<Rightarrow> (Inr (Some m), w2))))))"

section \<open>Webhook handlers\<close>

text \<open>\<^verbatim>\<open>app/green_api/webhook.py\<close>.\<close>

definition instance_of :: "json \<Rightarrow> py_error + json" where
  "instance_of payload =
     bindE (subscript payload ''instanceData'') (\<lambda>d. subscript d ''idInstance'')"

text \<open>
  The end of \<^verbatim>\<open>_handle_incoming\<close>:
  \<^verbatim>\<open>
    try:
        db.add(msg)
        await db.commit()
        logger.info("Saved msg %s / %s", msg.instance_id, msg.wa_message_id)
    except IntegrityError:
        await db.rollback()
        logger.warning("Dup webhook skipped (%s, %s)", msg.instance_id, msg.wa_message_id)
  \<close>
\<close>

definition incoming_commit :: "Message \<Rightarrow> world \<Rightarrow> (py_error + unit) \<times> world" where
  "incoming_commit msg w =
     (case add_commit msg w of
        (Inr r, w1) \<Rightarrow> (Inr (), log_msg INFO ''Saved msg'' w1)
      | (Inl IntegrityError, w1) \<Rightarrow> (Inr (), log_msg WARNING ''Dup webhook skipped'' w1)
      | (Inl er, w1) \<Rightarrow> (Inl er, w1))"

text \<open>
  \<^verbatim>\<open>_handle_incoming\<close>. For an ignored type \<^verbatim>\<open>payload_to_msg\<close> returns \<^verbatim>\<open>None\<close>, and
  the branch \<^verbatim>\<open>if not msg:\<close> builds its log line from \<^verbatim>\<open>msg.wa_message_id\<close>, which
  raises AttributeError on \<^verbatim>\<open>None\<close> before anything is logged.
\<close>

definition handle_incoming :: "env \<Rightarrow> json \<Rightarrow> world \<Rightarrow> (py_error + unit) \<times> world" where
  "handle_incoming e payload w =
     (case bindE (instance_of payload) (\<lambda>a. resolve_internal_id a w) of
        Inl er \<Rightarrow> (Inl er, w)
      | Inr None \<Rightarrow> (Inr (), log_msg WARNING ''Webhook for unknown instance'' w)
      | Inr (Some inst_db_id) \<Rightarrow>
          (case payload_to_msg e payload inst_db_id True False w of
             (Inl er, w1) \<Rightarrow> (Inl er, w1)
           | (Inr None, w1) \<Rightarrow> (Inl AttributeError, w1)
           | (Inr (Some msg), w1) \<Rightarrow> incoming_commit msg w1))"

text \<open>
  The end of \<^verbatim>\<open>_handle_outgoing\<close>: the violation is logged; the pending insert is
  dropped when the session closes.
\<close>

definition outgoing_commit :: "Message \<Rightarrow> world \<Rightarrow> (py_error + unit) \<times> world" where
  "outgoing_commit msg w =
     (case add_commit msg w of
        (Inr r, w1) \<Rightarrow> (Inr (), log_msg INFO ''Saved OUT msg'' w1)
      | (Inl IntegrityError, w1) \<Rightarrow> (Inr (), log_msg DEBUG ''Race dup - unique constraint won'' w1)
      | (Inl er, w1) \<Rightarrow> (Inl er, w1))"

text \<open>\<^verbatim>\<open>if exists:\<close> on the id the query returns.\<close>

definition message_exists :: "int \<Rightarrow> json \<Rightarrow> world \<Rightarrow> bool" where
  "message_exists i wa w =
     (case find_message i wa w of
        None \<Rightarrow> False
      | Some r \<Rightarrow> (case row_id r of None \<Rightarrow> False | Some n \<Rightarrow> n \<noteq> 0))"

definition handle_outgoing :: "env \<Rightarrow> json \<Rightarrow> world \<Rightarrow> (py_error + unit) \<times> world" where
  "handle_outgoing e payload w =
     (case bindE (instance_of payload) (\<lambda>a.
           bindE (subscript payload ''idMessage'') (\<lambda>wa.
           bindE (resolve_internal_id a w) (\<lambda>r. Inr (wa, r)))) of
        Inl er \<Rightarrow> (Inl er, w)
      | Inr (wa, None) \<Rightarrow> (Inr (), log_msg WARNING ''Webhook for unknown instance'' w)
      | Inr (wa, Some inst_db_id) \<Rightarrow>
          if message_exists inst_db_id wa w then
            (Inr (), log_msg DEBUG ''Dup OUT msg - skip download/parse'' w)
          else
            (case payload_to_msg e payload inst_db_id False False w of
               (Inl er, w1) \<Rightarrow> (Inl er, w1)
             | (Inr None, w1) \<Rightarrow> (Inr (), w1)
             | (Inr (Some msg), w1) \<Rightarrow>
                 outgoing_commit (msg\<lparr>direction := D_out, from_app := False\<rparr>) w1))"

text \<open>
  \<^verbatim>\<open>app/utils/messages.py\<close>, \<^verbatim>\<open>notify_send_error\<close>: a system message with the error
  text, next to the original. Its insert fires the \<^verbatim>\<open>msg_in\<close> trigger, which is what
  tells the Telegram side.
\<close>

definition ERR_PREFIX :: string where
  "ERR_PREFIX = ''(!) Ne udalos otpravit soobshchenie: ''"

definition sys_msg :: "Message \<Rightarrow> string \<Rightarrow> Message" where
  "sys_msg orig reason =
     \<lparr>row_id = None, instance_id = instance_id orig,
      conversation_id = conversation_id orig, wa_message_id = JNull,
      tg_message_id = None, chat_id = chat_id orig, chat_name = chat_name orig,
      created_at = JNull, from_app = True, direction = D_sys,
      status = S_incoming, message_type = T_notification,
      msg_text = JStr (ERR_PREFIX @ nl @ ''```'' @ reason @ ''```''),
      is_archived = False, files = []\<rparr>"

definition notify_send_error :: "Message \<Rightarrow> string \<Rightarrow> world \<Rightarrow> (py_error + unit) \<times> world" where
  "notify_send_error orig reason w =
     (case add_commit (sys_msg orig reason) w of
        (Inl er, w1) \<Rightarrow> (Inl er, w1)
      | (Inr r, w1) \<Rightarrow> (Inr (), w1))"

definition STATUS2ENUM :: "(string \<times> MessageStatus) list" where
  "STATUS2ENUM =
     [(''sent'', S_sent), (''delivered'', S_delivered), (''read'', S_read),
      (''failed'', S_error_api), (''noAccount'', S_error_api), (''notInGroup'', S_error_api)]"

text \<open>\<^verbatim>\<open>_STATUS2ENUM.get(payload.get("status"))\<close>.\<close>

definition status_of :: "json \<Rightarrow> py_error + MessageStatus option" where
  "status_of payload =
     bindE (get payload ''status'') (\<lambda>v.
       case v of
         JStr s \<Rightarrow> Inr (map_of STATUS2ENUM s)
       | JArr _ \<Rightarrow> Inl TypeError
       | JObj _ \<Rightarrow> Inl TypeError
       | _ \<Rightarrow> Inr None)"

text \<open>
  \<^verbatim>\<open>desc = payload.get("description") or payload["status"] or "..."\<close>, in the text
  \<^verbatim>\<open>f"oshibka API ({desc})"\<close>.
\<close>

definition error_reason :: "json \<Rightarrow> py_error + string" where
  "error_reason payload =
     bindE (get payload ''description'') (\<lambda>d.
     bindE (if truthy d then Inr d
            else bindE (subscript payload ''status'')
                   (\<lambda>st. Inr (py_or st (JStr ''neizvestnaya oshibka''))))
       (\<lambda>desc. Inr (''oshibka API ('' @ py_str desc @ '')'')))"

text \<open>
  \<^verbatim>\<open>_handle_status\<close>:
  \<^verbatim>\<open>
    inst_id = payload["instanceData"]["idInstance"]
    wa_id = payload["idMessage"]
    new_st = _STATUS2ENUM.get(payload.get("status"))
    if not new_st:
        logger.debug("Unknown status %s; skip", payload.get("status"))
        return
    ...
        if not msg:
            logger.debug("Status for unknown msg %s - ignore", wa_id)
            return
        if msg.status == new_st:
            return
        msg.status = new_st
        await db.commit()
        if new_st == MessageStatus.error_api:
            desc = ...
            await notify_send_error(db, msg, f"oshibka API ({desc})")
        logger.info("Msg %s -> %s", wa_id, new_st.value)
  \<close>
\<close>

definition handle_status :: "json \<Rightarrow> world \<Rightarrow> (py_error + unit) \<times> world" where
  "handle_status payload w =
     (case bindE (instance_of payload) (\<lambda>a.
           bindE (subscript payload ''idMessage'') (\<lambda>wa.
           bindE (status_of payload) (\<lambda>st. Inr (a, wa, st)))) of
        Inl er \<Rightarrow> (Inl er, w)
      | Inr (a, wa, None) \<Rightarrow> (Inr (), log_msg DEBUG ''Unknown status; skip'' w)
      | Inr (a, wa, Some new_st) \<Rightarrow>
          (case resolve_internal_id a w of
             Inl er \<Rightarrow> (Inl er, w)
           | Inr None \<Rightarrow> (Inr (), log_msg WARNING ''Webhook for unknown instance'' w)
           | Inr (Some inst_db_id) \<Rightarrow>
               (case find_message inst_db_id wa w of
                  None \<Rightarrow> (Inr (), log_msg DEBUG ''Status for unknown msg - ignore'' w)
                | Some msg \<Rightarrow>
                    if status msg = new_st then (Inr (), w)
                    else
                      (let msg' = msg\<lparr>status := new_st\<rparr>; w1 = update_row msg' w in
                       if new_st = S_error_api then
                         (case error_reason payload of
                            Inl er \<Rightarrow> (Inl er, w1)
                          | Inr reason \<Rightarrow>
                              (case notify_send_error msg' reason w1 of
                                 (Inl er, w2) \<Rightarrow> (Inl er, w2)
                               | (Inr u, w2) \<Rightarrow> (Inr (), log_msg INFO ''Msg status'' w2)))
                       else (Inr (), log_msg INFO ''Msg status'' w1)))))"

text \<open>
  \<^verbatim>\<open>_handle_call\<close>: one row per call, created at the first notification and
  retitled by the later ones.
\<close>

definition CALL_STATUS_HUMAN :: "(string \<times> string) list" where
  "CALL_STATUS_HUMAN =
     [(''offer'', ''vhodyashchii zvonok''), (''pickUp'', ''prinyatyi zvonok''),
      (''hangUp'', ''sbroshennyi zvonok''),
      (''missed'', ''propushchennyi zvonok (otmenen zvonivshim)''),
      (''declined'', ''propushchennyi zvonok'')]"

definition strip :: "string \<Rightarrow> string" where
  "strip s = rev (dropWhile is_space (rev (dropWhile is_space s)))"

definition call_human :: "json \<Rightarrow> py_error + string" where
  "call_human st =
     (case st of
        JStr s \<Rightarrow> Inr (case map_of CALL_STATUS_HUMAN s of None \<Rightarrow> s | Some h \<Rightarrow> h)
      | JArr _ \<Rightarrow> Inl TypeError
      | JObj _ \<Rightarrow> Inl TypeError
      | _ \<Rightarrow> Inr (py_str st))"

definition handle_call :: "json \<Rightarrow> world \<Rightarrow> (py_error + unit) \<times> world" where
  "handle_call payload w =
     (case bindE (instance_of payload) (\<lambda>a.
           bindE (subscript payload ''idMessage'') (\<lambda>wa.
           bindE (subscript payload ''from'') (\<lambda>c.
           bindE (subscript payload ''status'') (\<lambda>st.
           bindE (as_str c) (\<lambda>chat.
           bindE (rsplit1 CHR ''@'' chat) (\<lambda>(phone, gtype).
           bindE (call_human st) (\<lambda>human.
           bindE (resolve_internal_id a w) (\<lambda>r.
             Inr (wa, chat, (if strip gtype = ''g.us'' then phone @ '' (group)'' else phone),
                  human, r))))))))) of
        Inl er \<Rightarrow> (Inl er, w)
      | Inr (wa, chat, cname, human, None) \<Rightarrow>
          (Inr (), log_msg WARNING ''Webhook for unknown instance'' w)
      | Inr (wa, chat, cname, human, Some inst_db_id) \<Rightarrow>
          (let row = find_message inst_db_id wa w;
               first = takeWhile (\<lambda>x. x \<noteq> CHR ''@'') chat
           in case get_or_create_conversation inst_db_id chat first (JStr first) w of
                (conv, w1) \<Rightarrow>
                  (case row of
                     None \<Rightarrow>
                       (case add_commit
                               \<lparr>row_id = None, instance_id = inst_db_id,
                                conversation_id = conv_id conv, wa_message_id = wa,
                                tg_message_id = None, chat_id = chat, chat_name = JStr cname,
                                created_at = JNull, from_app = False, direction = D_inc,
                                status = S_incoming, message_type = T_call,
                                msg_text = JStr (''[call] '' @ human),
                                is_archived = False, files = []\<rparr> w1 of
                          (Inl IntegrityError, w2) \<Rightarrow> (Inr (), w2)
                        | (Inl er, w2) \<Rightarrow> (Inl er, w2)
                        | (Inr r, w2) \<Rightarrow> (Inr (), w2))
                   | Some r \<Rightarrow>
                       (Inr (), update_row (r\<lparr>msg_text := JStr (''[call] '' @ human)\<rparr>) w1))))"

text \<open>
  \<^verbatim>\<open>green_webhook\<close>: the handler registered for the payload's \<^verbatim>\<open>typeWebhook\<close>, or a
  warning for a type with no handler. An exception of a handler is the request's. The
  handler of \<^verbatim>\<open>stateInstanceChanged\<close> works on the account row and is a parameter here.
\<close>

definition green_webhook ::
  "env \<Rightarrow> (json \<Rightarrow> world \<Rightarrow> (py_error + unit) \<times> world) \<Rightarrow> json \<Rightarrow> world
     \<Rightarrow> (py_error + unit) \<times> world" where
  "green_webhook e handle_state payload w =
     (case get payload ''typeWebhook'' of
        Inl er \<Rightarrow> (Inl er, w)
      | Inr (JArr xs) \<Rightarrow> (Inl TypeError, w)
      | Inr (JObj kvs) \<Rightarrow> (Inl TypeError, w)
      | Inr (JStr k) \<Rightarrow>
          if k = ''incomingCall'' then handle_call payload w
          else if k = ''outgoingMessageReceived'' \<or> k = ''outgoingAPIMessageReceived''
            then handle_outgoing e payload w
          else if k = ''outgoingMessageStatus'' then handle_status payload w
          else if k = ''stateInstanceChanged'' then handle_state payload w
          else if k = ''incomingMessageReceived'' then handle_incoming e payload w
          else (Inr (), log_msg WARNING ''Unhandled webhook'' w)
      | Inr v \<Rightarrow> (Inr (), log_msg WARNING ''Unhandled webhook'' w))"

text \<open>The constraint, as a property of the table.\<close>

definition uq_msg_wa :: "Message list \<Rightarrow> bool" where
  "uq_msg_wa rows =
     distinct (map (\<lambda>r. (instance_id r, wa_message_id r))
                 (filter (\<lambda>r. wa_message_id r \<noteq> JNull) rows))"

text \<open>The number of rows of one account with one provider id.\<close>

definition rows_with :: "int \<Rightarrow> json \<Rightarrow> world \<Rightarrow> nat" where
  "rows_with i wa w =
     length (filter (\<lambda>r. instance_id r = i \<and> wa_message_id r = wa) (messages w))"

section \<open>The history adapter\<close>

text \<open>\<^verbatim>\<open>app/utils/history_downloader.py\<close>.\<close>

definition FILE_MTYPES :: "string list" where
  "FILE_MTYPES =
     [''imageMessage'', ''videoMessage'', ''audioMessage'', ''documentMessage'', ''stickerMessage'']"

text \<open>\<^verbatim>\<open>_mk_sender\<close>.\<close>

definition mk_sender :: "json \<Rightarrow> py_error + json" where
  "mk_sender entry =
     bindE (subscript entry ''chatId'') (\<lambda>chat.
     bindE (get_default entry ''senderId'' chat) (\<lambda>sender.
     bindE (get_default entry ''senderName'' (JStr [])) (\<lambda>sname.
     bindE (get_default entry ''senderContactName'' (JStr [])) (\<lambda>cname.
       Inr (JObj [(''chatId'', chat), (''sender'', sender), (''chatName'', sname),
                  (''senderName'', sname), (''senderContactName'', cname)])))))"

text \<open>\<^verbatim>\<open>_file_section\<close>.\<close>

definition file_section :: "json \<Rightarrow> py_error + json" where
  "file_section entry =
     bindE (get entry ''downloadUrl'') (\<lambda>url.
     bindE (get entry ''caption'') (\<lambda>cap.
     bindE (get entry ''fileName'') (\<lambda>fname.
     bindE (get entry ''jpegThumbnail'') (\<lambda>thumb.
     bindE (get entry ''mimeType'') (\<lambda>mt.
     bindE (get_default entry ''isAnimated'' (JBool False)) (\<lambda>anim.
       Inr (JObj [(''downloadUrl'', url), (''caption'', py_or cap (JStr [])),
                  (''fileName'', py_or fname (JStr [])),
                  (''jpegThumbnail'', py_or thumb (JStr [])),
                  (''mimeType'', py_or mt (JStr [])), (''isAnimated'', anim)])))))))"

text \<open>\<^verbatim>\<open>"k" in entry\<close> for a dict.\<close>

definition has_key :: "json \<Rightarrow> string \<Rightarrow> bool" where
  "has_key d k = (case d of JObj kvs \<Rightarrow> map_of kvs k \<noteq> None | _ \<Rightarrow> False)"

text \<open>
  The type-specific part of \<^verbatim>\<open>history_entry_to_payload\<close>: the keys added to
  \<^verbatim>\<open>messageData\<close> after \<^verbatim>\<open>typeMessage\<close>.
\<close>

definition entry_mdata :: "json \<Rightarrow> json \<Rightarrow> py_error + (string \<times> json) list" where
  "entry_mdata entry mtype =
     (if mtype = JStr ''textMessage'' then
        bindE (subscript entry ''textMessage'') (\<lambda>t.
          Inr [(''textMessageData'', JObj [(''textMessage'', t)])])
      else if mtype = JStr ''extendedTextMessage'' then
        bindE (get entry ''textMessage'') (\<lambda>t.
        bindE (if truthy t then Inr t
               else bindE (subscript entry ''extendedTextMessage'') (\<lambda>x. subscript x ''text''))
          (\<lambda>txt. Inr [(''extendedTextMessageData'', JObj [(''text'', txt)])]))
      else if mtype = JStr ''reactionMessage'' then
        bindE (subscript entry ''extendedTextMessageData'') (\<lambda>x.
          if has_key entry ''quotedMessage'' then
            bindE (subscript entry ''quotedMessage'') (\<lambda>q.
              Inr [(''extendedTextMessageData'', x), (''quotedMessage'', q)])
          else Inr [(''extendedTextMessageData'', x)])
      else if mtype = JStr ''quotedMessage'' then
        bindE (subscript entry ''extendedTextMessage'') (\<lambda>x.
        bindE (subscript entry ''quotedMessage'') (\<lambda>q.
          Inr [(''extendedTextMessageData'', x), (''quotedMessage'', q)]))
      else
        bindE (in_strs mtype FILE_MTYPES) (\<lambda>is_file.
          if is_file then
            bindE (file_section entry) (\<lambda>fsec. Inr [(''fileMessageData'', fsec)])
          else if mtype = JStr ''locationMessage'' then
            bindE (subscript entry ''location'') (\<lambda>x. Inr [(''locationMessageData'', x)])
          else if mtype = JStr ''contactMessage'' then
            bindE (subscript entry ''contact'') (\<lambda>x. Inr [(''contactMessageData'', x)])
          else if mtype = JStr ''contactsArrayMessage'' then
            bindE (subscript entry ''contacts'') (\<lambda>x.
              Inr [(''messageData'', JObj [(''contacts'', x)])])
          else if mtype = JStr ''pollMessage'' \<or> mtype = JStr ''pollUpdateMessage'' then
            bindE (subscript entry ''pollMessageData'') (\<lambda>x. Inr [(''pollMessageData'', x)])
          else if mtype = JStr ''interactiveButtons'' then
            bindE (subscript entry ''interactiveButtons'') (\<lambda>x. Inr [(''interactiveButtons'', x)])
          else Inr []))"

definition history_entry_to_payload :: "json \<Rightarrow> int \<Rightarrow> py_error + json" where
  "history_entry_to_payload entry api =
     bindE (subscript entry ''type'') (\<lambda>ty.
     bindE (if ty = JStr ''incoming'' then Inr ''incomingMessageReceived''
            else bindE (get entry ''sendByApi'') (\<lambda>by_api.
                   Inr (if truthy by_api then ''outgoingAPIMessageReceived''
                        else ''outgoingMessageReceived'')))
       (\<lambda>type_webhook.
     bindE (subscript entry ''idMessage'') (\<lambda>idm.
     bindE (subscript entry ''timestamp'') (\<lambda>ts.
     bindE (mk_sender entry) (\<lambda>sender.
     bindE (subscript entry ''typeMessage'') (\<lambda>mtype.
     bindE (entry_mdata entry mtype) (\<lambda>extra.
       Inr (JObj ([(''typeWebhook'', JStr type_webhook), (''idMessage'', idm),
                   (''timestamp'', ts), (''instanceData'', JObj [(''idInstance'', JInt api)]),
                   (''senderData'', sender),
                   (''messageData'', JObj ((''typeMessage'', mtype) # extra))]
                  @ (case subscript entry ''statusMessage'' of
                       Inr st \<Rightarrow> [(''status'', st)]
                     | Inl er \<Rightarrow> []))))))))))"

text \<open>
  One history entry in \<^verbatim>\<open>load_history\<close>, once it is known not to be stored yet:
  \<^verbatim>\<open>
    payload = history_entry_to_payload(entry, api_id)
    msg = await payload_to_msg(payload, db, db_instance_id=inst_db_id, im=cm,
                               incoming=entry["type"] == "incoming", archived=True)
  \<close>
\<close>

definition ingest_history_entry ::
  "env \<Rightarrow> json \<Rightarrow> int \<Rightarrow> int \<Rightarrow> world \<Rightarrow> (py_error + Message option) \<times> world" where
  "ingest_history_entry e entry api inst_db_id w =
     (case bindE (history_entry_to_payload entry api) (\<lambda>p.
           bindE (subscript entry ''type'') (\<lambda>ty. Inr (p, ty = JStr ''incoming''))) of
        Inl er \<Rightarrow> (Inl er, w)
      | Inr (p, incoming) \<Rightarrow> payload_to_msg e p inst_db_id incoming True w)"

section \<open>A history entry and its live payload\<close>

text \<open>
  The provider delivers a message once as a webhook payload and later lists it as an
  entry of the chat history; both shapes are the provider's. A payload is taken to be
  the native webhook payload of the live message that an entry records when it has the
  type tag derived from the entry's direction and API-origin flag, the entry's message
  id, timestamp, chat and sender name, the account's id, the entry's message type and,
  under the key of \<^verbatim>\<open>messageData\<close> that belongs to the type, what the entry carries
  for it. These definitions state that reading; they are not taken from the code.
\<close>

definition type_tag :: "json \<Rightarrow> py_error + json" where
  "type_tag entry =
     bindE (subscript entry ''type'') (\<lambda>ty.
       if ty = JStr ''incoming'' then Inr (JStr ''incomingMessageReceived'')
       else bindE (get entry ''sendByApi'') (\<lambda>by_api.
              Inr (JStr (if truthy by_api then ''outgoingAPIMessageReceived''
                         else ''outgoingMessageReceived''))))"

text \<open>The payload has, under \<open>k\<close>, what the entry has under \<open>f\<close>.\<close>

definition carries :: "json \<Rightarrow> string \<Rightarrow> json \<Rightarrow> string \<Rightarrow> bool" where
  "carries d k entry f =
     (case subscript entry f of Inr x \<Rightarrow> subscript d k = Inr x | Inl er \<Rightarrow> False)"

text \<open>The payload has, under \<open>k\<close> and then \<open>k'\<close>, the value \<open>r\<close>.\<close>

definition carries_in :: "json \<Rightarrow> string \<Rightarrow> string \<Rightarrow> py_error + json \<Rightarrow> bool" where
  "carries_in d k k' r =
     (case r of
        Inr x \<Rightarrow> bindE (subscript d k) (\<lambda>s. subscript s k') = Inr x
      | Inl er \<Rightarrow> False)"

text \<open>
  The text of an entry of an extended text message: its \<^verbatim>\<open>textMessage\<close>, or else the
  text of its \<^verbatim>\<open>extendedTextMessage\<close>.
\<close>

definition entry_text :: "json \<Rightarrow> py_error + json" where
  "entry_text entry =
     bindE (get entry ''textMessage'') (\<lambda>t.
       if truthy t then Inr t
       else bindE (subscript entry ''extendedTextMessage'') (\<lambda>x. subscript x ''text''))"

definition same_content :: "string \<Rightarrow> json \<Rightarrow> json \<Rightarrow> bool" where
  "same_content t entry mdata =
     (if t = ''textMessage'' then
        carries_in mdata ''textMessageData'' ''textMessage'' (subscript entry ''textMessage'')
      else if t = ''extendedTextMessage'' then
        carries_in mdata ''extendedTextMessageData'' ''text'' (entry_text entry)
      else if t = ''reactionMessage'' then
        carries mdata ''extendedTextMessageData'' entry ''extendedTextMessageData''
      else if t = ''quotedMessage'' then
        carries mdata ''extendedTextMessageData'' entry ''extendedTextMessage''
        \<and> carries mdata ''quotedMessage'' entry ''quotedMessage''
      else if t \<in> set FILE_MTYPES then
        (case subscript mdata ''fileMessageData'' of
           Inr fm \<Rightarrow>
             list_all (\<lambda>k. get fm k = get entry k)
               [''downloadUrl'', ''fileName'', ''mimeType'', ''caption'']
         | Inl er \<Rightarrow> False)
      else if t = ''locationMessage'' then carries mdata ''locationMessageData'' entry ''location''
      else if t = ''contactMessage'' then carries mdata ''contactMessageData'' entry ''contact''
      else if t = ''contactsArrayMessage'' then
        carries_in mdata ''messageData'' ''contacts'' (subscript entry ''contacts'')
      else if t = ''pollMessage'' \<or> t = ''pollUpdateMessage'' then
        carries mdata ''pollMessageData'' entry ''pollMessageData''
      else if t = ''interactiveButtons'' then
        carries mdata ''interactiveButtons'' entry ''interactiveButtons''
      else False)"

definition live_shape :: "json \<Rightarrow> int \<Rightarrow> json \<Rightarrow> bool" where
  "live_shape entry api p =
     ((case type_tag entry of Inr tag \<Rightarrow> subscript p ''typeWebhook'' = Inr tag | Inl er \<Rightarrow> False)
      \<and> carries p ''idMessage'' entry ''idMessage''
      \<and> carries p ''timestamp'' entry ''timestamp''
      \<and> carries_in p ''instanceData'' ''idInstance'' (Inr (JInt api))
      \<and> (case subscript p ''senderData'' of
            Inr sd \<Rightarrow> carries sd ''chatId'' entry ''chatId''
                      \<and> get sd ''senderName'' = get entry ''senderName''
          | Inl er \<Rightarrow> False)
      \<and> (case (subscript p ''messageData'', subscript entry ''typeMessage'') of
            (Inr mdata, Inr (JStr t)) \<Rightarrow>
              subscript mdata ''typeMessage'' = Inr (JStr t) \<and> same_content t entry mdata
          | _ \<Rightarrow> False))"

text \<open>The fields of a Message that the two routes are compared on.\<close>

definition content :: "Message \<Rightarrow> MessageType \<times> json \<times> nat" where
  "content m = (message_type m, msg_text m, length (files m))"

text \<open>
  The text of the history route against the text of the live route: the same, but for
  a message with an attachment, whose empty caption the history route stores as the
  empty string.
\<close>

definition history_content :: "Message \<Rightarrow> MessageType \<times> json \<times> nat" where
  "history_content m' =
     (message_type m',
      (if files m' = [] then msg_text m' else py_or (msg_text m') (JStr [])),
      length (files m'))"

section \<open>The rate limiter\<close>

text \<open>
  \<^verbatim>\<open>app/green_api/limiter.py\<close>. \<^verbatim>\<open>SmartLimiter\<close> extends the leaky bucket
  \<^verbatim>\<open>AsyncLimiter(max_rate, time_period)\<close> of the aiolimiter package with a period and
  a \<^verbatim>\<open>_blocked_until\<close> time. Time is a rational number of seconds; one clock stands for
  the event loop's clock and for \<^verbatim>\<open>datetime.utcnow()\<close>.
\<close>

record limiter =
  max_rate :: rat
  time_period :: rat
  period :: rat
  level :: rat
  last_check :: rat
  blocked_until :: "rat option"

text \<open>Python's \<^verbatim>\<open>round\<close>: to the nearest integer, a tie to the even one.\<close>

definition py_round :: "rat \<Rightarrow> int" where
  "py_round x =
     (let f = \<lfloor>x\<rfloor>; d = x - of_int f
      in if d < 1 / 2 then f else if 1 / 2 < d then f + 1 else if even f then f else f + 1)"

text \<open>
  \<^verbatim>\<open>
    if rps >= 1:
        super().__init__(max_rate=rps, time_period=1)
        self.period = 1 / rps
    else:
        period = round(1 / rps)
        super().__init__(max_rate=1, time_period=period)
        self.period = period
    self._blocked_until = None
  \<close>
\<close>

definition SmartLimiter :: "rat \<Rightarrow> py_error + limiter" where
  "SmartLimiter rps =
     (if 1 \<le> rps then
        Inr \<lparr>max_rate = rps, time_period = 1, period = 1 / rps, level = 0, last_check = 0,
             blocked_until = None\<rparr>
      else if rps = 0 then Inl ZeroDivisionError
      else
        Inr \<lparr>max_rate = 1, time_period = of_int (py_round (1 / rps)),
             period = of_int (py_round (1 / rps)), level = 0, last_check = 0,
             blocked_until = None\<rparr>)"

text \<open>
  The bucket of aiolimiter: it leaks \<open>max_rate / time_period\<close> per second; a slot is
  free when one more unit fits under \<open>max_rate\<close>; a caller that finds no room waits for
  the time one unit takes to leak and looks again.
\<close>

definition leak :: "rat \<Rightarrow> limiter \<Rightarrow> limiter" where
  "leak now l =
     l\<lparr>level := (if level l \<noteq> 0
                then max (level l - (now - last_check l) * (max_rate l / time_period l)) 0
                else level l),
       last_check := now\<rparr>"

partial_function (option) acquire :: "rat \<Rightarrow> limiter \<Rightarrow> (rat \<times> limiter) option" where
  "acquire now l =
     (if level (leak now l) + 1 \<le> max_rate l
      then Some (now, (leak now l)\<lparr>level := level (leak now l) + 1\<rparr>)
      else acquire (now + 1 / (max_rate l / time_period l)) (leak now l))"

text \<open>
  \<^verbatim>\<open>
    async def wait_slot(self) -> None:
        until = self._blocked_until
        if until:
            delay = (until - datetime.utcnow()).total_seconds()
            if delay > 0:
                await asyncio.sleep(delay)
        await self.acquire()

    def block(self) -> None:
        self._blocked_until = datetime.utcnow() + timedelta(seconds=self.period * 1.5)
  \<close>
  The result is the time at which the caller has its slot.
\<close>

definition wait_slot :: "rat \<Rightarrow> limiter \<Rightarrow> (rat \<times> limiter) option" where
  "wait_slot now l =
     (case blocked_until l of
        None \<Rightarrow> acquire now l
      | Some until \<Rightarrow> if 0 < until - now then acquire (now + (until - now)) l else acquire now l)"

definition block :: "rat \<Rightarrow> limiter \<Rightarrow> limiter" where
  "block now l = l\<lparr>blocked_until := Some (now + period l * (3 / 2))\<rparr>"

text \<open>\<^verbatim>\<open>async with limiter:\<close> is the bucket's \<^verbatim>\<open>__aenter__\<close>, which awaits \<^verbatim>\<open>acquire()\<close>.\<close>

definition aenter :: "rat \<Rightarrow> limiter \<Rightarrow> (rat \<times> limiter) option" where
  "aenter now l = acquire now l"

section \<open>The gateway client\<close>

text \<open>
  \<^verbatim>\<open>app/green_api/client.py\<close>. The client's state is its map of limiters. The table of
  rates per endpoint (\<^verbatim>\<open>app/green_api/limits.py\<close>) is not among the sources and is a
  parameter.
\<close>

record rates =
  METHOD_RPS :: "string \<rightharpoonup> rat"
  DEFAULT_RPS :: rat

type_synonym client = "string \<rightharpoonup> limiter"

record http_response =
  status_code :: nat
  body_text :: string
  body_json :: "json option"

text \<open>\<^verbatim>\<open>endpoint.split("/")[0]\<close>.\<close>

definition first_segment :: "string \<Rightarrow> string" where
  "first_segment s = takeWhile (\<lambda>c. c \<noteq> CHR ''/'') s"

text \<open>\<^verbatim>\<open>_get_limiter\<close>.\<close>

definition get_limiter :: "rates \<Rightarrow> string \<Rightarrow> client \<Rightarrow> py_error + limiter \<times> client" where
  "get_limiter rt method cl =
     (let base = first_segment method in
      case cl base of
        Some l \<Rightarrow> Inr (l, cl)
      | None \<Rightarrow>
          bindE (SmartLimiter (case METHOD_RPS rt base of None \<Rightarrow> DEFAULT_RPS rt | Some r \<Rightarrow> r))
            (\<lambda>l. Inr (l, cl(base \<mapsto> l))))"

text \<open>
  The classification of a response in \<^verbatim>\<open>_json\<close>, at the time \<open>t\<close> the response is
  there:
  \<^verbatim>\<open>
    if r.status == 429:
        limiter.block()
        raise GreenAPIThrottleError("429 Too Many Requests")
    if r.status >= 400:
        raise GreenAPIError(f"GREEN-API {r.status}: {await r.text()}")
    result = await r.json()
  \<close>
\<close>

definition classify_response ::
  "rat \<Rightarrow> http_response \<Rightarrow> limiter \<Rightarrow> (py_error + json) \<times> limiter" where
  "classify_response t r l =
     (if status_code r = 429 then
        (Inl (GreenAPIThrottleError ''429 Too Many Requests''), block t l)
      else if 400 \<le> status_code r then
        (Inl (GreenAPIError (''GREEN-API '' @ dec (status_code r) @ '': '' @ body_text r)), l)
      else
        (case body_json r of None \<Rightarrow> (Inl JSONDecodeError, l) | Some j \<Rightarrow> (Inr j, l)))"

text \<open>
  \<^verbatim>\<open>_json\<close>. The call is made at \<open>now\<close>; \<open>exchange\<close> is the network: given the time
  the request goes out, the time the answer is there and the answer, a response or the
  error the HTTP library raises. The result is \<open>None\<close> when the limiter never grants a
  slot.
\<close>

definition json_request ::
  "rates \<Rightarrow> string \<Rightarrow> rat \<Rightarrow> (rat \<Rightarrow> rat \<times> (py_error + http_response)) \<Rightarrow> client
     \<Rightarrow> ((py_error + json) \<times> rat \<times> client) option" where
  "json_request rt endpoint now exchange cl =
     (case get_limiter rt (first_segment endpoint) cl of
        Inl er \<Rightarrow> Some (Inl er, now, cl)
      | Inr (l, cl1) \<Rightarrow>
          (case aenter now l of
             None \<Rightarrow> None
           | Some (t_slot, l1) \<Rightarrow>
               (case exchange t_slot of
                  (t, Inl er) \<Rightarrow> Some (Inl er, t, cl1(first_segment endpoint \<mapsto> l1))
                | (t, Inr r) \<Rightarrow>
                    (case classify_response t r l1 of
                       (res, l2) \<Rightarrow> Some (res, t, cl1(first_segment endpoint \<mapsto> l2))))))"

text \<open>
  The public operations, each a call of \<^verbatim>\<open>_json\<close> on its endpoint and a step on the
  outcome. \<^verbatim>\<open>download_file\<close> catches the provider error; \<^verbatim>\<open>get_qr\<close> (its one-second
  cache is left out) catches both errors and, on the throttle error, blocks the limiter
  once more.
\<close>

datatype operation =
    GetSettings | GetState | Logout | SetSettings | LastIncoming | LastOutgoing
  | GetChatHistory | DownloadFile | SendMessage | SendFile | GetQr

fun endpoint_of :: "operation \<Rightarrow> string" where
  "endpoint_of GetSettings = ''getSettings''"
| "endpoint_of GetState = ''getStateInstance''"
| "endpoint_of Logout = ''logout''"
| "endpoint_of SetSettings = ''setSettings''"
| "endpoint_of LastIncoming = ''lastIncomingMessages''"
| "endpoint_of LastOutgoing = ''lastOutgoingMessages''"
| "endpoint_of GetChatHistory = ''getChatHistory''"
| "endpoint_of DownloadFile = ''downloadFile''"
| "endpoint_of SendMessage = ''sendMessage''"
| "endpoint_of SendFile = ''sendFileByUpload''"
| "endpoint_of GetQr = ''qr''"

text \<open>\<^verbatim>\<open>except GreenAPIError\<close>.\<close>

definition is_api_error :: "bool \<Rightarrow> py_error \<Rightarrow> bool" where
  "is_api_error sub er =
     (case er of
        GreenAPIError m \<Rightarrow> True
      | GreenAPIThrottleError m \<Rightarrow> sub
      | _ \<Rightarrow> False)"

definition error_text :: "py_error \<Rightarrow> string" where
  "error_text er =
     (case er of GreenAPIError m \<Rightarrow> m | GreenAPIThrottleError m \<Rightarrow> m | _ \<Rightarrow> [])"

definition qr_payload :: "json \<Rightarrow> py_error + json" where
  "qr_payload raw =
     bindE (get raw ''type'') (\<lambda>ty.
       if ty = JStr ''qrCode'' then
         bindE (subscript raw ''message'') (\<lambda>m.
           Inr (JObj [(''status'', JStr ''qr''),
                      (''image'', JStr (''data:image/png;base64,'' @ py_str m))]))
       else if ty = JStr ''alreadyLogged'' then Inr (JObj [(''status'', JStr ''already_logged'')])
       else if ty = JStr ''timeout'' then Inr (JObj [(''status'', JStr ''timeout'')])
       else bindE (get_default raw ''message'' (JStr ''unknown'')) (\<lambda>m.
              Inr (JObj [(''status'', JStr ''error''), (''message'', m)])))"

fun finish :: "bool \<Rightarrow> operation \<Rightarrow> py_error + json \<Rightarrow> py_error + json" where
  "finish sub GetState r = bindE r (\<lambda>j. subscript j ''stateInstance'')"
| "finish sub Logout r = bindE r (\<lambda>j. bindE (get j ''isLogout'') (\<lambda>v. Inr (JBool (truthy v))))"
| "finish sub SetSettings r =
     bindE r (\<lambda>j. bindE (get j ''saveSettings'') (\<lambda>v. Inr (JBool (truthy v))))"
| "finish sub DownloadFile r =
     (case r of
        Inr j \<Rightarrow> bindE (get j ''downloadUrl'') (\<lambda>v. Inr (py_or v JNull))
      | Inl er \<Rightarrow> if is_api_error sub er then Inr JNull else Inl er)"
| "finish sub GetQr r =
     (case r of
        Inr raw \<Rightarrow> qr_payload raw
      | Inl (GreenAPIThrottleError m) \<Rightarrow>
          Inr (JObj [(''status'', JStr ''error''), (''message'', JStr ''too many requests (429)'')])
      | Inl (GreenAPIError m) \<Rightarrow> Inr (JObj [(''status'', JStr ''error''), (''message'', JStr m)])
      | Inl er \<Rightarrow> Inl er)"
| "finish sub opn r = r"

definition perform ::
  "rates \<Rightarrow> bool \<Rightarrow> operation \<Rightarrow> rat \<Rightarrow> (rat \<Rightarrow> rat \<times> (py_error + http_response)) \<Rightarrow> client
     \<Rightarrow> ((py_error + json) \<times> rat \<times> client) option" where
  "perform rt sub opn now exchange cl =
     (case json_request rt (endpoint_of opn) now exchange cl of
        None \<Rightarrow> None
      | Some (r, t, cl1) \<Rightarrow>
          Some (finish sub opn r, t,
                (case (opn, r) of
                   (GetQr, Inl (GreenAPIThrottleError m)) \<Rightarrow>
                     (case cl1 ''qr'' of None \<Rightarrow> cl1 | Some l \<Rightarrow> cl1(''qr'' \<mapsto> block t l))
                 | _ \<Rightarrow> cl1)))"

section \<open>The outbound dispatcher\<close>

text \<open>
  \<^verbatim>\<open>app/listeners/msg_out_listener.py\<close>, \<^verbatim>\<open>_send_files\<close>:
  \<^verbatim>\<open>
    caption = msg.text or ""
    resp = None
    for file_rec in msg.files:
        data = Path(file_rec.file_path).read_bytes()
        resp = await client.send_file(chat_id=chat_id, file_bytes=data,
                                      filename=file_rec.name, mime=file_rec.mime,
                                      caption=caption)
        caption = ""
    return resp
  \<close>
  A file that is not there cannot be read (OSError). Every call of \<^verbatim>\<open>send_file\<close> is
  recorded in \<open>uploads\<close>, whatever the provider answers.
\<close>

fun send_files_loop ::
  "env \<Rightarrow> string \<Rightarrow> MessageFile list \<Rightarrow> json \<Rightarrow> json \<Rightarrow> world \<Rightarrow> (py_error + json) \<times> world" where
  "send_files_loop e chat [] caption resp w = (Inr resp, w)"
| "send_files_loop e chat (f # rest) caption resp w =
     (case fs w (file_path f) of
        None \<Rightarrow> (Inl OSError, w)
      | Some data \<Rightarrow>
          (let u = \<lparr>u_chat_id = chat, u_filename = f_name f, u_mime = mime f,
                    u_bytes = data, u_caption = caption\<rparr>
           in case send_file_reply e (length (uploads w)) u of
                Inl er \<Rightarrow> (Inl er, w\<lparr>uploads := uploads w @ [u]\<rparr>)
              | Inr r \<Rightarrow>
                  send_files_loop e chat rest (JStr []) r (w\<lparr>uploads := uploads w @ [u]\<rparr>)))"

definition send_files :: "env \<Rightarrow> string \<Rightarrow> Message \<Rightarrow> world \<Rightarrow> (py_error + json) \<times> world" where
  "send_files e chat msg w =
     send_files_loop e chat (files msg) (py_or (msg_text msg) (JStr [])) JNull w"

text \<open>
  \<^verbatim>\<open>_mark_status\<close>: the status committed, and a reaction on the Telegram message the
  text came from, if any (a failure to set it is logged and dropped).
\<close>

definition mark_status :: "Message \<Rightarrow> MessageStatus \<Rightarrow> bool \<Rightarrow> world \<Rightarrow> Message \<times> world" where
  "mark_status msg st ok w =
     (let m = msg\<lparr>status := st\<rparr>; w1 = update_row m w
      in (m, case tg_message_id m of
               None \<Rightarrow> w1
             | Some t \<Rightarrow> w1\<lparr>reactions := reactions w1 @ [(t, ok)]\<rparr>))"

text \<open>
  \<^verbatim>\<open>_mark_wa_id\<close>:
  \<^verbatim>\<open>
    wa_id = (resp or {}).get("idMessage")
    if not wa_id:
        logger.error(f"send failed: {json.dumps(resp)}")
        return False
    if msg.wa_message_id:
        return msg.wa_message_id == wa_id
    msg.wa_message_id = wa_id
    db.add(msg)
    await db.commit()
    return True
  \<close>
  The commit is subject to the uniqueness constraint.
\<close>

definition mark_wa_id :: "Message \<Rightarrow> json \<Rightarrow> world \<Rightarrow> (py_error + bool \<times> Message) \<times> world" where
  "mark_wa_id msg resp w =
     (case get (if truthy resp then resp else JObj []) ''idMessage'' of
        Inl er \<Rightarrow> (Inl er, w)
      | Inr wa_id \<Rightarrow>
          if \<not> truthy wa_id then (Inr (False, msg), log_msg ERROR ''send failed'' w)
          else if truthy (wa_message_id msg) then (Inr (wa_message_id msg = wa_id, msg), w)
          else
            (let m = msg\<lparr>wa_message_id := wa_id\<rparr> in
             if violates_uq_msg_wa m (filter (\<lambda>r. row_id r \<noteq> row_id m) (messages w))
             then (Inl IntegrityError, w)
             else (Inr (True, m), update_row m w)))"

text \<open>
  The callback of \<^verbatim>\<open>msg_outbox\<close> for the envelope \<^verbatim>\<open>{msg_id}\<close>: the \<^verbatim>\<open>try\<close> block,
  then the two \<^verbatim>\<open>except\<close> clauses. An error raised inside an \<^verbatim>\<open>except\<close> clause is not
  modelled.
\<close>

definition api_id_of :: "int \<Rightarrow> world \<Rightarrow> int option" where
  "api_id_of i w = map_option snd (find (\<lambda>r. fst r = i) (instances w))"

definition send_body :: "env \<Rightarrow> Message \<Rightarrow> world \<Rightarrow> (py_error + unit) \<times> world" where
  "send_body e msg w =
     (case api_id_of (instance_id msg) w of
        None \<Rightarrow> (Inl AttributeError, w)
      | Some api \<Rightarrow>
          if \<not> has_client e (JInt api) then (Inl (KeyError ''api_id''), w)
          else
            (case (if files msg \<noteq> [] then send_files e (chat_id msg) msg w
                   else (send_message_reply e (chat_id msg) (py_or (msg_text msg) (JStr [])),
                         w\<lparr>texts_sent := texts_sent w @
                              [(chat_id msg, py_or (msg_text msg) (JStr []))]\<rparr>)) of
               (Inl er, w1) \<Rightarrow> (Inl er, w1)
             | (Inr resp, w1) \<Rightarrow>
                 (case mark_wa_id msg resp w1 of
                    (Inl er, w2) \<Rightarrow> (Inl er, w2)
                  | (Inr (ok, m), w2) \<Rightarrow> (Inr (), snd (mark_status m S_sent ok w2)))))"

definition msg_outbox_handle :: "env \<Rightarrow> nat \<Rightarrow> world \<Rightarrow> (py_error + unit) \<times> world" where
  "msg_outbox_handle e msg_id w =
     (case find (\<lambda>r. row_id r = Some msg_id) (messages w) of
        None \<Rightarrow> (Inr (), log_msg ERROR ''msg_out: message not found'' w)
      | Some msg \<Rightarrow>
          if is_archived msg \<or> \<not> from_app msg then (Inr (), w)
          else
            (case send_body e msg w of
               (Inr u, w1) \<Rightarrow> (Inr (), w1)
             | (Inl er, w1) \<Rightarrow>
                 if is_api_error (throttle_is_api_error e) er then
                   (case mark_status msg S_error_api False w1 of
                      (m, w2) \<Rightarrow>
                        (case notify_send_error m (''oshibka API ('' @ error_text er @ '')'') w2 of
                           (r, w3) \<Rightarrow> (r, log_msg ERROR ''API error while sending'' w3)))
                 else
                   (case mark_status msg S_error_int False w1 of
                      (m, w2) \<Rightarrow>
                        (case notify_send_error m ''vnutrennyaya oshibka'' w2 of
                           (r, w3) \<Rightarrow>
                             (r, log_msg ERROR ''Internal error while sending msg'' w3)))))"

section \<open>The backfill lock\<close>

text \<open>
  \<^verbatim>\<open>app/utils/history_downloader.py\<close>: \<^verbatim>\<open>history_lock: dict[int, asyncio.Lock] = {}\<close>.
  A lock is its \<^verbatim>\<open>locked()\<close> flag; the route never waits on a held lock, so a lock
  has no queue of waiters here.

  \<^verbatim>\<open>app/routes/admin_qr.py\<close>, \<^verbatim>\<open>admin_history\<close>:
  \<^verbatim>\<open>
    q_wait = request.rel_url.query.get("wait_authorized")
    wait = str(q_wait).lower() in {"1", "true", "yes"}
    if not wait and request.can_read_body:
        try:
            body = await request.json()
            wait = bool(body.get("wait_authorized", False))
        except Exception as exc:
            raise HTTPBadRequest(text=f"invalid json: {exc}") from None
    lock = history_lock.setdefault(api_id, asyncio.Lock())
    if lock.locked():
        return web.json_response({"error": "already_running"}, status=409)
    await lock.acquire()
    ...
    asyncio.create_task(_task())
    return web.json_response({"status": "scheduled"}, status=201)
  \<close>
\<close>

type_synonym lock_map = "int \<rightharpoonup> bool"

text \<open>
  The request: the account id of the path, the query parameter, and the body.
  \<open>body = None\<close> is \<^verbatim>\<open>can_read_body == False\<close>; \<open>Some None\<close> is a body that
  \<^verbatim>\<open>request.json()\<close> cannot decode; \<open>Some (Some j)\<close> is the decoded value.
\<close>

record history_request =
  api_id :: int
  q_wait :: "string option"
  body :: "json option option"

text \<open>A scheduled \<^verbatim>\<open>load_history\<close> task: account and the wait flag.\<close>

record backfill_state =
  history_lock :: lock_map
  tasks :: "(int \<times> bool) list"

datatype response = JsonResponse nat "(string \<times> string) list"

text \<open>\<^verbatim>\<open>str(q_wait)\<close>: the text itself, or \<^verbatim>\<open>"None"\<close> for a missing parameter.\<close>

definition str_opt :: "string option \<Rightarrow> string" where
  "str_opt q = (case q of None \<Rightarrow> ''None'' | Some s \<Rightarrow> s)"

definition parse_wait :: "history_request \<Rightarrow> py_error + bool" where
  "parse_wait req =
     (let wait = (lower (str_opt (q_wait req)) \<in> set [''1'', ''true'', ''yes''])
      in if \<not> wait \<and> body req \<noteq> None then
           (case body req of
              Some (Some j) \<Rightarrow>
                (case get_default j ''wait_authorized'' (JBool False) of
                   Inl e \<Rightarrow> Inl HTTPBadRequest
                 | Inr v \<Rightarrow> Inr (truthy v))
            | _ \<Rightarrow> Inl HTTPBadRequest)
         else Inr wait)"

text \<open>\<^verbatim>\<open>history_lock.setdefault(api_id, asyncio.Lock())\<close>: a new lock is free.\<close>

definition setdefault_lock :: "lock_map \<Rightarrow> int \<Rightarrow> lock_map" where
  "setdefault_lock m k = (case m k of None \<Rightarrow> m(k \<mapsto> False) | Some b \<Rightarrow> m)"

definition locked :: "lock_map \<Rightarrow> int \<Rightarrow> bool" where
  "locked m k = (m k = Some True)"

definition admin_history ::
  "history_request \<Rightarrow> backfill_state \<Rightarrow> (py_error + response) \<times> backfill_state" where
  "admin_history req st =
     (case parse_wait req of
        Inl e \<Rightarrow> (Inl e, st)
      | Inr wait \<Rightarrow>
          (let locks = setdefault_lock (history_lock st) (api_id req) in
           if locked locks (api_id req) then
             (Inr (JsonResponse 409 [(''error'', ''already_running'')]),
              st\<lparr>history_lock := locks\<rparr>)
           else
             (Inr (JsonResponse 201 [(''status'', ''scheduled'')]),
              st\<lparr>history_lock := locks(api_id req \<mapsto> True),
                 tasks := tasks st @ [(api_id req, wait)]\<rparr>)))"

text \<open>
  \<^verbatim>\<open>app/green_api/manager.py\<close>, \<^verbatim>\<open>ClientManager.history_lock\<close>, up to the
  \<^verbatim>\<open>yield\<close>:
  \<^verbatim>\<open>
    lock = self._history_lock.setdefault(api_id, asyncio.Lock())
    if lock.locked():
        raise RuntimeError("history task already running for this instance")
    async with lock:
        yield
  \<close>
\<close>

definition manager_history_lock :: "int \<Rightarrow> lock_map \<Rightarrow> (py_error + unit) \<times> lock_map" where
  "manager_history_lock k m =
     (let locks = setdefault_lock m k in
      if locked locks k then
        (Inl (RuntimeError ''history task already running for this instance''), locks)
      else (Inr (), locks(k \<mapsto> True)))"

section \<open>Sample data\<close>

text \<open>
  An environment in which every download request is refused, and a world with one
  account (row 1, provider id 1101) and nothing else.
\<close>

definition env0 :: env where
  "env0 = \<lparr>media_root = ''/app/media'', year_month = ''2025/01'',
           http_get = (\<lambda>u k. Refused), rand = (\<lambda>k. 0),
           url_basename = (\<lambda>u. last_segment CHR ''/'' u), has_client = (\<lambda>a. True),
           client_download_file = (\<lambda>c i. Inr JNull),
           send_file_reply = (\<lambda>k u. Inr (JObj [(''idMessage'', JStr ''OUT1'')])),
           send_message_reply = (\<lambda>c t. Inr (JObj [(''idMessage'', JStr ''OUT1'')])),
           throttle_is_api_error = True\<rparr>"

definition world0 :: world where
  "world0 = \<lparr>instances = [(1, 1101)], conversations = [], messages = [], msg_in = [],
     msg_out = [], fs = Map.empty, gets = [], slept = [], logged = [], uploads = [],
     texts_sent = [], reactions = []\<rparr>"

text \<open>A webhook payload of the given kind, id and message data, from chat 79990001122.\<close>

definition webhook_payload :: "string \<Rightarrow> string \<Rightarrow> json \<Rightarrow> json" where
  "webhook_payload kind idm mdata =
     JObj [(''typeWebhook'', JStr kind), (''idMessage'', JStr idm),
           (''timestamp'', JInt 1700000000),
           (''instanceData'', JObj [(''idInstance'', JInt 1101)]),
           (''senderData'', JObj [(''chatId'', JStr ''79990001122@c.us''),
                                  (''senderName'', JStr ''Ann'')]),
           (''messageData'', mdata)]"

definition poll_update_payload :: json where
  "poll_update_payload =
     webhook_payload ''incomingMessageReceived'' ''P1''
       (JObj [(''typeMessage'', JStr ''pollUpdateMessage'')])"

definition text_payload :: json where
  "text_payload =
     webhook_payload ''incomingMessageReceived'' ''A1''
       (JObj [(''typeMessage'', JStr ''textMessage''),
              (''textMessageData'', JObj [(''textMessage'', JStr ''hello'')])])"

definition image_payload :: json where
  "image_payload =
     webhook_payload ''incomingMessageReceived'' ''B1''
       (JObj [(''typeMessage'', JStr ''imageMessage''),
              (''fileMessageData'',
               JObj [(''downloadUrl'', JStr ''https://h/x/cat.jpg''), (''caption'', JStr ''hi''),
                     (''fileName'', JStr ''cat.jpg''), (''mimeType'', JStr ''image/jpeg'')])])"

text \<open>An image whose MIME type the provider left null, and a text sent from the phone.\<close>

definition null_mime_payload :: json where
  "null_mime_payload =
     webhook_payload ''incomingMessageReceived'' ''B2''
       (JObj [(''typeMessage'', JStr ''imageMessage''),
              (''fileMessageData'',
               JObj [(''downloadUrl'', JStr ''https://h/x/cat.jpg''), (''caption'', JStr ''hi''),
                     (''fileName'', JStr ''cat.jpg''), (''mimeType'', JNull)])])"

definition phone_text_payload :: json where
  "phone_text_payload =
     webhook_payload ''outgoingMessageReceived'' ''A2''
       (JObj [(''typeMessage'', JStr ''textMessage''),
              (''textMessageData'', JObj [(''textMessage'', JStr ''on my way'')])])"

text \<open>
  An outbound message of account 1 that the provider knows as OUT1, stored as sent, and
  a status webhook for it.
\<close>

definition sent_row :: Message where
  "sent_row =
     \<lparr>row_id = Some 1, instance_id = 1, conversation_id = 1, wa_message_id = JStr ''OUT1'',
      tg_message_id = None, chat_id = ''79990001122@c.us'', chat_name = JStr ''79990001122'',
      created_at = JInt 1700000000, from_app = True, direction = D_out, status = S_sent,
      message_type = T_text, msg_text = JStr ''hello'', is_archived = False, files = []\<rparr>"

definition world1 :: world where
  "world1 = world0\<lparr>messages := [sent_row]\<rparr>"

definition status_payload :: "string \<Rightarrow> json" where
  "status_payload st =
     JObj [(''typeWebhook'', JStr ''outgoingMessageStatus''), (''idMessage'', JStr ''OUT1''),
           (''timestamp'', JInt 1700000100),
           (''instanceData'', JObj [(''idInstance'', JInt 1101)]),
           (''status'', JStr st)]"

text \<open>
  An environment in which every download succeeds at once: the server answers the
  first URL with three bytes and any other with four.
\<close>

definition env1 :: env where
  "env1 = env0\<lparr>http_get :=
            (\<lambda>u k. if u = ''https://h/x/cat.jpg'' then Body ''AAA'' else Body ''BBBB'')\<rparr>"

text \<open>
  A pending message written by the admin panel, with a text and two attachments that
  are on disk, and a provider that refuses every upload.
\<close>

definition file_a :: MessageFile where
  "file_a = \<lparr>file_type = F_image, f_name = ''a.jpg'', mime = JStr ''image/jpeg'',
              file_path = ''/app/media/2025/01/a.jpg'', file_url = ''/media/2025/01/a.jpg'',
              f_size = 3\<rparr>"

definition file_b :: MessageFile where
  "file_b = \<lparr>file_type = F_other, f_name = ''b.pdf'', mime = JStr ''application/pdf'',
              file_path = ''/app/media/2025/01/b.pdf'', file_url = ''/media/2025/01/b.pdf'',
              f_size = 4\<rparr>"

definition pending_row :: Message where
  "pending_row =
     \<lparr>row_id = Some 1, instance_id = 1, conversation_id = 1, wa_message_id = JNull,
      tg_message_id = None, chat_id = ''79990001122@c.us'', chat_name = JStr ''79990001122'',
      created_at = JInt 1700000000, from_app = True, direction = D_out, status = S_pending,
      message_type = T_file_image, msg_text = JStr ''see attached'', is_archived = False,
      files = [file_a, file_b]\<rparr>"

definition world2 :: world where
  "world2 = world0\<lparr>messages := [pending_row],
                   fs := [''/app/media/2025/01/a.jpg'' \<mapsto> ''AAA'',
                          ''/app/media/2025/01/b.pdf'' \<mapsto> ''BBBB'']\<rparr>"

definition env2 :: env where
  "env2 = env0\<lparr>send_file_reply := (\<lambda>k u. Inl (GreenAPIError ''GREEN-API 500: busy''))\<rparr>"

text \<open>
  A rate table that gives every endpoint ten requests per second, a network without
  latency that answers every request with the same response, and three responses.
\<close>

definition rates10 :: rates where
  "rates10 = \<lparr>METHOD_RPS = Map.empty, DEFAULT_RPS = 10\<rparr>"

definition answer :: "http_response \<Rightarrow> rat \<Rightarrow> rat \<times> (py_error + http_response)" where
  "answer r t = (t, Inr r)"

definition too_many :: http_response where
  "too_many = \<lparr>status_code = 429, body_text = ''Too Many Requests'', body_json = None\<rparr>"

definition busy :: http_response where
  "busy = \<lparr>status_code = 500, body_text = ''busy'', body_json = None\<rparr>"

definition sent_ok :: http_response where
  "sent_ok = \<lparr>status_code = 200, body_text = ''{\"idMessage\": \"OUT1\"}'',
              body_json = Some (JObj [(''idMessage'', JStr ''OUT1'')])\<rparr>"

text \<open>The limiter of ten requests per second, after one request at time 100.\<close>

definition limiter10 :: limiter where
  "limiter10 = \<lparr>max_rate = 10, time_period = 1, period = 1 / 10, level = 1, last_check = 100,
                 blocked_until = None\<rparr>"

text \<open>Sample states and requests.\<close>

definition held_state :: backfill_state where
  "held_state = \<lparr>history_lock = [5 \<mapsto> True], tasks = [(5, False)]\<rparr>"

definition bad_request :: history_request where
  "bad_request = \<lparr>api_id = 5, q_wait = None, body = Some None\<rparr>"

section \<open>Properties of the backfill lock\<close>

lemma setdefault_lock_held: "locked m k \<Longrightarrow> setdefault_lock m k = m"
  by (simp add: setdefault_lock_def locked_def)

lemma setdefault_lock_locked: "locked (setdefault_lock m k) k = locked m k"
  by (simp add: setdefault_lock_def locked_def split: option.splits)

lemma parse_wait_cases:
  "parse_wait req = Inl HTTPBadRequest \<or> (\<exists>wt. parse_wait req = Inr wt)"
  by (auto simp: parse_wait_def Let_def split: option.splits sum.splits)

lemma parse_wait_refused:
  "parse_wait req = Inl HTTPBadRequest \<longleftrightarrow>
     lower (str_opt (q_wait req)) \<notin> set [''1'', ''true'', ''yes'']
     \<and> (body req = Some None \<or> (\<exists>j. body req = Some (Some j) \<and> (\<forall>kvs. j \<noteq> JObj kvs)))"
proof -
  have g: "(\<exists>er. get_default j ''wait_authorized'' (JBool False) = Inl er) \<longleftrightarrow> (\<forall>kvs. j \<noteq> JObj kvs)"
    for j
    by (cases j) (auto split: option.splits)
  show ?thesis
  proof (cases "body req")
    case None
    then show ?thesis by (simp add: parse_wait_def Let_def)
  next
    case (Some b)
    show ?thesis
    proof (cases b)
      case None
      with Some show ?thesis by (simp add: parse_wait_def Let_def)
    next
      case j: (Some j)
      show ?thesis
      proof (cases "get_default j ''wait_authorized'' (JBool False)")
        case (Inl er)
        with g [of j] have "\<forall>kvs. j \<noteq> JObj kvs" by blast
        with Some j Inl show ?thesis by (simp add: parse_wait_def Let_def)
      next
        case (Inr v)
        with g [of j] have "\<not> (\<forall>kvs. j \<noteq> JObj kvs)" by auto
        with Some j Inr show ?thesis by (simp add: parse_wait_def Let_def)
      qed
    qed
  qed
qed

text \<open>
  C3, as amended. Reading the \<^verbatim>\<open>wait_authorized\<close> parameter either gives its value or
  fails with the bad-request error, and it fails exactly when the query flag is not set
  and the request has a body that cannot be decoded or that decodes to something other
  than an object. A request that fails so is refused with the bad-request error
  whether the account's lock is held or free, and the state, locks included, stays as
  it was. A request whose parameter can be read is answered at once: while the
  account's lock is held, with the conflict response 409 and no change of the state at
  all; while the lock is free, with 201, and then the lock of this account is held, one
  task is scheduled, and no other account's lock has changed. The manager's
  \<^verbatim>\<open>history_lock\<close> guard does the same with no request to read: it raises on a held
  lock and leaves the locks as they were, and takes a free lock.
\<close>

theorem admin_history_lock:
  "(parse_wait req = Inl HTTPBadRequest \<or> (\<exists>wt. parse_wait req = Inr wt))
   \<and> (parse_wait req = Inl HTTPBadRequest \<longleftrightarrow>
        lower (str_opt (q_wait req)) \<notin> set [''1'', ''true'', ''yes'']
        \<and> (body req = Some None
            \<or> (\<exists>j. body req = Some (Some j) \<and> (\<forall>kvs. j \<noteq> JObj kvs))))
   \<and> (parse_wait req = Inl HTTPBadRequest \<longrightarrow>
        admin_history req st = (Inl HTTPBadRequest, st))
   \<and> (\<forall>wt. parse_wait req = Inr wt \<longrightarrow>
        (locked (history_lock st) (api_id req) \<longrightarrow>
           admin_history req st =
             (Inr (JsonResponse 409 [(''error'', ''already_running'')]), st))
      \<and> (\<not> locked (history_lock st) (api_id req) \<longrightarrow>
           (\<exists>st'. admin_history req st =
                    (Inr (JsonResponse 201 [(''status'', ''scheduled'')]), st')
              \<and> locked (history_lock st') (api_id req)
              \<and> tasks st' = tasks st @ [(api_id req, wt)]
              \<and> (\<forall>k. k \<noteq> api_id req \<longrightarrow> history_lock st' k = history_lock st k))))
   \<and> (locked m k \<longrightarrow>
        manager_history_lock k m =
          (Inl (RuntimeError ''history task already running for this instance''), m))
   \<and> (\<not> locked m k \<longrightarrow>
        (\<exists>m'. manager_history_lock k m = (Inr (), m') \<and> locked m' k
           \<and> (\<forall>j. j \<noteq> k \<longrightarrow> m' j = m j)))"
proof (intro conjI)
  show "parse_wait req = Inl HTTPBadRequest \<or> (\<exists>wt. parse_wait req = Inr wt)"
    by (rule parse_wait_cases)
  show "parse_wait req = Inl HTTPBadRequest \<longleftrightarrow>
        lower (str_opt (q_wait req)) \<notin> set [''1'', ''true'', ''yes'']
        \<and> (body req = Some None
            \<or> (\<exists>j. body req = Some (Some j) \<and> (\<forall>kvs. j \<noteq> JObj kvs)))"
    by (rule parse_wait_refused)
  show "parse_wait req = Inl HTTPBadRequest \<longrightarrow>
        admin_history req st = (Inl HTTPBadRequest, st)"
    by (simp add: admin_history_def)
  show "\<forall>wt. parse_wait req = Inr wt \<longrightarrow>
        (locked (history_lock st) (api_id req) \<longrightarrow>
           admin_history req st =
             (Inr (JsonResponse 409 [(''error'', ''already_running'')]), st))
      \<and> (\<not> locked (history_lock st) (api_id req) \<longrightarrow>
           (\<exists>st'. admin_history req st =
                    (Inr (JsonResponse 201 [(''status'', ''scheduled'')]), st')
              \<and> locked (history_lock st') (api_id req)
              \<and> tasks st' = tasks st @ [(api_id req, wt)]
              \<and> (\<forall>k. k \<noteq> api_id req \<longrightarrow> history_lock st' k = history_lock st k)))"
    by (auto simp: admin_history_def setdefault_lock_held setdefault_lock_locked Let_def)
       (auto simp: locked_def setdefault_lock_def split: option.splits)
  show "locked m k \<longrightarrow>
        manager_history_lock k m =
          (Inl (RuntimeError ''history task already running for this instance''), m)"
    by (simp add: manager_history_lock_def setdefault_lock_held Let_def)
  show "\<not> locked m k \<longrightarrow>
        (\<exists>m'. manager_history_lock k m = (Inr (), m') \<and> locked m' k
           \<and> (\<forall>j. j \<noteq> k \<longrightarrow> m' j = m j))"
    by (auto simp: manager_history_lock_def setdefault_lock_locked Let_def)
       (auto simp: locked_def setdefault_lock_def split: option.splits)
qed

text \<open>
  Account 5 is running a backfill. A second request for account 5, with the query
  parameter \<^verbatim>\<open>wait_authorized=TRUE\<close>, gets 409 and changes nothing; the same request
  for account 7, whose lock is free, gets 201 and takes the lock of account 7; a
  request for account 7 with a body that cannot be decoded is refused and leaves the
  lock of account 7 free.
\<close>

theorem admin_history_lock_witness:
  "parse_wait \<lparr>api_id = 5, q_wait = Some ''TRUE'', body = None\<rparr> = Inr True
   \<and> locked (history_lock held_state) 5
   \<and> admin_history \<lparr>api_id = 5, q_wait = Some ''TRUE'', body = None\<rparr> held_state =
       (Inr (JsonResponse 409 [(''error'', ''already_running'')]), held_state)
   \<and> \<not> locked (history_lock held_state) 7
   \<and> fst (admin_history \<lparr>api_id = 7, q_wait = Some ''TRUE'', body = None\<rparr> held_state) =
       Inr (JsonResponse 201 [(''status'', ''scheduled'')])
   \<and> locked (history_lock
         (snd (admin_history \<lparr>api_id = 7, q_wait = Some ''TRUE'', body = None\<rparr> held_state))) 7
   \<and> parse_wait \<lparr>api_id = 7, q_wait = None, body = Some None\<rparr> = Inl HTTPBadRequest
   \<and> admin_history \<lparr>api_id = 7, q_wait = None, body = Some None\<rparr> held_state =
       (Inl HTTPBadRequest, held_state)"
proof -
  let ?r5 = "\<lparr>api_id = 5, q_wait = Some ''TRUE'', body = None\<rparr>"
  let ?r7 = "\<lparr>api_id = 7, q_wait = Some ''TRUE'', body = None\<rparr>"
  let ?b7 = "\<lparr>api_id = 7, q_wait = None, body = Some None\<rparr>"
  have p5: "parse_wait ?r5 = Inr True"
    by (simp add: parse_wait_def str_opt_def lower_def lower_char_def)
  have p7: "parse_wait ?r7 = Inr True"
    by (simp add: parse_wait_def str_opt_def lower_def lower_char_def)
  have pb: "parse_wait ?b7 = Inl HTTPBadRequest"
    by (simp add: parse_wait_def str_opt_def lower_def lower_char_def)
  have l5: "locked (history_lock held_state) 5"
    by (simp add: held_state_def locked_def)
  have l7: "\<not> locked (history_lock held_state) 7"
    by (simp add: held_state_def locked_def)
  note t5 = admin_history_lock [where req = ?r5 and st = held_state and m = Map.empty and k = 0,
      THEN conjunct2, THEN conjunct2, THEN conjunct2, THEN conjunct1, THEN spec, THEN mp, OF p5]
  note t7 = admin_history_lock [where req = ?r7 and st = held_state and m = Map.empty and k = 0,
      THEN conjunct2, THEN conjunct2, THEN conjunct2, THEN conjunct1, THEN spec, THEN mp, OF p7]
  note tb = admin_history_lock [where req = ?b7 and st = held_state and m = Map.empty and k = 0,
      THEN conjunct2, THEN conjunct2, THEN conjunct1, THEN mp, OF pb]
  from t5 [THEN conjunct1] l5
  have a: "admin_history ?r5 held_state =
       (Inr (JsonResponse 409 [(''error'', ''already_running'')]), held_state)"
    by simp
  from t7 [THEN conjunct2] l7
  obtain st' where b: "admin_history ?r7 held_state =
       (Inr (JsonResponse 201 [(''status'', ''scheduled'')]), st')"
    and c: "locked (history_lock st') 7"
    by auto
  from p5 l5 a l7 b c pb tb show ?thesis by simp
qed

text \<open>
  The claim as stated fails on a request whose body cannot be decoded: made while the
  lock of account 5 is held, it is refused with the bad-request error, not with the
  conflict.
\<close>

theorem admin_history_bad_body_counterexample:
  "locked (history_lock held_state) (api_id bad_request)
   \<and> admin_history bad_request held_state = (Inl HTTPBadRequest, held_state)
   \<and> admin_history bad_request held_state \<noteq>
       (Inr (JsonResponse 409 [(''error'', ''already_running'')]), held_state)"
  by (simp add: admin_history_def parse_wait_def bad_request_def held_state_def
      locked_def str_opt_def lower_def lower_char_def)

section \<open>Ignored message types\<close>

lemma classify_ignored:
  assumes "subscript payload ''messageData'' = Inr mdata"
    and "subscript mdata ''typeMessage'' = Inr (JStr t)"
    and "t \<in> set IGNORE_MTYPE"
  shows "classify payload = Inr (mdata, JStr t, True)"
  using assms by (simp add: classify_def in_strs_def)

text \<open>
  C10. An \<^verbatim>\<open>incomingMessageReceived\<close> webhook of a known account whose
  \<^verbatim>\<open>typeMessage\<close> is in the ignore set: \<^verbatim>\<open>payload_to_msg\<close> returns \<^verbatim>\<open>None\<close> and leaves
  everything as it was; the handler then raises AttributeError, with no row stored and
  no line logged, and the webhook request fails with that error.
\<close>

theorem ignored_type_raises:
  assumes "instance_of payload = Inr a"
    and "resolve_internal_id a w = Inr (Some i)"
    and "subscript payload ''messageData'' = Inr mdata"
    and "subscript mdata ''typeMessage'' = Inr (JStr t)"
    and "t \<in> set IGNORE_MTYPE"
  shows "payload_to_msg e payload i True False w = (Inr None, w)
       \<and> handle_incoming e payload w = (Inl AttributeError, w)
       \<and> (get payload ''typeWebhook'' = Inr (JStr ''incomingMessageReceived'') \<longrightarrow>
            green_webhook e hs payload w = (Inl AttributeError, w))"
proof -
  have c: "classify payload = Inr (mdata, JStr t, True)"
    using assms(3-5) by (rule classify_ignored)
  have p: "payload_to_msg e payload i True False w = (Inr None, w)"
    by (simp add: payload_to_msg_def c)
  have h: "handle_incoming e payload w = (Inl AttributeError, w)"
    by (simp add: handle_incoming_def assms(1,2) p)
  show ?thesis
    by (simp add: p h green_webhook_def)
qed

text \<open>A poll update for account 1101.\<close>

theorem ignored_type_raises_witness:
  "payload_to_msg env0 poll_update_payload 1 True False world0 = (Inr None, world0)
   \<and> handle_incoming env0 poll_update_payload world0 = (Inl AttributeError, world0)
   \<and> green_webhook env0 (\<lambda>p w. (Inr (), w)) poll_update_payload world0 = (Inl AttributeError, world0)
   \<and> messages world0 = [] \<and> logged world0 = []"
proof -
  have 1: "instance_of poll_update_payload = Inr (JInt 1101)"
    by (simp add: instance_of_def poll_update_payload_def webhook_payload_def)
  have 2: "resolve_internal_id (JInt 1101) world0 = Inr (Some 1)"
    by (simp add: resolve_internal_id_def world0_def)
  have 3: "subscript poll_update_payload ''messageData'' = Inr (JObj [(''typeMessage'', JStr ''pollUpdateMessage'')])"
    by (simp add: poll_update_payload_def webhook_payload_def)
  have 4: "subscript (JObj [(''typeMessage'', JStr ''pollUpdateMessage'')]) ''typeMessage'' = Inr (JStr ''pollUpdateMessage'')"
    by simp
  have 5: "''pollUpdateMessage'' \<in> set IGNORE_MTYPE"
    by (simp add: IGNORE_MTYPE_def)
  have 6: "get poll_update_payload ''typeWebhook'' = Inr (JStr ''incomingMessageReceived'')"
    by (simp add: get_def poll_update_payload_def webhook_payload_def)
  from ignored_type_raises [OF 1 2 3 4 5, of env0 "\<lambda>p w. (Inr (), w)"] 6
  show ?thesis by (simp add: world0_def)
qed

section \<open>What payload processing leaves alone\<close>

lemma bindE_Inr_iff: "bindE x f = Inr v \<longleftrightarrow> (\<exists>a. x = Inr a \<and> f a = Inr v)"
  by (cases x) auto

lemma messages_log_msg [simp]: "messages (log_msg lv t w) = messages w"
  by (simp add: log_msg_def)

lemma messages_conversation:
  "get_or_create_conversation i c p n w = (conv, w') \<Longrightarrow> messages w' = messages w"
  by (auto simp: get_or_create_conversation_def Let_def split: option.splits)

lemma messages_attempt_get:
  "attempt_get oc local w = (r, w') \<Longrightarrow> messages w' = messages w"
  by (auto simp: attempt_get_def split: get_outcome.splits)

lemma messages_download_loop:
  "download_loop e url local retries backoff attempt w = (r, w') \<Longrightarrow> messages w' = messages w"
proof (induction e url local retries backoff attempt w arbitrary: r w'
    rule: download_loop.induct)
  case (1 e url local retries backoff attempt w)
  show ?case
  proof (cases "attempt \<le> retries")
    case False
    with "1.prems" show ?thesis by (simp add: download_loop.simps)
  next
    case True
    obtain n w1 where a: "attempt_get (http_get e url attempt) local (w\<lparr>gets := gets w @ [url]\<rparr>) = (n, w1)"
      by (cases "attempt_get (http_get e url attempt) local (w\<lparr>gets := gets w @ [url]\<rparr>)")
    from messages_attempt_get [OF a] have m1: "messages w1 = messages w" by simp
    show ?thesis
    proof (cases n)
      case (Some k)
      with "1.prems" True a m1 show ?thesis by (auto simp: download_loop.simps)
    next
      case None
      show ?thesis
      proof (cases "attempt + 1 > retries")
        case True
        with "1.prems" \<open>attempt \<le> retries\<close> a None m1 show ?thesis
          by (auto simp: download_loop.simps Let_def)
      next
        case False
        let ?w2 = "log_msg WARNING ''Download failed'' w1"
        let ?w3 = "?w2\<lparr>fs := (fs ?w2)(local := None)\<rparr>"
        let ?w4 = "?w3\<lparr>slept := slept ?w3 @ [backoff ^ (attempt + 1) * (1 / 2 + rand e attempt / 2)]\<rparr>"
        from "1.prems" \<open>attempt \<le> retries\<close> a None False
        have "download_loop e url local retries backoff (attempt + 1) ?w4 = (r, w')"
          by (simp add: download_loop.simps [of e url local retries backoff attempt] Let_def)
        from "1.IH" [OF \<open>attempt \<le> retries\<close> a [symmetric] None refl refl False this]
        show ?thesis using m1 by simp
      qed
    qed
  qed
qed

lemma messages_download_safe:
  "download_safe e url fname w = (r, w') \<Longrightarrow> messages w' = messages w"
  by (auto simp: download_safe_def split: if_splits sum.splits prod.splits
      dest: messages_download_loop)

lemma media_branch_frame:
  assumes "media_branch e payload mdata mt fcls msg w = (r, w')"
  shows "messages w' = messages w"
proof -
  let ?pre = "bindE (subscript mdata ''fileMessageData'') (\<lambda>fm.
           bindE (file_name e fm (wa_message_id (msg\<lparr>message_type := mt\<rparr>))) (\<lambda>fname.
           bindE (get fm ''caption'') (\<lambda>fcaption.
           bindE (get fm ''downloadUrl'') (\<lambda>dl_url0.
           bindE (resolve_url e payload (msg\<lparr>message_type := mt\<rparr>) dl_url0) (\<lambda>dl_url.
           bindE (get fm ''fileName'') (\<lambda>fname0.
             Inr (fm, fname, fcaption, dl_url, fname0)))))))"
  show ?thesis
  proof (cases ?pre)
    case (Inl er)
    with assms show ?thesis by (simp add: media_branch_def Let_def)
  next
    case (Inr t)
    obtain fm fname fcaption dl_url fname0 where t: "t = (fm, fname, fcaption, dl_url, fname0)"
      by (cases t) auto
    obtain d w1 where d: "download_safe e dl_url fname w = (d, w1)"
      by (cases "download_safe e dl_url fname w")
    from messages_download_safe [OF d] have m: "messages w1 = messages w" .
    from assms Inr t d have "w' = w1"
      by (auto simp: media_branch_def Let_def split: sum.splits option.splits prod.splits)
    with m show ?thesis by simp
  qed
qed

lemma media_branch_key:
  assumes "media_branch e payload mdata mt fcls msg w = (Inr m, w')"
  shows "instance_id m = instance_id msg \<and> wa_message_id m = wa_message_id msg"
  using assms
  by (auto simp: media_branch_def Let_def bindE_Inr_iff
      split: sum.splits option.splits prod.splits)

lemma with_text_key:
  "with_text msg r = Inr m \<Longrightarrow>
     instance_id m = instance_id msg \<and> wa_message_id m = wa_message_id msg"
  by (auto simp: with_text_def bindE_Inr_iff)

lemma fill_content_frame:
  assumes "fill_content e payload mdata mtype msg w = (r, w')"
  shows "messages w' = messages w"
proof (cases mtype)
  case (JStr t)
  show ?thesis
  proof (cases "t \<in> set TEXT_MTYPES")
    case True
    with assms JStr show ?thesis by (simp add: fill_content_def)
  next
    case False
    show ?thesis
    proof (cases "map_of EXT2FCLS t")
      case None
      with assms JStr False show ?thesis
        by (simp add: fill_content_def split: if_splits)
    next
      case (Some a)
      obtain mt fcls where a: "a = (mt, fcls)" by (cases a)
      from assms JStr False Some a
      have "media_branch e payload mdata mt fcls msg w = (r, w')"
        by (simp add: fill_content_def)
      then show ?thesis by (rule media_branch_frame)
    qed
  qed
qed (use assms in \<open>simp_all add: fill_content_def\<close>)

lemma fill_content_key:
  assumes "fill_content e payload mdata mtype msg w = (Inr m, w')"
  shows "instance_id m = instance_id msg \<and> wa_message_id m = wa_message_id msg"
proof (cases mtype)
  case (JStr t)
  show ?thesis
  proof (cases "t \<in> set TEXT_MTYPES")
    case True
    with assms JStr show ?thesis by (auto simp: fill_content_def bindE_Inr_iff)
  next
    case False
    show ?thesis
    proof (cases "map_of EXT2FCLS t")
      case None
      with assms JStr False show ?thesis
        by (auto simp: fill_content_def split: if_splits dest: with_text_key)
    next
      case (Some a)
      obtain mt fcls where a: "a = (mt, fcls)" by (cases a)
      from assms JStr False Some a
      have "media_branch e payload mdata mt fcls msg w = (Inr m, w')"
        by (simp add: fill_content_def)
      then show ?thesis by (rule media_branch_key)
    qed
  qed
qed (use assms in \<open>auto simp: fill_content_def dest: with_text_key\<close>)

lemma payload_to_msg_frame:
  assumes "payload_to_msg e payload i incoming archived w = (r, w')"
  shows "messages w' = messages w"
proof (cases "classify payload")
  case (Inl er)
  with assms show ?thesis by (simp add: payload_to_msg_def)
next
  case (Inr c)
  obtain mdata mtype ign where c: "c = (mdata, mtype, ign)" by (cases c)
  show ?thesis
  proof (cases ign)
    case True
    with assms Inr c show ?thesis by (simp add: payload_to_msg_def)
  next
    case False
    show ?thesis
    proof (cases "sender_of payload")
      case (Inl er)
      with assms Inr c False show ?thesis by (simp add: payload_to_msg_def)
    next
      case s: (Inr sd)
      obtain chat phone cname where sd: "sd = (chat, phone, cname)" by (cases sd)
      obtain conv w1 where g: "get_or_create_conversation i chat phone cname w = (conv, w1)"
        by (cases "get_or_create_conversation i chat phone cname w")
      from messages_conversation [OF g] have m1: "messages w1 = messages w" .
      show ?thesis
      proof (cases "bindE (subscript payload ''idMessage'') (\<lambda>wa.
                            bindE (subscript payload ''timestamp'') (\<lambda>ts.
                            bindE (utcfromtimestamp ts) (\<lambda>t. Inr (wa, t))))")
        case (Inl er)
        with assms Inr c False s sd g m1 show ?thesis by (simp add: payload_to_msg_def)
      next
        case h: (Inr wt)
        obtain wa t where wt: "wt = (wa, t)" by (cases wt)
        let ?msg = "\<lparr>row_id = None, instance_id = i,
                                    conversation_id = conv_id conv, wa_message_id = wa,
                                    tg_message_id = None, chat_id = chat, chat_name = cname,
                                    created_at = t, from_app = False,
                                    direction = (if incoming then D_inc else D_out),
                                    status = S_incoming, message_type = T_notification,
                                    msg_text = JNull, is_archived = archived, files = []\<rparr>"
        obtain r2 w2 where f: "fill_content e payload mdata mtype ?msg w1 = (r2, w2)"
          by (cases "fill_content e payload mdata mtype ?msg w1")
        from fill_content_frame [OF f] m1 have m2: "messages w2 = messages w" by simp
        from assms Inr c False s sd g h wt f have "w' = w2"
          by (auto simp: payload_to_msg_def split: sum.splits)
        with m2 show ?thesis by simp
      qed
    qed
  qed
qed

lemma payload_to_msg_key:
  assumes "payload_to_msg e payload i incoming archived w = (Inr (Some m), w')"
  shows "instance_id m = i \<and> subscript payload ''idMessage'' = Inr (wa_message_id m)"
proof -
  from assms obtain mdata mtype where c: "classify payload = Inr (mdata, mtype, False)"
    by (auto simp: payload_to_msg_def split: sum.splits if_splits)
  from assms c obtain chat phone cname where s: "sender_of payload = Inr (chat, phone, cname)"
    by (auto simp: payload_to_msg_def split: sum.splits)
  obtain conv w1 where g: "get_or_create_conversation i chat phone cname w = (conv, w1)"
    by (cases "get_or_create_conversation i chat phone cname w")
  from assms c s g obtain wa t where
    h: "bindE (subscript payload ''idMessage'') (\<lambda>wa.
          bindE (subscript payload ''timestamp'') (\<lambda>ts.
          bindE (utcfromtimestamp ts) (\<lambda>t. Inr (wa, t)))) = Inr (wa, t)"
    by (auto simp: payload_to_msg_def split: sum.splits)
  then have wa: "subscript payload ''idMessage'' = Inr wa"
    by (auto simp: bindE_Inr_iff)
  let ?msg = "\<lparr>row_id = None, instance_id = i,
                                    conversation_id = conv_id conv, wa_message_id = wa,
                                    tg_message_id = None, chat_id = chat, chat_name = cname,
                                    created_at = t, from_app = False,
                                    direction = (if incoming then D_inc else D_out),
                                    status = S_incoming, message_type = T_notification,
                                    msg_text = JNull, is_archived = archived, files = []\<rparr>"
  from assms c s g h have "fill_content e payload mdata mtype ?msg w1 = (Inr m, w')"
    by (auto simp: payload_to_msg_def split: sum.splits prod.splits)
  from fill_content_key [OF this] wa show ?thesis by simp
qed

section \<open>One row per provider message id\<close>

lemma messages_after_insert [simp]: "messages (after_insert r i w) = messages w"
  by (simp add: after_insert_def Let_def)

lemma violates_iff:
  "violates_uq_msg_wa m rows \<longleftrightarrow>
     wa_message_id m \<noteq> JNull \<and>
     (instance_id m, wa_message_id m) \<in>
       set (map (\<lambda>r. (instance_id r, wa_message_id r)) (filter (\<lambda>r. wa_message_id r \<noteq> JNull) rows))"
  by (force simp: violates_uq_msg_wa_def same_key_def list_ex_iff image_iff)

lemma uq_append:
  assumes "uq_msg_wa rows" and "\<not> violates_uq_msg_wa m rows"
  shows "uq_msg_wa (rows @ [m\<lparr>row_id := x\<rparr>])"
proof (cases "wa_message_id m = JNull")
  case True
  with assms(1) show ?thesis by (simp add: uq_msg_wa_def)
next
  case False
  with assms(2) have
    "(instance_id m, wa_message_id m) \<notin>
       set (map (\<lambda>r. (instance_id r, wa_message_id r)) (filter (\<lambda>r. wa_message_id r \<noteq> JNull) rows))"
    by (simp add: violates_iff)
  with assms(1) False show ?thesis by (simp add: uq_msg_wa_def)
qed

lemma add_commit_dup:
  "violates_not_null m \<or> violates_uq_msg_wa m (messages w) \<Longrightarrow>
     add_commit m w = (Inl IntegrityError, w)"
  by (auto simp: add_commit_def)

lemma add_commit_new:
  "\<not> violates_not_null m \<Longrightarrow> \<not> violates_uq_msg_wa m (messages w) \<Longrightarrow>
     \<exists>r w'. add_commit m w = (Inr r, w')
       \<and> messages w' = messages w @ [m\<lparr>row_id := Some (fresh_id (messages w))\<rparr>]"
  by (simp add: add_commit_def Let_def)

lemma add_commit_uq:
  assumes "uq_msg_wa (messages w)" and "add_commit m w = (r, w')"
  shows "uq_msg_wa (messages w')"
proof (cases "violates_not_null m \<or> violates_uq_msg_wa m (messages w)")
  case True
  from add_commit_dup [OF True] assms show ?thesis by simp
next
  case False
  then have n: "\<not> violates_not_null m" and u: "\<not> violates_uq_msg_wa m (messages w)"
    by simp_all
  from add_commit_new [OF n u] assms(2)
  have "messages w' = messages w @ [m\<lparr>row_id := Some (fresh_id (messages w))\<rparr>]" by auto
  with uq_append [OF assms(1) u] show ?thesis by simp
qed

lemma incoming_commit_dup:
  "violates_not_null m \<or> violates_uq_msg_wa m (messages w) \<Longrightarrow>
     incoming_commit m w = (Inr (), log_msg WARNING ''Dup webhook skipped'' w)"
  by (simp add: incoming_commit_def add_commit_dup)

lemma outgoing_commit_dup:
  "violates_not_null m \<or> violates_uq_msg_wa m (messages w) \<Longrightarrow>
     outgoing_commit m w = (Inr (), log_msg DEBUG ''Race dup - unique constraint won'' w)"
  by (simp add: outgoing_commit_def add_commit_dup)

lemma incoming_commit_new:
  assumes "\<not> violates_not_null m" and "\<not> violates_uq_msg_wa m (messages w)"
  shows "fst (incoming_commit m w) = Inr ()
       \<and> messages (snd (incoming_commit m w))
           = messages w @ [m\<lparr>row_id := Some (fresh_id (messages w))\<rparr>]"
proof -
  from add_commit_new [OF assms] obtain r w' where
    "add_commit m w = (Inr r, w')"
    "messages w' = messages w @ [m\<lparr>row_id := Some (fresh_id (messages w))\<rparr>]"
    by blast
  then show ?thesis by (simp add: incoming_commit_def)
qed

lemma outgoing_commit_new:
  assumes "\<not> violates_not_null m" and "\<not> violates_uq_msg_wa m (messages w)"
  shows "fst (outgoing_commit m w) = Inr ()
       \<and> messages (snd (outgoing_commit m w))
           = messages w @ [m\<lparr>row_id := Some (fresh_id (messages w))\<rparr>]"
proof -
  from add_commit_new [OF assms] obtain r w' where
    "add_commit m w = (Inr r, w')"
    "messages w' = messages w @ [m\<lparr>row_id := Some (fresh_id (messages w))\<rparr>]"
    by blast
  then show ?thesis by (simp add: outgoing_commit_def)
qed

lemma incoming_commit_uq:
  assumes "uq_msg_wa (messages w)"
  shows "uq_msg_wa (messages (snd (incoming_commit m w)))"
proof -
  obtain r w' where a: "add_commit m w = (r, w')" by (cases "add_commit m w")
  from add_commit_uq [OF assms a] have "uq_msg_wa (messages w')" .
  with a show ?thesis
    by (auto simp: incoming_commit_def split: sum.splits py_error.splits)
qed

lemma outgoing_commit_uq:
  assumes "uq_msg_wa (messages w)"
  shows "uq_msg_wa (messages (snd (outgoing_commit m w)))"
proof -
  obtain r w' where a: "add_commit m w = (r, w')" by (cases "add_commit m w")
  from add_commit_uq [OF assms a] have "uq_msg_wa (messages w')" .
  with a show ?thesis
    by (auto simp: outgoing_commit_def split: sum.splits py_error.splits)
qed

lemma incoming_commit_ok: "fst (incoming_commit m w) = Inr ()"
  by (cases "violates_not_null m \<or> violates_uq_msg_wa m (messages w)")
     (auto simp: incoming_commit_dup incoming_commit_new)

lemma outgoing_commit_ok: "fst (outgoing_commit m w) = Inr ()"
  by (cases "violates_not_null m \<or> violates_uq_msg_wa m (messages w)")
     (auto simp: outgoing_commit_dup outgoing_commit_new)

lemma handle_incoming_uq:
  assumes "uq_msg_wa (messages w)"
  shows "uq_msg_wa (messages (snd (handle_incoming e p w)))"
proof (cases "bindE (instance_of p) (\<lambda>a. resolve_internal_id a w)")
  case (Inl er)
  with assms show ?thesis by (simp add: handle_incoming_def)
next
  case (Inr x)
  show ?thesis
  proof (cases x)
    case None
    with assms Inr show ?thesis by (simp add: handle_incoming_def)
  next
    case (Some i)
    obtain r w1 where q: "payload_to_msg e p i True False w = (r, w1)"
      by (cases "payload_to_msg e p i True False w")
    from payload_to_msg_frame [OF q] assms have u1: "uq_msg_wa (messages w1)" by simp
    show ?thesis
    proof (cases r)
      case (Inl er)
      with Inr Some q u1 show ?thesis by (simp add: handle_incoming_def)
    next
      case r: (Inr mo)
      show ?thesis
      proof (cases mo)
        case None
        with Inr Some q u1 r show ?thesis by (simp add: handle_incoming_def)
      next
        case (Some m)
        with Inr \<open>x = Some i\<close> q r
        have "handle_incoming e p w = incoming_commit m w1" by (simp add: handle_incoming_def)
        with incoming_commit_uq [OF u1] show ?thesis by simp
      qed
    qed
  qed
qed

lemma handle_outgoing_uq:
  assumes "uq_msg_wa (messages w)"
  shows "uq_msg_wa (messages (snd (handle_outgoing e p w)))"
proof (cases "bindE (instance_of p) (\<lambda>a.
           bindE (subscript p ''idMessage'') (\<lambda>wa.
           bindE (resolve_internal_id a w) (\<lambda>r. Inr (wa, r))))")
  case (Inl er)
  with assms show ?thesis by (simp add: handle_outgoing_def)
next
  case (Inr x)
  obtain wa io where x: "x = (wa, io)" by (cases x)
  show ?thesis
  proof (cases io)
    case None
    with assms Inr x show ?thesis by (simp add: handle_outgoing_def)
  next
    case (Some i)
    show ?thesis
    proof (cases "message_exists i wa w")
      case True
      with assms Inr x Some show ?thesis by (simp add: handle_outgoing_def)
    next
      case False
      obtain r w1 where q: "payload_to_msg e p i False False w = (r, w1)"
        by (cases "payload_to_msg e p i False False w")
      from payload_to_msg_frame [OF q] assms have u1: "uq_msg_wa (messages w1)" by simp
      show ?thesis
      proof (cases r)
        case (Inl er)
        with Inr x Some False q u1 show ?thesis by (simp add: handle_outgoing_def)
      next
        case r: (Inr mo)
        show ?thesis
        proof (cases mo)
          case None
          with Inr x \<open>io = Some i\<close> False q u1 r show ?thesis by (simp add: handle_outgoing_def)
        next
          case (Some m)
          with Inr x \<open>io = Some i\<close> False q r
          have "handle_outgoing e p w =
                  outgoing_commit (m\<lparr>direction := D_out, from_app := False\<rparr>) w1"
            by (simp add: handle_outgoing_def)
          with outgoing_commit_uq [OF u1] show ?thesis by simp
        qed
      qed
    qed
  qed
qed

lemma distinct_filter_eq:
  "distinct xs \<Longrightarrow> length (filter (\<lambda>x. x = a) xs) \<le> 1"
proof (induction xs)
  case Nil
  then show ?case by simp
next
  case (Cons x xs)
  show ?case
  proof (cases "x = a")
    case True
    with Cons.prems have "a \<notin> set xs" by simp
    then have "filter (\<lambda>x. x = a) xs = []" by (auto simp: filter_empty_conv)
    with True show ?thesis by simp
  next
    case False
    with Cons show ?thesis by simp
  qed
qed

lemma uq_rows_with:
  assumes "uq_msg_wa (messages w)" and "wa \<noteq> JNull"
  shows "rows_with i wa w \<le> 1"
proof -
  let ?k = "\<lambda>r. (instance_id r, wa_message_id r)"
  let ?nn = "filter (\<lambda>r. wa_message_id r \<noteq> JNull) (messages w)"
  have "filter (\<lambda>r. instance_id r = i \<and> wa_message_id r = wa) (messages w)
          = filter (\<lambda>r. ?k r = (i, wa)) ?nn"
    using assms(2) by (auto intro: filter_cong)
  then have "rows_with i wa w = length (filter (\<lambda>x. x = (i, wa)) (map ?k ?nn))"
    by (simp add: rows_with_def filter_map comp_def)
  also have "\<dots> \<le> 1"
    using assms(1) unfolding uq_msg_wa_def by (rule distinct_filter_eq)
  finally show ?thesis .
qed

lemma commit_then_dup:
  assumes "wa_message_id m \<noteq> JNull" and "same_key m m'" and "\<not> violates_not_null m"
  shows "violates_uq_msg_wa m' (messages (snd (incoming_commit m w)))"
    and "violates_uq_msg_wa m' (messages (snd (outgoing_commit m w)))"
proof -
  have "violates_uq_msg_wa m' (messages (snd (incoming_commit m w)))
      \<and> violates_uq_msg_wa m' (messages (snd (outgoing_commit m w)))"
  proof (cases "violates_uq_msg_wa m (messages w)")
    case True
    with assms show ?thesis
      by (auto simp: incoming_commit_dup outgoing_commit_dup violates_uq_msg_wa_def
          same_key_def list_ex_iff)
  next
    case False
    from incoming_commit_new [OF assms(3) False] outgoing_commit_new [OF assms(3) False] assms(1,2)
    show ?thesis
      by (simp add: violates_uq_msg_wa_def same_key_def)
  qed
  then show "violates_uq_msg_wa m' (messages (snd (incoming_commit m w)))"
    and "violates_uq_msg_wa m' (messages (snd (outgoing_commit m w)))"
    by simp_all
qed

lemma violates_rows_with:
  "violates_uq_msg_wa m (messages w) \<Longrightarrow> 1 \<le> rows_with (instance_id m) (wa_message_id m) w"
proof -
  assume "violates_uq_msg_wa m (messages w)"
  then obtain r where "r \<in> set (messages w)" and "instance_id r = instance_id m"
    and "wa_message_id r = wa_message_id m"
    by (auto simp: violates_uq_msg_wa_def same_key_def list_ex_iff)
  then have "r \<in> set (filter (\<lambda>r. instance_id r = instance_id m \<and> wa_message_id r = wa_message_id m)
                        (messages w))"
    by simp
  then have "filter (\<lambda>r. instance_id r = instance_id m \<and> wa_message_id r = wa_message_id m)
                        (messages w) \<noteq> []"
    by (metis empty_iff list.set(1))
  then show ?thesis
    unfolding rows_with_def by (simp add: Suc_le_eq)
qed

lemma rows_with_violates:
  assumes "1 \<le> rows_with (instance_id m) (wa_message_id m) w" and "wa_message_id m \<noteq> JNull"
  shows "violates_uq_msg_wa m (messages w)"
proof -
  from assms(1) have
    "filter (\<lambda>r. instance_id r = instance_id m \<and> wa_message_id r = wa_message_id m) (messages w)
       \<noteq> []"
    unfolding rows_with_def by auto
  then obtain r where "r \<in> set (messages w)" "instance_id r = instance_id m"
    "wa_message_id r = wa_message_id m"
    by (auto simp: filter_empty_conv)
  with assms(2) show ?thesis
    by (auto simp: violates_uq_msg_wa_def same_key_def list_ex_iff)
qed

lemma rows_with_messages: "messages w' = messages w \<Longrightarrow> rows_with i wa w' = rows_with i wa w"
  by (simp add: rows_with_def)

text \<open>The handlers, once the message is built, are its commit.\<close>

lemma handle_incoming_built:
  assumes "bindE (instance_of p) (\<lambda>a. resolve_internal_id a w) = Inr (Some i)"
    and "payload_to_msg e p i True False w = (Inr (Some m), w1)"
  shows "handle_incoming e p w = incoming_commit m w1"
  by (simp add: handle_incoming_def assms)

lemma handle_outgoing_skip:
  assumes "instance_of p = Inr a" and "subscript p ''idMessage'' = Inr wa"
    and "resolve_internal_id a w = Inr (Some i)" and "message_exists i wa w"
  shows "handle_outgoing e p w = (Inr (), log_msg DEBUG ''Dup OUT msg - skip download/parse'' w)"
  by (simp add: handle_outgoing_def assms)

lemma handle_outgoing_built:
  assumes "instance_of p = Inr a" and "subscript p ''idMessage'' = Inr wa"
    and "resolve_internal_id a w = Inr (Some i)" and "\<not> message_exists i wa w"
    and "payload_to_msg e p i False False w = (Inr (Some m), w1)"
  shows "handle_outgoing e p w = outgoing_commit (m\<lparr>direction := D_out, from_app := False\<rparr>) w1"
  by (simp add: handle_outgoing_def assms)

text \<open>A payload whose row is there already: neither handler changes the rows.\<close>

lemma handle_incoming_again:
  assumes "subscript p ''idMessage'' = Inr wa" and "wa \<noteq> JNull"
    and "bindE (instance_of p) (\<lambda>a. resolve_internal_id a w) = Inr (Some i)"
    and "1 \<le> rows_with i wa w"
  shows "messages (snd (handle_incoming e p w)) = messages w"
proof -
  obtain r w1 where q: "payload_to_msg e p i True False w = (r, w1)"
    by (cases "payload_to_msg e p i True False w")
  note f = payload_to_msg_frame [OF q]
  show ?thesis
  proof (cases r)
    case (Inl er)
    with assms(3) q f show ?thesis by (simp add: handle_incoming_def)
  next
    case (Inr mo)
    show ?thesis
    proof (cases mo)
      case None
      with Inr assms(3) q f show ?thesis by (simp add: handle_incoming_def)
    next
      case (Some m)
      with Inr q have q': "payload_to_msg e p i True False w = (Inr (Some m), w1)" by simp
      from payload_to_msg_key [OF q'] assms(1) have k: "instance_id m = i" "wa_message_id m = wa"
        by simp_all
      from assms(4) f k have "1 \<le> rows_with (instance_id m) (wa_message_id m) w1"
        by (simp add: rows_with_def)
      from rows_with_violates [OF this] k assms(2)
      have "violates_uq_msg_wa m (messages w1)" by simp
      then have "incoming_commit m w1 = (Inr (), log_msg WARNING ''Dup webhook skipped'' w1)"
        by (simp add: incoming_commit_dup)
      with handle_incoming_built [OF assms(3) q'] f show ?thesis by simp
    qed
  qed
qed

lemma handle_outgoing_again:
  assumes "subscript p ''idMessage'' = Inr wa" and "wa \<noteq> JNull"
    and "instance_of p = Inr a" and "resolve_internal_id a w = Inr (Some i)"
    and "1 \<le> rows_with i wa w"
  shows "messages (snd (handle_outgoing e p w)) = messages w"
proof (cases "message_exists i wa w")
  case True
  from handle_outgoing_skip [OF assms(3,1,4) True] show ?thesis by simp
next
  case False
  obtain r w1 where q: "payload_to_msg e p i False False w = (r, w1)"
    by (cases "payload_to_msg e p i False False w")
  note f = payload_to_msg_frame [OF q]
  show ?thesis
  proof (cases r)
    case (Inl er)
    with assms(1,3,4) False q f show ?thesis by (simp add: handle_outgoing_def)
  next
    case (Inr mo)
    show ?thesis
    proof (cases mo)
      case None
      with Inr assms(1,3,4) False q f show ?thesis by (simp add: handle_outgoing_def)
    next
      case (Some m)
      let ?m = "m\<lparr>direction := D_out, from_app := False\<rparr>"
      from Some Inr q have q': "payload_to_msg e p i False False w = (Inr (Some m), w1)" by simp
      from payload_to_msg_key [OF q'] assms(1) have k: "instance_id ?m = i" "wa_message_id ?m = wa"
        by simp_all
      from assms(5) f k have "1 \<le> rows_with (instance_id ?m) (wa_message_id ?m) w1"
        by (simp add: rows_with_def)
      from rows_with_violates [OF this] k assms(2)
      have "violates_uq_msg_wa ?m (messages w1)" by simp
      then have "outgoing_commit ?m w1
                   = (Inr (), log_msg DEBUG ''Race dup - unique constraint won'' w1)"
        by (simp add: outgoing_commit_dup)
      with handle_outgoing_built [OF assms(3,1,4) False q'] f show ?thesis by simp
    qed
  qed
qed

text \<open>Two messages built from one payload for one account, committed one after the other.\<close>

lemma two_commits:
  assumes uq: "uq_msg_wa (messages w)"
    and a: "payload_to_msg e p i inc arch wa0 = (Inr (Some m1), wa1)"
    and b: "payload_to_msg e' p i inc arch wb0 = (Inr (Some m2), wb1)"
    and n: "wa_message_id m1 \<noteq> JNull" and nn: "\<not> violates_not_null (g m1)"
    and g: "\<And>m. instance_id (g m) = instance_id m \<and> wa_message_id (g m) = wa_message_id m"
    and c: "commit = incoming_commit \<or> commit = outgoing_commit"
  shows "fst (commit (g m2) (snd (commit (g m1) w))) = Inr ()
       \<and> messages (snd (commit (g m2) (snd (commit (g m1) w)))) = messages (snd (commit (g m1) w))
       \<and> rows_with i (wa_message_id m1) (snd (commit (g m2) (snd (commit (g m1) w)))) = 1
       \<and> (\<not> violates_uq_msg_wa (g m1) (messages w) \<longrightarrow>
            messages (snd (commit (g m1) w))
              = messages w @ [(g m1)\<lparr>row_id := Some (fresh_id (messages w))\<rparr>])"
proof -
  let ?w1 = "snd (commit (g m1) w)"
  let ?w2 = "snd (commit (g m2) ?w1)"
  from payload_to_msg_key [OF a] payload_to_msg_key [OF b] g
  have k: "same_key (g m1) (g m2)" and i1: "instance_id (g m1) = i"
    and k1: "same_key (g m1) (g m1)" and w1: "wa_message_id (g m1) = wa_message_id m1"
    by (auto simp: same_key_def)
  from n w1 have n': "wa_message_id (g m1) \<noteq> JNull" by simp
  from c commit_then_dup [OF n' k nn] have v: "violates_uq_msg_wa (g m2) (messages ?w1)"
    by auto
  from c commit_then_dup [OF n' k1 nn] have v1: "violates_uq_msg_wa (g m1) (messages ?w1)"
    by auto
  from c v have m: "messages ?w2 = messages ?w1"
    by (auto simp: incoming_commit_dup outgoing_commit_dup)
  from c have ok: "fst (commit (g m2) ?w1) = Inr ()"
    by (auto simp: incoming_commit_ok outgoing_commit_ok)
  from c uq have u: "uq_msg_wa (messages ?w1)"
    by (auto simp: incoming_commit_uq outgoing_commit_uq)
  from uq_rows_with [OF u n', of i] violates_rows_with [OF v1] i1 w1
  have "rows_with i (wa_message_id m1) ?w1 = 1" by (simp add: le_antisym)
  with m have r: "rows_with i (wa_message_id m1) ?w2 = 1" by (simp add: rows_with_def)
  have s: "messages ?w1 = messages w @ [(g m1)\<lparr>row_id := Some (fresh_id (messages w))\<rparr>]"
    if "\<not> violates_uq_msg_wa (g m1) (messages w)"
    using c incoming_commit_new [OF nn that] outgoing_commit_new [OF nn that] by auto
  from ok m r s show ?thesis by blast
qed

text \<open>
  C1. The store's constraint on (account, provider message id), read as a property of
  the messages table, is kept by the two handlers that insert an ingested message, so
  that an account never has two rows with one non-null provider id.

  Once \<^verbatim>\<open>payload_to_msg\<close> has built the message, which leaves the rows alone and gives
  the message the account and the provider id of the payload, \<^verbatim>\<open>_handle_incoming\<close> is
  the commit of that message; \<^verbatim>\<open>_handle_outgoing\<close> returns at once when it finds a row
  with the payload's provider id, and otherwise is the commit of the message as an
  outbound one. A commit that violates a constraint ends both handlers normally:
  nothing is stored, one line is logged. A commit that violates none returns normally
  and appends the message, under a new row id, to the rows.

  A payload whose provider id is not null and has a row already changes no row,
  whichever of the two handlers gets it: this is the second of two deliveries that
  come one after the other. And when two deliveries of one payload have each built
  their message before either commits, and the first message can be stored, then the
  second commit returns normally and leaves the rows as the first commit left them:
  the rows from before and the row of the first message, exactly one row with that
  provider id.
\<close>

theorem message_dedup:
  assumes "uq_msg_wa (messages w)"
  shows "uq_msg_wa (messages (snd (handle_incoming e p w)))
       \<and> uq_msg_wa (messages (snd (handle_outgoing e p w)))
       \<and> (wa \<noteq> JNull \<longrightarrow> rows_with i wa (snd (handle_incoming e p w)) \<le> 1
                        \<and> rows_with i wa (snd (handle_outgoing e p w)) \<le> 1)
       \<and> (bindE (instance_of p) (\<lambda>a. resolve_internal_id a w) = Inr (Some i)
          \<and> payload_to_msg e p i True False w = (Inr (Some m), w1) \<longrightarrow>
            handle_incoming e p w = incoming_commit m w1
          \<and> messages w1 = messages w
          \<and> instance_id m = i \<and> subscript p ''idMessage'' = Inr (wa_message_id m))
       \<and> (instance_of p = Inr a \<and> subscript p ''idMessage'' = Inr wa
          \<and> resolve_internal_id a w = Inr (Some i) \<longrightarrow>
            (message_exists i wa w \<longrightarrow>
               handle_outgoing e p w
                 = (Inr (), log_msg DEBUG ''Dup OUT msg - skip download/parse'' w))
          \<and> (\<not> message_exists i wa w
              \<and> payload_to_msg e p i False False w = (Inr (Some m), w1) \<longrightarrow>
               handle_outgoing e p w
                 = outgoing_commit (m\<lparr>direction := D_out, from_app := False\<rparr>) w1
             \<and> messages w1 = messages w
             \<and> instance_id m = i \<and> wa_message_id m = wa))
       \<and> (violates_not_null m \<or> violates_uq_msg_wa m (messages w) \<longrightarrow>
            incoming_commit m w = (Inr (), log_msg WARNING ''Dup webhook skipped'' w)
          \<and> outgoing_commit m w =
              (Inr (), log_msg DEBUG ''Race dup - unique constraint won'' w))
       \<and> (\<not> violates_not_null m \<and> \<not> violates_uq_msg_wa m (messages w) \<longrightarrow>
            fst (incoming_commit m w) = Inr ()
          \<and> messages (snd (incoming_commit m w))
              = messages w @ [m\<lparr>row_id := Some (fresh_id (messages w))\<rparr>]
          \<and> fst (outgoing_commit m w) = Inr ()
          \<and> messages (snd (outgoing_commit m w))
              = messages w @ [m\<lparr>row_id := Some (fresh_id (messages w))\<rparr>])
       \<and> (subscript p ''idMessage'' = Inr wa \<and> wa \<noteq> JNull
          \<and> instance_of p = Inr a \<and> resolve_internal_id a w = Inr (Some i)
          \<and> 1 \<le> rows_with i wa w \<longrightarrow>
            messages (snd (handle_incoming e p w)) = messages w
          \<and> messages (snd (handle_outgoing e p w)) = messages w)
       \<and> (payload_to_msg e p i True False wa0 = (Inr (Some m1), wa1)
          \<and> payload_to_msg e' p i True False wb0 = (Inr (Some m2), wb1)
          \<and> wa_message_id m1 \<noteq> JNull \<and> \<not> violates_not_null m1 \<longrightarrow>
            fst (incoming_commit m2 (snd (incoming_commit m1 w))) = Inr ()
          \<and> messages (snd (incoming_commit m2 (snd (incoming_commit m1 w))))
              = messages (snd (incoming_commit m1 w))
          \<and> rows_with i (wa_message_id m1)
               (snd (incoming_commit m2 (snd (incoming_commit m1 w)))) = 1
          \<and> (\<not> violates_uq_msg_wa m1 (messages w) \<longrightarrow>
               messages (snd (incoming_commit m1 w))
                 = messages w @ [m1\<lparr>row_id := Some (fresh_id (messages w))\<rparr>]))
       \<and> (payload_to_msg e p i False False wa0 = (Inr (Some m1), wa1)
          \<and> payload_to_msg e' p i False False wb0 = (Inr (Some m2), wb1)
          \<and> wa_message_id m1 \<noteq> JNull \<and> \<not> violates_not_null m1 \<longrightarrow>
            fst (outgoing_commit (m2\<lparr>direction := D_out, from_app := False\<rparr>)
                   (snd (outgoing_commit (m1\<lparr>direction := D_out, from_app := False\<rparr>) w)))
              = Inr ()
          \<and> messages (snd (outgoing_commit (m2\<lparr>direction := D_out, from_app := False\<rparr>)
                   (snd (outgoing_commit (m1\<lparr>direction := D_out, from_app := False\<rparr>) w))))
              = messages (snd (outgoing_commit (m1\<lparr>direction := D_out, from_app := False\<rparr>) w))
          \<and> rows_with i (wa_message_id m1)
               (snd (outgoing_commit (m2\<lparr>direction := D_out, from_app := False\<rparr>)
                   (snd (outgoing_commit (m1\<lparr>direction := D_out, from_app := False\<rparr>) w))))
              = 1
          \<and> (\<not> violates_uq_msg_wa (m1\<lparr>direction := D_out, from_app := False\<rparr>) (messages w)
              \<longrightarrow>
               messages (snd (outgoing_commit (m1\<lparr>direction := D_out, from_app := False\<rparr>) w))
                 = messages w @ [m1\<lparr>direction := D_out, from_app := False,
                                    row_id := Some (fresh_id (messages w))\<rparr>]))"
proof -
  have 1: "uq_msg_wa (messages (snd (handle_incoming e p w)))"
    using assms by (rule handle_incoming_uq)
  have 2: "uq_msg_wa (messages (snd (handle_outgoing e p w)))"
    using assms by (rule handle_outgoing_uq)
  have 3: "wa \<noteq> JNull \<longrightarrow> rows_with i wa (snd (handle_incoming e p w)) \<le> 1
                        \<and> rows_with i wa (snd (handle_outgoing e p w)) \<le> 1"
    using uq_rows_with [OF 1, of wa i] uq_rows_with [OF 2, of wa i] by blast
  have 4: "bindE (instance_of p) (\<lambda>a. resolve_internal_id a w) = Inr (Some i)
          \<and> payload_to_msg e p i True False w = (Inr (Some m), w1) \<longrightarrow>
            handle_incoming e p w = incoming_commit m w1
          \<and> messages w1 = messages w
          \<and> instance_id m = i \<and> subscript p ''idMessage'' = Inr (wa_message_id m)"
  proof (intro impI; elim conjE)
    assume b: "bindE (instance_of p) (\<lambda>a. resolve_internal_id a w) = Inr (Some i)"
      and q: "payload_to_msg e p i True False w = (Inr (Some m), w1)"
    from handle_incoming_built [OF b q] payload_to_msg_frame [OF q] payload_to_msg_key [OF q]
    show "handle_incoming e p w = incoming_commit m w1
          \<and> messages w1 = messages w
          \<and> instance_id m = i \<and> subscript p ''idMessage'' = Inr (wa_message_id m)"
      by simp
  qed
  have 5: "instance_of p = Inr a \<and> subscript p ''idMessage'' = Inr wa
          \<and> resolve_internal_id a w = Inr (Some i) \<longrightarrow>
            (message_exists i wa w \<longrightarrow>
               handle_outgoing e p w
                 = (Inr (), log_msg DEBUG ''Dup OUT msg - skip download/parse'' w))
          \<and> (\<not> message_exists i wa w
              \<and> payload_to_msg e p i False False w = (Inr (Some m), w1) \<longrightarrow>
               handle_outgoing e p w
                 = outgoing_commit (m\<lparr>direction := D_out, from_app := False\<rparr>) w1
             \<and> messages w1 = messages w
             \<and> instance_id m = i \<and> wa_message_id m = wa)"
  proof (intro impI conjI; elim conjE)
    assume h: "instance_of p = Inr a" "subscript p ''idMessage'' = Inr wa"
      "resolve_internal_id a w = Inr (Some i)"
    {
      assume "message_exists i wa w"
      with h show "handle_outgoing e p w
                 = (Inr (), log_msg DEBUG ''Dup OUT msg - skip download/parse'' w)"
        by (rule handle_outgoing_skip)
    }
    assume x: "\<not> message_exists i wa w"
      and q: "payload_to_msg e p i False False w = (Inr (Some m), w1)"
    from h x q show "handle_outgoing e p w
                 = outgoing_commit (m\<lparr>direction := D_out, from_app := False\<rparr>) w1"
      by (rule handle_outgoing_built)
    from q show "messages w1 = messages w" by (rule payload_to_msg_frame)
    from payload_to_msg_key [OF q] h(2) show "instance_id m = i" "wa_message_id m = wa"
      by simp_all
  qed
  have 6: "violates_not_null m \<or> violates_uq_msg_wa m (messages w) \<longrightarrow>
            incoming_commit m w = (Inr (), log_msg WARNING ''Dup webhook skipped'' w)
          \<and> outgoing_commit m w =
              (Inr (), log_msg DEBUG ''Race dup - unique constraint won'' w)"
    using incoming_commit_dup outgoing_commit_dup by blast
  have 7: "\<not> violates_not_null m \<and> \<not> violates_uq_msg_wa m (messages w) \<longrightarrow>
            fst (incoming_commit m w) = Inr ()
          \<and> messages (snd (incoming_commit m w))
              = messages w @ [m\<lparr>row_id := Some (fresh_id (messages w))\<rparr>]
          \<and> fst (outgoing_commit m w) = Inr ()
          \<and> messages (snd (outgoing_commit m w))
              = messages w @ [m\<lparr>row_id := Some (fresh_id (messages w))\<rparr>]"
    using incoming_commit_new outgoing_commit_new by blast
  have 8: "subscript p ''idMessage'' = Inr wa \<and> wa \<noteq> JNull
          \<and> instance_of p = Inr a \<and> resolve_internal_id a w = Inr (Some i)
          \<and> 1 \<le> rows_with i wa w \<longrightarrow>
            messages (snd (handle_incoming e p w)) = messages w
          \<and> messages (snd (handle_outgoing e p w)) = messages w"
  proof (intro impI conjI; elim conjE)
    assume h: "subscript p ''idMessage'' = Inr wa" "wa \<noteq> JNull"
      "instance_of p = Inr a" "resolve_internal_id a w = Inr (Some i)" "1 \<le> rows_with i wa w"
    from h(3,4) have b: "bindE (instance_of p) (\<lambda>a. resolve_internal_id a w) = Inr (Some i)"
      by simp
    from h(1,2) b h(5) show "messages (snd (handle_incoming e p w)) = messages w"
      by (rule handle_incoming_again)
    from h show "messages (snd (handle_outgoing e p w)) = messages w"
      by (rule handle_outgoing_again)
  qed
  have 9: "payload_to_msg e p i True False wa0 = (Inr (Some m1), wa1)
          \<and> payload_to_msg e' p i True False wb0 = (Inr (Some m2), wb1)
          \<and> wa_message_id m1 \<noteq> JNull \<and> \<not> violates_not_null m1 \<longrightarrow>
            fst (incoming_commit m2 (snd (incoming_commit m1 w))) = Inr ()
          \<and> messages (snd (incoming_commit m2 (snd (incoming_commit m1 w))))
              = messages (snd (incoming_commit m1 w))
          \<and> rows_with i (wa_message_id m1)
               (snd (incoming_commit m2 (snd (incoming_commit m1 w)))) = 1
          \<and> (\<not> violates_uq_msg_wa m1 (messages w) \<longrightarrow>
               messages (snd (incoming_commit m1 w))
                 = messages w @ [m1\<lparr>row_id := Some (fresh_id (messages w))\<rparr>])"
  proof (intro impI; elim conjE)
    assume a: "payload_to_msg e p i True False wa0 = (Inr (Some m1), wa1)"
      and b: "payload_to_msg e' p i True False wb0 = (Inr (Some m2), wb1)"
      and n: "wa_message_id m1 \<noteq> JNull" and nn: "\<not> violates_not_null m1"
    from two_commits [OF assms a b n, where g = "\<lambda>m. m" and commit = incoming_commit] nn
    show "fst (incoming_commit m2 (snd (incoming_commit m1 w))) = Inr ()
          \<and> messages (snd (incoming_commit m2 (snd (incoming_commit m1 w))))
              = messages (snd (incoming_commit m1 w))
          \<and> rows_with i (wa_message_id m1)
               (snd (incoming_commit m2 (snd (incoming_commit m1 w)))) = 1
          \<and> (\<not> violates_uq_msg_wa m1 (messages w) \<longrightarrow>
               messages (snd (incoming_commit m1 w))
                 = messages w @ [m1\<lparr>row_id := Some (fresh_id (messages w))\<rparr>])"
      by simp
  qed
  have 10: "payload_to_msg e p i False False wa0 = (Inr (Some m1), wa1)
          \<and> payload_to_msg e' p i False False wb0 = (Inr (Some m2), wb1)
          \<and> wa_message_id m1 \<noteq> JNull \<and> \<not> violates_not_null m1 \<longrightarrow>
            fst (outgoing_commit (m2\<lparr>direction := D_out, from_app := False\<rparr>)
                   (snd (outgoing_commit (m1\<lparr>direction := D_out, from_app := False\<rparr>) w)))
              = Inr ()
          \<and> messages (snd (outgoing_commit (m2\<lparr>direction := D_out, from_app := False\<rparr>)
                   (snd (outgoing_commit (m1\<lparr>direction := D_out, from_app := False\<rparr>) w))))
              = messages (snd (outgoing_commit (m1\<lparr>direction := D_out, from_app := False\<rparr>) w))
          \<and> rows_with i (wa_message_id m1)
               (snd (outgoing_commit (m2\<lparr>direction := D_out, from_app := False\<rparr>)
                   (snd (outgoing_commit (m1\<lparr>direction := D_out, from_app := False\<rparr>) w))))
              = 1
          \<and> (\<not> violates_uq_msg_wa (m1\<lparr>direction := D_out, from_app := False\<rparr>) (messages w)
              \<longrightarrow>
               messages (snd (outgoing_commit (m1\<lparr>direction := D_out, from_app := False\<rparr>) w))
                 = messages w @ [m1\<lparr>direction := D_out, from_app := False,
                                    row_id := Some (fresh_id (messages w))\<rparr>])"
  proof (intro impI; elim conjE)
    assume a: "payload_to_msg e p i False False wa0 = (Inr (Some m1), wa1)"
      and b: "payload_to_msg e' p i False False wb0 = (Inr (Some m2), wb1)"
      and n: "wa_message_id m1 \<noteq> JNull" and nn: "\<not> violates_not_null m1"
    from nn have nn': "\<not> violates_not_null (m1\<lparr>direction := D_out, from_app := False\<rparr>)"
      by (simp add: violates_not_null_def)
    from two_commits [OF assms a b n, where g = "\<lambda>m. m\<lparr>direction := D_out, from_app := False\<rparr>"
        and commit = outgoing_commit] nn'
    show "fst (outgoing_commit (m2\<lparr>direction := D_out, from_app := False\<rparr>)
                   (snd (outgoing_commit (m1\<lparr>direction := D_out, from_app := False\<rparr>) w)))
              = Inr ()
          \<and> messages (snd (outgoing_commit (m2\<lparr>direction := D_out, from_app := False\<rparr>)
                   (snd (outgoing_commit (m1\<lparr>direction := D_out, from_app := False\<rparr>) w))))
              = messages (snd (outgoing_commit (m1\<lparr>direction := D_out, from_app := False\<rparr>) w))
          \<and> rows_with i (wa_message_id m1)
               (snd (outgoing_commit (m2\<lparr>direction := D_out, from_app := False\<rparr>)
                   (snd (outgoing_commit (m1\<lparr>direction := D_out, from_app := False\<rparr>) w))))
              = 1
          \<and> (\<not> violates_uq_msg_wa (m1\<lparr>direction := D_out, from_app := False\<rparr>) (messages w)
              \<longrightarrow>
               messages (snd (outgoing_commit (m1\<lparr>direction := D_out, from_app := False\<rparr>) w))
                 = messages w @ [m1\<lparr>direction := D_out, from_app := False,
                                    row_id := Some (fresh_id (messages w))\<rparr>])"
      by simp
  qed
  from 1 2 3 4 5 6 7 8 9 10 show ?thesis by (intro conjI)
qed

text \<open>
  A text message for account 1101, delivered twice to an empty store: one row after
  the first delivery, and still that one row after the second. The same for a text sent
  from the phone, which the outgoing handler gets. An image whose MIME type is null,
  downloaded and then refused by the store: the handler returns normally and no row is
  stored.
\<close>

theorem message_dedup_witness:
  "uq_msg_wa (messages world0)
   \<and> uq_msg_wa (messages (snd (handle_incoming env0 text_payload world0)))
   \<and> rows_with 1 (JStr ''A1'') (snd (handle_incoming env0 text_payload world0)) = 1
   \<and> fst (handle_incoming env0 text_payload (snd (handle_incoming env0 text_payload world0)))
       = Inr ()
   \<and> messages (snd (handle_incoming env0 text_payload
                      (snd (handle_incoming env0 text_payload world0))))
       = messages (snd (handle_incoming env0 text_payload world0))
   \<and> uq_msg_wa (messages (snd (handle_outgoing env0 phone_text_payload world0)))
   \<and> rows_with 1 (JStr ''A2'') (snd (handle_outgoing env0 phone_text_payload world0)) = 1
   \<and> fst (handle_outgoing env0 phone_text_payload
              (snd (handle_outgoing env0 phone_text_payload world0))) = Inr ()
   \<and> messages (snd (handle_outgoing env0 phone_text_payload
                      (snd (handle_outgoing env0 phone_text_payload world0))))
       = messages (snd (handle_outgoing env0 phone_text_payload world0))
   \<and> fst (handle_incoming env1 null_mime_payload world0) = Inr ()
   \<and> messages (snd (handle_incoming env1 null_mime_payload world0)) = []"
proof -
  have h: "uq_msg_wa (messages world0)"
    by (simp add: uq_msg_wa_def world0_def)
  note t = message_dedup [OF h, where e = env0]
  from t [where p = text_payload, THEN conjunct1]
  have a: "uq_msg_wa (messages (snd (handle_incoming env0 text_payload world0)))" .
  from t [where p = phone_text_payload, THEN conjunct2, THEN conjunct1]
  have a': "uq_msg_wa (messages (snd (handle_outgoing env0 phone_text_payload world0)))" .
  have b: "rows_with 1 (JStr ''A1'') (snd (handle_incoming env0 text_payload world0)) = 1"
    by code_simp
  have c: "fst (handle_incoming env0 text_payload (snd (handle_incoming env0 text_payload world0)))
       = Inr ()"
    by code_simp
  have d: "messages (snd (handle_incoming env0 text_payload
                      (snd (handle_incoming env0 text_payload world0))))
       = messages (snd (handle_incoming env0 text_payload world0))"
    by code_simp
  have b': "rows_with 1 (JStr ''A2'') (snd (handle_outgoing env0 phone_text_payload world0)) = 1"
    by code_simp
  have c': "fst (handle_outgoing env0 phone_text_payload
              (snd (handle_outgoing env0 phone_text_payload world0))) = Inr ()"
    by code_simp
  have d': "messages (snd (handle_outgoing env0 phone_text_payload
                      (snd (handle_outgoing env0 phone_text_payload world0))))
       = messages (snd (handle_outgoing env0 phone_text_payload world0))"
    by code_simp
  have f: "fst (handle_incoming env1 null_mime_payload world0) = Inr ()"
    by code_simp
  have g: "messages (snd (handle_incoming env1 null_mime_payload world0)) = []"
    by code_simp
  from h a b c d a' b' c' d' f g show ?thesis by blast
qed

section \<open>Status webhooks\<close>

lemma find_update_same:
  assumes "find P rows = Some m" and "P m'"
  shows "find P (map (\<lambda>r. if row_id r = row_id m then m' else r) rows) = Some m'"
  using assms
proof (induction rows)
  case Nil
  then show ?case by simp
next
  case (Cons r rs)
  show ?case
  proof (cases "P r")
    case True
    with Cons.prems have "r = m" by simp
    with Cons.prems show ?thesis by simp
  next
    case False
    with Cons show ?thesis by simp
  qed
qed

lemma find_append_some: "find P xs = Some m \<Longrightarrow> find P (xs @ ys) = Some m"
  by (induction xs) auto

lemma find_message_update:
  assumes "find_message i wa w = Some msg"
  shows "find_message i wa (update_row (msg\<lparr>status := st\<rparr>) w) = Some (msg\<lparr>status := st\<rparr>)"
proof -
  from assms have "instance_id msg = i \<and> wa_message_id msg = wa"
    unfolding find_message_def by (auto dest: find_Some_iff [THEN iffD1])
  then have "(\<lambda>r. instance_id r = i \<and> wa_message_id r = wa) (msg\<lparr>status := st\<rparr>)" by simp
  from find_update_same [OF assms [unfolded find_message_def] this]
  show ?thesis by (simp add: find_message_def update_row_def)
qed

lemma notify_send_error_result:
  "notify_send_error orig reason w =
     (Inr (), w\<lparr>messages := messages w @
                    [(sys_msg orig reason)\<lparr>row_id := Some (fresh_id (messages w))\<rparr>],
                msg_in := msg_in w @ [fresh_id (messages w)]\<rparr>)"
  by (simp add: notify_send_error_def add_commit_def violates_uq_msg_wa_def
      violates_not_null_def Let_def after_insert_def sys_msg_def)

lemma status_of_Some:
  assumes "status_of p = Inr (Some st)"
  shows "\<exists>s. get p ''status'' = Inr (JStr s) \<and> map_of STATUS2ENUM s = Some st"
proof -
  from assms obtain v where g: "get p ''status'' = Inr v"
    and c: "(case v of JStr s \<Rightarrow> Inr (map_of STATUS2ENUM s)
             | JArr _ \<Rightarrow> Inl TypeError | JObj _ \<Rightarrow> Inl TypeError | _ \<Rightarrow> Inr None)
            = Inr (Some st)"
    unfolding status_of_def bindE_Inr_iff by blast
  from c obtain s where "v = JStr s" and "map_of STATUS2ENUM s = Some st"
    by (cases v) auto
  with g show ?thesis by blast
qed

lemma error_reason_ok:
  assumes "status_of p = Inr (Some st)"
  shows "\<exists>reason. error_reason p = Inr reason"
proof -
  from status_of_Some [OF assms] obtain s where g: "get p ''status'' = Inr (JStr s)" by blast
  then obtain kvs where p: "p = JObj kvs" and m: "map_of kvs ''status'' = Some (JStr s)"
    by (cases p) (auto simp: get_def split: option.splits)
  show ?thesis
  proof (cases "map_of kvs ''description''")
    case None
    with p m show ?thesis by (simp add: error_reason_def get_def)
  next
    case (Some d)
    with p m show ?thesis by (simp add: error_reason_def get_def)
  qed
qed

lemma resolve_frame:
  "instances w' = instances w \<Longrightarrow> resolve_internal_id a w' = resolve_internal_id a w"
  by (simp add: resolve_internal_id_def cong: json.case_cong)

lemma handle_status_found:
  assumes "instance_of p = Inr a" and "subscript p ''idMessage'' = Inr wa"
    and "status_of p = Inr (Some st)" and "resolve_internal_id a w = Inr (Some i)"
    and "find_message i wa w = Some msg"
  shows "handle_status p w =
     (if status msg = st then (Inr (), w)
      else if st = S_error_api then
        (case error_reason p of
           Inl er \<Rightarrow> (Inl er, update_row (msg\<lparr>status := st\<rparr>) w)
         | Inr reason \<Rightarrow>
             (Inr (), log_msg INFO ''Msg status''
                (snd (notify_send_error (msg\<lparr>status := st\<rparr>) reason
                        (update_row (msg\<lparr>status := st\<rparr>) w)))))
      else (Inr (), log_msg INFO ''Msg status'' (update_row (msg\<lparr>status := st\<rparr>) w)))"
  using assms
  by (simp add: handle_status_def Let_def notify_send_error_result split: sum.splits)

text \<open>
  C5. A status webhook for a stored message of a known account, with a provider
  status that maps to the internal status \<open>st\<close>. If the message has that status
  already, the handler changes nothing at all: no row, no notification envelope, no log
  line. If not, the row gets the new status; for a status other than the error status
  nothing else is stored and no envelope is emitted, and for the error status one
  system message is stored next to it and its envelope goes out on \<^verbatim>\<open>msg_in\<close>, which is
  what notifies the Telegram side. In every case a second delivery of the same webhook
  is the no-op of the first case.
\<close>

theorem status_webhook:
  assumes "instance_of p = Inr a" and "subscript p ''idMessage'' = Inr wa"
    and "status_of p = Inr (Some st)" and "resolve_internal_id a w = Inr (Some i)"
    and "find_message i wa w = Some msg"
  shows "(status msg = st \<longrightarrow> handle_status p w = (Inr (), w))
       \<and> (status msg \<noteq> st \<and> st \<noteq> S_error_api \<longrightarrow>
            handle_status p w =
              (Inr (), log_msg INFO ''Msg status'' (update_row (msg\<lparr>status := st\<rparr>) w))
          \<and> msg_in (snd (handle_status p w)) = msg_in w
          \<and> length (messages (snd (handle_status p w))) = length (messages w))
       \<and> (status msg \<noteq> st \<and> st = S_error_api \<longrightarrow>
            (\<exists>reason. error_reason p = Inr reason
               \<and> fst (handle_status p w) = Inr ()
               \<and> messages (snd (handle_status p w)) =
                   messages (update_row (msg\<lparr>status := st\<rparr>) w)
                   @ [(sys_msg (msg\<lparr>status := st\<rparr>) reason)
                        \<lparr>row_id := Some (fresh_id (messages (update_row (msg\<lparr>status := st\<rparr>) w)))\<rparr>]
               \<and> msg_in (snd (handle_status p w)) =
                   msg_in w @ [fresh_id (messages (update_row (msg\<lparr>status := st\<rparr>) w))]))
       \<and> find_message i wa (snd (handle_status p w)) = Some (msg\<lparr>status := st\<rparr>)
       \<and> handle_status p (snd (handle_status p w)) = (Inr (), snd (handle_status p w))"
proof -
  let ?m = "msg\<lparr>status := st\<rparr>"
  let ?w1 = "update_row ?m w"
  note eq = handle_status_found [OF assms]
  from error_reason_ok [OF assms(3)] obtain reason where r: "error_reason p = Inr reason"
    by blast
  have f1: "find_message i wa ?w1 = Some ?m"
    using assms(5) by (rule find_message_update)
  have 1: "status msg = st \<longrightarrow> handle_status p w = (Inr (), w)"
    using eq by simp
  have 2: "status msg \<noteq> st \<and> st \<noteq> S_error_api \<longrightarrow>
            handle_status p w = (Inr (), log_msg INFO ''Msg status'' ?w1)
          \<and> msg_in (snd (handle_status p w)) = msg_in w
          \<and> length (messages (snd (handle_status p w))) = length (messages w)"
    using eq by (simp add: log_msg_def update_row_def)
  have 3: "status msg \<noteq> st \<and> st = S_error_api \<longrightarrow>
            (\<exists>reason. error_reason p = Inr reason
               \<and> fst (handle_status p w) = Inr ()
               \<and> messages (snd (handle_status p w)) =
                   messages ?w1 @ [(sys_msg ?m reason)\<lparr>row_id := Some (fresh_id (messages ?w1))\<rparr>]
               \<and> msg_in (snd (handle_status p w)) = msg_in w @ [fresh_id (messages ?w1)])"
    using eq r by (auto simp: notify_send_error_result log_msg_def update_row_def)
  have 4: "find_message i wa (snd (handle_status p w)) = Some ?m"
  proof (cases "status msg = st")
    case True
    then have "?m = msg" by simp
    with True eq assms(5) show ?thesis by simp
  next
    case False
    show ?thesis
    proof (cases "st = S_error_api")
      case True
      from f1 have "find (\<lambda>r. instance_id r = i \<and> wa_message_id r = wa) (messages ?w1) = Some ?m"
        by (simp add: find_message_def)
      from find_append_some [OF this]
      show ?thesis using eq r False True
        by (simp add: notify_send_error_result find_message_def log_msg_def)
    next
      case st: False
      with eq False f1 show ?thesis by (simp add: find_message_def log_msg_def)
    qed
  qed
  have i: "instances (snd (handle_status p w)) = instances w"
    using eq r by (simp add: notify_send_error_result log_msg_def update_row_def)
  have 5: "handle_status p (snd (handle_status p w)) = (Inr (), snd (handle_status p w))"
  proof -
    have res: "resolve_internal_id a (snd (handle_status p w)) = Inr (Some i)"
      using resolve_frame [OF i] assms(4) by simp
    from handle_status_found [OF assms(1-3) res 4] show ?thesis by simp
  qed
  from 1 2 3 4 5 show ?thesis by blast
qed

text \<open>
  The stored message OUT1 has the status sent. The webhook with the provider status
  \<^verbatim>\<open>sent\<close> changes nothing; the webhook with \<^verbatim>\<open>failed\<close> sets the error status, stores
  one system message as row 2 and emits its envelope; delivered again, it changes
  nothing.
\<close>

theorem status_webhook_witness:
  "handle_status (status_payload ''sent'') world1 = (Inr (), world1)
   \<and> fst (handle_status (status_payload ''failed'') world1) = Inr ()
   \<and> map status (messages (snd (handle_status (status_payload ''failed'') world1)))
       = [S_error_api, S_incoming]
   \<and> map direction (messages (snd (handle_status (status_payload ''failed'') world1)))
       = [D_out, D_sys]
   \<and> msg_in (snd (handle_status (status_payload ''failed'') world1)) = [2]
   \<and> handle_status (status_payload ''failed'')
         (snd (handle_status (status_payload ''failed'') world1))
       = (Inr (), snd (handle_status (status_payload ''failed'') world1))"
proof -
  have a: "instance_of (status_payload s) = Inr (JInt 1101)" for s
    by (simp add: instance_of_def status_payload_def)
  have b: "subscript (status_payload s) ''idMessage'' = Inr (JStr ''OUT1'')" for s
    by (simp add: status_payload_def)
  have c1: "status_of (status_payload ''sent'') = Inr (Some S_sent)"
    by (simp add: status_of_def status_payload_def get_def STATUS2ENUM_def)
  have c2: "status_of (status_payload ''failed'') = Inr (Some S_error_api)"
    by (simp add: status_of_def status_payload_def get_def STATUS2ENUM_def)
  have d: "resolve_internal_id (JInt 1101) world1 = Inr (Some 1)"
    by (simp add: resolve_internal_id_def world1_def world0_def)
  have f: "find_message 1 (JStr ''OUT1'') world1 = Some sent_row"
    by (simp add: find_message_def world1_def world0_def sent_row_def)
  have s: "status sent_row = S_sent"
    by (simp add: sent_row_def)
  from status_webhook [OF a b c1 d f] s
  have 1: "handle_status (status_payload ''sent'') world1 = (Inr (), world1)"
    by simp
  from status_webhook [OF a b c2 d f]
  have 2: "handle_status (status_payload ''failed'')
         (snd (handle_status (status_payload ''failed'') world1))
       = (Inr (), snd (handle_status (status_payload ''failed'') world1))"
    by blast
  have 3: "fst (handle_status (status_payload ''failed'') world1) = Inr ()"
    by code_simp
  have 4: "map status (messages (snd (handle_status (status_payload ''failed'') world1)))
       = [S_error_api, S_incoming]"
    by code_simp
  have 5: "map direction (messages (snd (handle_status (status_payload ''failed'') world1)))
       = [D_out, D_sys]"
    by code_simp
  have 6: "msg_in (snd (handle_status (status_payload ''failed'') world1)) = [2]"
    by code_simp
  from 1 2 3 4 5 6 show ?thesis by blast
qed

section \<open>Download attempts\<close>

lemma gets_attempt_get:
  "attempt_get oc local w = (r, w') \<Longrightarrow> gets w' = gets w \<and> slept w' = slept w"
  by (auto simp: attempt_get_def split: get_outcome.splits)

text \<open>
  A download issues at most \<open>retries + 1\<close> requests and sleeps at most \<open>retries\<close>
  times.
\<close>

lemma download_loop_requests:
  "download_loop e url local retries backoff attempt w = (r, w') \<Longrightarrow>
     length (gets w') \<le> length (gets w) + (Suc retries - attempt)
   \<and> length (slept w') \<le> length (slept w) + (retries - attempt)"
proof (induction e url local retries backoff attempt w arbitrary: r w'
    rule: download_loop.induct)
  case (1 e url local retries backoff attempt w)
  show ?case
  proof (cases "attempt \<le> retries")
    case False
    with "1.prems" show ?thesis by (simp add: download_loop.simps)
  next
    case True
    obtain n w1 where a: "attempt_get (http_get e url attempt) local (w\<lparr>gets := gets w @ [url]\<rparr>) = (n, w1)"
      by (cases "attempt_get (http_get e url attempt) local (w\<lparr>gets := gets w @ [url]\<rparr>)")
    from gets_attempt_get [OF a]
    have g1: "gets w1 = gets w @ [url]" and s1: "slept w1 = slept w" by simp_all
    show ?thesis
    proof (cases n)
      case (Some k)
      with "1.prems" True a g1 s1 show ?thesis by (auto simp: download_loop.simps)
    next
      case None
      show ?thesis
      proof (cases "attempt + 1 > retries")
        case True
        with "1.prems" \<open>attempt \<le> retries\<close> a None g1 s1 show ?thesis
          by (auto simp: download_loop.simps Let_def log_msg_def)
      next
        case False
        let ?w2 = "log_msg WARNING ''Download failed'' w1"
        let ?w3 = "?w2\<lparr>fs := (fs ?w2)(local := None)\<rparr>"
        let ?w4 = "?w3\<lparr>slept := slept ?w3 @ [backoff ^ (attempt + 1) * (1 / 2 + rand e attempt / 2)]\<rparr>"
        from "1.prems" \<open>attempt \<le> retries\<close> a None False
        have "download_loop e url local retries backoff (attempt + 1) ?w4 = (r, w')"
          by (simp add: download_loop.simps [of e url local retries backoff attempt] Let_def)
        from "1.IH" [OF \<open>attempt \<le> retries\<close> a [symmetric] None refl refl False this]
        have ih: "length (gets w') \<le> length (gets ?w4) + (Suc retries - (attempt + 1))
                \<and> length (slept w') \<le> length (slept ?w4) + (retries - (attempt + 1))" .
        have "length (gets ?w4) = Suc (length (gets w))"
          and "length (slept ?w4) = Suc (length (slept w))"
          using g1 s1 by (simp_all add: log_msg_def)
        with ih False show ?thesis by arith
      qed
    qed
  qed
qed

lemma download_safe_requests:
  assumes "download_safe e url fname w = (r, w')"
  shows "length (gets w') \<le> length (gets w) + 4 \<and> length (slept w') \<le> length (slept w) + 3"
proof (cases "truthy url \<and> (\<exists>u. as_str url = Inr u \<and> \<not> blank u)")
  case False
  with assms have "w' = w"
    by (auto simp: download_safe_def split: if_splits sum.splits prod.splits)
  then show ?thesis by simp
next
  case True
  then obtain u where u: "as_str url = Inr u" "\<not> blank u" "truthy url" by blast
  obtain d where d: "download_loop e u (local_path e fname) retries_default backoff_default 0 w = (d, w')"
    using assms u by (auto simp: download_safe_def split: prod.splits)
  from download_loop_requests [OF d] show ?thesis by (simp add: retries_default_def)
qed

text \<open>The factor of a sleep lies between one half and one.\<close>

lemma jitter_range:
  "0 \<le> rand e k \<Longrightarrow> rand e k < 1 \<Longrightarrow>
     1 / 2 \<le> 1 / 2 + rand e k / 2 \<and> 1 / 2 + rand e k / 2 < 1"
  by simp

text \<open>
  A failed attempt leaves no file behind, whether nothing, a part or an empty body
  was written.
\<close>

lemma download_loop_failure_cleans:
  "download_loop e url local retries backoff attempt w = (None, w') \<Longrightarrow>
     attempt \<le> retries \<Longrightarrow> fs w' local = None"
proof (induction e url local retries backoff attempt w arbitrary: w'
    rule: download_loop.induct)
  case (1 e url local retries backoff attempt w)
  obtain n w1 where a: "attempt_get (http_get e url attempt) local (w\<lparr>gets := gets w @ [url]\<rparr>) = (n, w1)"
    by (cases "attempt_get (http_get e url attempt) local (w\<lparr>gets := gets w @ [url]\<rparr>)")
  show ?case
  proof (cases n)
    case (Some k)
    with "1.prems" a show ?thesis by (auto simp: download_loop.simps)
  next
    case None
    show ?thesis
    proof (cases "attempt + 1 > retries")
      case True
      with "1.prems" a None show ?thesis
        by (auto simp: download_loop.simps Let_def log_msg_def)
    next
      case False
      let ?w2 = "log_msg WARNING ''Download failed'' w1"
      let ?w3 = "?w2\<lparr>fs := (fs ?w2)(local := None)\<rparr>"
      let ?w4 = "?w3\<lparr>slept := slept ?w3 @ [backoff ^ (attempt + 1) * (1 / 2 + rand e attempt / 2)]\<rparr>"
      from "1.prems" a None False
      have "download_loop e url local retries backoff (attempt + 1) ?w4 = (None, w')"
        by (simp add: download_loop.simps [of e url local retries backoff attempt] Let_def)
      from "1.IH" [OF \<open>attempt \<le> retries\<close> a [symmetric] None refl refl False this] False
      show ?thesis by simp
    qed
  qed
qed

text \<open>
  After the last failure the message is kept, as a text with the placeholder and the
  caption.
\<close>

lemma media_branch_degrades:
  assumes "subscript mdata ''fileMessageData'' = Inr fm"
    and "file_name e fm (wa_message_id msg) = Inr fname"
    and "get fm ''caption'' = Inr fcaption"
    and "get fm ''downloadUrl'' = Inr dl_url0"
    and "resolve_url e payload (msg\<lparr>message_type := mt\<rparr>) dl_url0 = Inr dl_url"
    and "get fm ''fileName'' = Inr fname0"
    and "download_safe e dl_url fname w = (Inr None, w1)"
  shows "media_branch e payload mdata mt fcls msg w =
           (Inr (msg\<lparr>message_type := T_text,
                     msg_text := JStr (not_downloaded_text fcaption fname0)\<rparr>), w1)"
  using assms by (simp add: media_branch_def Let_def)

lemma download_loop_refused_step:
  assumes "http_get e url attempt = Refused" and "attempt < retries"
  shows "download_loop e url local retries b attempt w =
     download_loop e url local retries b (Suc attempt)
       (w\<lparr>gets := gets w @ [url],
          logged := logged w @ [(WARNING, ''Download failed'')],
          fs := (fs w)(local := None),
          slept := slept w @ [b ^ Suc attempt * (1 / 2 + rand e attempt / 2)]\<rparr>)"
  using assms
  by (subst download_loop.simps) (simp add: attempt_get_def log_msg_def Let_def)

lemma download_loop_refused_last:
  assumes "http_get e url retries = Refused"
  shows "download_loop e url local retries b retries w =
     (None, w\<lparr>gets := gets w @ [url],
              logged := logged w @ [(WARNING, ''Download failed''),
                 (ERROR, ''All retries exhausted; give up downloading'')],
              fs := (fs w)(local := None)\<rparr>)"
  using assms
  by (subst download_loop.simps) (simp add: attempt_get_def log_msg_def Let_def)

lemma refused_download:
  assumes "\<And>k. http_get e url k = Refused"
  shows "download_loop e url local 3 b 0 w =
     (None, w\<lparr>gets := gets w @ [url, url, url, url],
              logged := logged w @ [(WARNING, ''Download failed''), (WARNING, ''Download failed''),
                 (WARNING, ''Download failed''), (WARNING, ''Download failed''),
                 (ERROR, ''All retries exhausted; give up downloading'')],
              fs := (fs w)(local := None),
              slept := slept w @ [b ^ 1 * (1 / 2 + rand e 0 / 2), b ^ 2 * (1 / 2 + rand e 1 / 2),
                                  b ^ 3 * (1 / 2 + rand e 2 / 2)]\<rparr>)"
proof -
  let ?r = "Suc (Suc (Suc 0))"
  have "download_loop e url local ?r b 0 w =
     (None, w\<lparr>gets := gets w @ [url, url, url, url],
              logged := logged w @ [(WARNING, ''Download failed''), (WARNING, ''Download failed''),
                 (WARNING, ''Download failed''), (WARNING, ''Download failed''),
                 (ERROR, ''All retries exhausted; give up downloading'')],
              fs := (fs w)(local := None),
              slept := slept w @ [b ^ Suc 0 * (1 / 2 + rand e 0 / 2),
                                  b ^ Suc (Suc 0) * (1 / 2 + rand e (Suc 0) / 2),
                                  b ^ ?r * (1 / 2 + rand e (Suc (Suc 0)) / 2)]\<rparr>)"
    by (simp add: download_loop_refused_step [OF assms] download_loop_refused_last [OF assms])
  then show ?thesis
    by (simp add: numeral_3_eq_3 numeral_2_eq_2)
qed

lemma env0_download:
  "download_safe env0 (JStr ''https://h/x/cat.jpg'') ''cat.jpg'' w =
     (Inr None,
      w\<lparr>gets := gets w @ [''https://h/x/cat.jpg'', ''https://h/x/cat.jpg'',
                            ''https://h/x/cat.jpg'', ''https://h/x/cat.jpg''],
        logged := logged w @ [(WARNING, ''Download failed''), (WARNING, ''Download failed''),
                 (WARNING, ''Download failed''), (WARNING, ''Download failed''),
                 (ERROR, ''All retries exhausted; give up downloading'')],
        fs := (fs w)(''/app/media/2025/01/cat.jpg'' := None),
        slept := slept w @ [3 / 4, 9 / 8, 27 / 16]\<rparr>)"
proof -
  have r: "http_get env0 u k = Refused" for u k
    by (simp add: env0_def)
  have l: "local_path env0 ''cat.jpg'' = ''/app/media/2025/01/cat.jpg''"
    by (simp add: local_path_def env0_def)
  have z: "rand env0 k = 0" for k
    by (simp add: env0_def)
  have b: "\<not> blank ''https://h/x/cat.jpg''"
    by (simp add: blank_def is_space_def)
  show ?thesis
    by (simp add: download_safe_def as_str_def b l retries_default_def backoff_default_def
        refused_download [OF r] z power2_eq_square power3_eq_cube)
qed

lemma env0_image:
  "payload_to_msg env0 image_payload 1 True False world0 =
     (Inr (Some \<lparr>row_id = None, instance_id = 1, conversation_id = 1,
                  wa_message_id = JStr ''B1'', tg_message_id = None,
                  chat_id = ''79990001122@c.us'', chat_name = JStr ''Ann'',
                  created_at = JInt 1700000000, from_app = False, direction = D_inc,
                  status = S_incoming, message_type = T_text,
                  msg_text = JStr (''hi'' @ nl @ ''<Ne udalos skachat fail (cat.jpg)>''),
                  is_archived = False, files = []\<rparr>),
      snd (download_safe env0 (JStr ''https://h/x/cat.jpg'') ''cat.jpg''
             (world0\<lparr>conversations :=
                [\<lparr>conv_id = 1, c_instance_id = 1, c_chat_id = ''79990001122@c.us'',
                  c_phone = ''79990001122'', c_title = JStr ''Ann'', c_is_group = False\<rparr>]\<rparr>)))"
proof -
  have c: "classify image_payload =
     Inr (JObj [(''typeMessage'', JStr ''imageMessage''),
              (''fileMessageData'',
               JObj [(''downloadUrl'', JStr ''https://h/x/cat.jpg''), (''caption'', JStr ''hi''),
                     (''fileName'', JStr ''cat.jpg''), (''mimeType'', JStr ''image/jpeg'')])],
          JStr ''imageMessage'', False)"
    by (simp add: classify_def image_payload_def webhook_payload_def in_strs_def IGNORE_MTYPE_def)
  have s: "sender_of image_payload = Inr (''79990001122@c.us'', ''79990001122'', JStr ''Ann'')"
    by (simp add: sender_of_def image_payload_def webhook_payload_def as_str_def rsplit1_def
        get_def py_or_def)
  have g: "get_or_create_conversation 1 ''79990001122@c.us'' ''79990001122'' (JStr ''Ann'') world0
      = (\<lparr>conv_id = 1, c_instance_id = 1, c_chat_id = ''79990001122@c.us'',
          c_phone = ''79990001122'', c_title = JStr ''Ann'', c_is_group = False\<rparr>,
         world0\<lparr>conversations :=
                [\<lparr>conv_id = 1, c_instance_id = 1, c_chat_id = ''79990001122@c.us'',
                  c_phone = ''79990001122'', c_title = JStr ''Ann'', c_is_group = False\<rparr>]\<rparr>)"
    by (simp add: get_or_create_conversation_def world0_def fresh_conv_id_def py_or_def
        endswith_def Let_def)
  have h: "subscript image_payload ''idMessage'' = Inr (JStr ''B1'')"
      "subscript image_payload ''timestamp'' = Inr (JInt 1700000000)"
      "subscript image_payload ''instanceData'' = Inr (JObj [(''idInstance'', JInt 1101)])"
    by (simp_all add: image_payload_def webhook_payload_def)
  have f: "file_name env0 (JObj [(''downloadUrl'', JStr ''https://h/x/cat.jpg''), (''caption'', JStr ''hi''),
                     (''fileName'', JStr ''cat.jpg''), (''mimeType'', JStr ''image/jpeg'')]) wa
        = Inr ''cat.jpg''" for wa
    by (simp add: file_name_def get_def)
  have e: "has_client env0 a" for a
    by (simp add: env0_def)
  show ?thesis
    by (simp add: payload_to_msg_def c s g h utcfromtimestamp_def fill_content_def
        TEXT_MTYPES_def EXT2FCLS_def media_branch_def f get_def resolve_url_def e
        env0_download not_downloaded_text_def py_or_def py_str_def Let_def)
qed

text \<open>
  C6, at an input where the code leaves the claim: a URL that the server refuses every
  time. The download is attempted four times (the attempts 0 to 3 of
  \<^verbatim>\<open>while attempt <= retries\<close> with \<^verbatim>\<open>retries=3\<close>), with three sleeps of
  \<open>1.5^k\<close> times the factor one half (the draws of \<^verbatim>\<open>random()\<close> are 0 here) in
  between; no file is left, and the image message is kept as a text with the placeholder
  after its caption.
\<close>

theorem download_safe_fourth_attempt:
  "fst (download_safe env0 (JStr ''https://h/x/cat.jpg'') ''cat.jpg'' world0) = Inr None
   \<and> gets (snd (download_safe env0 (JStr ''https://h/x/cat.jpg'') ''cat.jpg'' world0))
       = [''https://h/x/cat.jpg'', ''https://h/x/cat.jpg'', ''https://h/x/cat.jpg'',
          ''https://h/x/cat.jpg'']
   \<and> slept (snd (download_safe env0 (JStr ''https://h/x/cat.jpg'') ''cat.jpg'' world0))
       = [3 / 4, 9 / 8, 27 / 16]
   \<and> fs (snd (download_safe env0 (JStr ''https://h/x/cat.jpg'') ''cat.jpg'' world0))
         ''/app/media/2025/01/cat.jpg'' = None
   \<and> map_option (\<lambda>m. (message_type m, msg_text m, files m))
         (case fst (payload_to_msg env0 image_payload 1 True False world0) of
            Inl er \<Rightarrow> None | Inr mo \<Rightarrow> mo)
       = Some (T_text, JStr (''hi'' @ nl @ ''<Ne udalos skachat fail (cat.jpg)>''), [])
   \<and> length (gets (snd (payload_to_msg env0 image_payload 1 True False world0))) = 4"
proof -
  have w: "gets world0 = []" "slept world0 = []" "fs world0 = Map.empty"
    by (simp_all add: world0_def)
  show ?thesis
    by (simp add: env0_download env0_image w)
qed

section \<open>Stored file names\<close>

lemma download_loop_path:
  "download_loop e url local retries backoff attempt w = (Some (p, n), w') \<Longrightarrow>
     p = local \<and> fs w' local \<noteq> None"
proof (induction e url local retries backoff attempt w arbitrary: w'
    rule: download_loop.induct)
  case (1 e url local retries backoff attempt w)
  show ?case
  proof (cases "attempt \<le> retries")
    case False
    with "1.prems" show ?thesis by (simp add: download_loop.simps)
  next
    case True
    obtain k w1 where a: "attempt_get (http_get e url attempt) local (w\<lparr>gets := gets w @ [url]\<rparr>) = (k, w1)"
      by (cases "attempt_get (http_get e url attempt) local (w\<lparr>gets := gets w @ [url]\<rparr>)")
    show ?thesis
    proof (cases k)
      case (Some m)
      with a have "fs w1 local \<noteq> None"
        by (auto simp: attempt_get_def split: get_outcome.splits if_splits)
      with "1.prems" True a Some show ?thesis by (auto simp: download_loop.simps)
    next
      case None
      show ?thesis
      proof (cases "attempt + 1 > retries")
        case True
        with "1.prems" \<open>attempt \<le> retries\<close> a None show ?thesis
          by (auto simp: download_loop.simps Let_def)
      next
        case False
        let ?w2 = "log_msg WARNING ''Download failed'' w1"
        let ?w3 = "?w2\<lparr>fs := (fs ?w2)(local := None)\<rparr>"
        let ?w4 = "?w3\<lparr>slept := slept ?w3 @ [backoff ^ (attempt + 1) * (1 / 2 + rand e attempt / 2)]\<rparr>"
        from "1.prems" \<open>attempt \<le> retries\<close> a None False
        have "download_loop e url local retries backoff (attempt + 1) ?w4 = (Some (p, n), w')"
          by (simp add: download_loop.simps [of e url local retries backoff attempt] Let_def)
        from "1.IH" [OF \<open>attempt \<le> retries\<close> a [symmetric] None refl refl False this]
        show ?thesis .
      qed
    qed
  qed
qed

text \<open>
  The path a download is stored under is the month directory and the file name, and
  nothing else: the files already there are not looked at.
\<close>

lemma download_safe_path:
  assumes "download_safe e url fname w = (Inr (Some (p, n)), w')"
  shows "p = local_path e fname"
proof -
  from assms obtain u where
    "download_loop e u (local_path e fname) retries_default backoff_default 0 w = (Some (p, n), w')"
    by (auto simp: download_safe_def split: if_splits sum.splits prod.splits)
  from download_loop_path [OF this] show ?thesis by simp
qed

lemma download_loop_first_try:
  assumes "http_get e url 0 = Body b" and "b \<noteq> []"
  shows "download_loop e url local retries backoff 0 w =
     (Some (local, length b), w\<lparr>gets := gets w @ [url], fs := (fs w)(local \<mapsto> b)\<rparr>)"
  using assms
  by (subst download_loop.simps) (simp add: attempt_get_def)

text \<open>
  C7, at an input where the code leaves the claim: two attachments named
  \<^verbatim>\<open>cat.jpg\<close>, downloaded one after the other in the same month. Both are stored under
  the same path, and the second download replaces the bytes of the first. The upload
  path of the admin panel, \<^verbatim>\<open>_build_media_path\<close>, would have picked \<^verbatim>\<open>cat_1.jpg\<close> for
  the second file.
\<close>

theorem download_safe_overwrites:
  "fst (download_safe env1 (JStr ''https://h/x/cat.jpg'') ''cat.jpg'' world0)
     = Inr (Some (''/app/media/2025/01/cat.jpg'', 3))
   \<and> fs (snd (download_safe env1 (JStr ''https://h/x/cat.jpg'') ''cat.jpg'' world0))
        ''/app/media/2025/01/cat.jpg'' = Some ''AAA''
   \<and> fst (download_safe env1 (JStr ''https://h/y/cat.jpg'') ''cat.jpg''
            (snd (download_safe env1 (JStr ''https://h/x/cat.jpg'') ''cat.jpg'' world0)))
     = Inr (Some (''/app/media/2025/01/cat.jpg'', 4))
   \<and> fs (snd (download_safe env1 (JStr ''https://h/y/cat.jpg'') ''cat.jpg''
            (snd (download_safe env1 (JStr ''https://h/x/cat.jpg'') ''cat.jpg'' world0))))
        ''/app/media/2025/01/cat.jpg'' = Some ''BBBB''
   \<and> build_media_path env1 ''cat.jpg'' 2
        (snd (download_safe env1 (JStr ''https://h/x/cat.jpg'') ''cat.jpg'' world0))
     = Some ''/app/media/2025/01/cat_1.jpg''"
proof -
  have l: "local_path env1 ''cat.jpg'' = ''/app/media/2025/01/cat.jpg''"
    by (simp add: local_path_def env1_def env0_def)
  have g1: "http_get env1 ''https://h/x/cat.jpg'' 0 = Body ''AAA''"
    by (simp add: env1_def)
  have g2: "http_get env1 ''https://h/y/cat.jpg'' 0 = Body ''BBBB''"
    by (simp add: env1_def)
  have b1: "\<not> blank ''https://h/x/cat.jpg''" and b2: "\<not> blank ''https://h/y/cat.jpg''"
    by (simp_all add: blank_def is_space_def)
  have d1: "download_safe env1 (JStr ''https://h/x/cat.jpg'') ''cat.jpg'' w =
      (Inr (Some (''/app/media/2025/01/cat.jpg'', 3)),
       w\<lparr>gets := gets w @ [''https://h/x/cat.jpg''],
         fs := (fs w)(''/app/media/2025/01/cat.jpg'' \<mapsto> ''AAA'')\<rparr>)" for w
    by (simp add: download_safe_def as_str_def b1 l download_loop_first_try [OF g1])
  have d2: "download_safe env1 (JStr ''https://h/y/cat.jpg'') ''cat.jpg'' w =
      (Inr (Some (''/app/media/2025/01/cat.jpg'', 4)),
       w\<lparr>gets := gets w @ [''https://h/y/cat.jpg''],
         fs := (fs w)(''/app/media/2025/01/cat.jpg'' \<mapsto> ''BBBB'')\<rparr>)" for w
    by (simp add: download_safe_def as_str_def b2 l download_loop_first_try [OF g2])
  have m: "media_root env1 = ''/app/media''" "year_month env1 = ''2025/01''"
    by (simp_all add: env1_def env0_def)
  have s: "stem_suffix ''cat.jpg'' = (''cat'', ''.jpg'')"
    by (simp add: stem_suffix_def Let_def)
  have c0: "candidate ''/app/media/2025/01'' ''cat.jpg'' 0 = ''/app/media/2025/01/cat.jpg''"
    by (simp add: candidate_def)
  have c1: "candidate ''/app/media/2025/01'' ''cat.jpg'' (Suc 0) = ''/app/media/2025/01/cat_1.jpg''"
    by (simp add: candidate_def s dec.simps digit_char_def)
  have ff: "first_free (\<lambda>p. ((fs world0)(''/app/media/2025/01/cat.jpg'' \<mapsto> ''AAA'')) p \<noteq> None)
              ''/app/media/2025/01'' ''cat.jpg'' 0 (Suc (Suc 0))
            = Some ''/app/media/2025/01/cat_1.jpg''"
    by (simp add: c0 c1 world0_def)
  have d: "media_root env1 @ ''/'' @ year_month env1 = ''/app/media/2025/01''"
    by (simp add: m)
  have bm: "build_media_path env1 ''cat.jpg'' 2
        (snd (download_safe env1 (JStr ''https://h/x/cat.jpg'') ''cat.jpg'' world0))
     = Some ''/app/media/2025/01/cat_1.jpg''"
    unfolding build_media_path_def d numeral_2_eq_2 using ff by (simp add: d1)
  from bm show ?thesis
    by (simp add: d1 d2)
qed

section \<open>File uploads of the dispatcher\<close>

text \<open>
  What the upload loop does to the world: it appends its calls to \<open>uploads\<close>. The
  calls are for the files in their order; the first has the caption the loop starts
  with, every later one the empty caption. The loop returns normally only after a call
  for every file.
\<close>

lemma send_files_loop_calls:
  "send_files_loop e chat fl cap resp w = (r, w') \<Longrightarrow>
     \<exists>new. w' = w\<lparr>uploads := uploads w @ new\<rparr>
       \<and> length new \<le> length fl
       \<and> map u_filename new = take (length new) (map f_name fl)
       \<and> map u_caption new = take (length new) (cap # replicate (length fl - 1) (JStr []))
       \<and> (\<forall>v. r = Inr v \<longrightarrow> length new = length fl)"
proof (induction fl arbitrary: cap resp w r w')
  case Nil
  then have "w' = w\<lparr>uploads := uploads w @ []\<rparr>" by simp
  then show ?case by (intro exI [of _ "[]"]) simp
next
  case (Cons f rest)
  show ?case
  proof (cases "fs w (file_path f)")
    case None
    with Cons.prems have "w' = w\<lparr>uploads := uploads w @ []\<rparr>" and "r = Inl OSError" by simp_all
    then show ?thesis by (intro exI [of _ "[]"]) simp
  next
    case (Some data)
    let ?u = "\<lparr>u_chat_id = chat, u_filename = f_name f, u_mime = mime f,
                    u_bytes = data, u_caption = cap\<rparr>"
    let ?w1 = "w\<lparr>uploads := uploads w @ [?u]\<rparr>"
    show ?thesis
    proof (cases "send_file_reply e (length (uploads w)) ?u")
      case (Inl er)
      with Cons.prems Some have "w' = w\<lparr>uploads := uploads w @ [?u]\<rparr>" and "r = Inl er"
        by (simp_all add: Let_def)
      then show ?thesis by (intro exI [of _ "[?u]"]) simp
    next
      case (Inr rp)
      with Cons.prems Some
      have "send_files_loop e chat rest (JStr []) rp ?w1 = (r, w')"
        by (simp add: Let_def)
      from Cons.IH [OF this] obtain new where
        n: "w' = ?w1\<lparr>uploads := uploads ?w1 @ new\<rparr>"
          "length new \<le> length rest"
          "map u_filename new = take (length new) (map f_name rest)"
          "map u_caption new = take (length new) (JStr [] # replicate (length rest - 1) (JStr []))"
          "\<forall>v. r = Inr v \<longrightarrow> length new = length rest"
        by blast
      have r: "JStr [] # replicate (length rest - 1) (JStr []) = replicate (length rest) (JStr [])"
        if "rest \<noteq> []"
        using that by (cases rest) simp_all
      have c: "map u_caption new = take (length new) (replicate (length rest) (JStr []))"
      proof (cases rest)
        case Nil
        with n(2) show ?thesis by simp
      next
        case (Cons a list)
        with n(4) r show ?thesis by simp
      qed
      from n(1) have "w' = w\<lparr>uploads := uploads w @ (?u # new)\<rparr>" by simp
      with n(2,3,5) c show ?thesis
        by (intro exI [of _ "?u # new"]) simp
    qed
  qed
qed

text \<open>With every file on disk and every upload answered, the loop returns normally.\<close>

lemma send_files_loop_ok:
  assumes "\<And>k u. \<exists>v. send_file_reply e k u = Inr v"
  shows "(\<forall>f \<in> set fl. fs w (file_path f) \<noteq> None) \<Longrightarrow>
     \<exists>v. fst (send_files_loop e chat fl cap resp w) = Inr v"
proof (induction fl arbitrary: cap resp w)
  case Nil
  then show ?case by simp
next
  case (Cons f rest)
  then obtain data where d: "fs w (file_path f) = Some data" by auto
  let ?u = "\<lparr>u_chat_id = chat, u_filename = f_name f, u_mime = mime f,
                    u_bytes = data, u_caption = cap\<rparr>"
  from assms obtain v where v: "send_file_reply e (length (uploads w)) ?u = Inr v" by blast
  have "\<forall>f \<in> set rest. fs (w\<lparr>uploads := uploads w @ [?u]\<rparr>) (file_path f) \<noteq> None"
    using Cons.prems by simp
  from Cons.IH [OF this] d v show ?case by (simp add: Let_def)
qed

lemma uploads_log_msg [simp]: "uploads (log_msg lv t w) = uploads w"
  by (simp add: log_msg_def)

lemma uploads_update_row [simp]: "uploads (update_row m w) = uploads w"
  by (simp add: update_row_def)

lemma uploads_mark_status [simp]: "uploads (snd (mark_status m st ok w)) = uploads w"
  by (simp add: mark_status_def Let_def split: option.splits)

lemma uploads_notify [simp]: "uploads (snd (notify_send_error m reason w)) = uploads w"
  by (simp add: notify_send_error_result)

lemma uploads_mark_wa_id [simp]: "uploads (snd (mark_wa_id m resp w)) = uploads w"
  by (simp add: mark_wa_id_def Let_def split: sum.splits)

lemma uploads_send_body:
  assumes "files msg \<noteq> []" and "api_id_of (instance_id msg) w = Some api"
    and "has_client e (JInt api)"
  shows "uploads (snd (send_body e msg w)) = uploads (snd (send_files e (chat_id msg) msg w))"
proof -
  obtain r w1 where sf: "send_files e (chat_id msg) msg w = (r, w1)"
    by (cases "send_files e (chat_id msg) msg w")
  show ?thesis
  proof (cases r)
    case (Inl er)
    with assms sf show ?thesis by (simp add: send_body_def)
  next
    case (Inr resp)
    obtain q w2 where mw: "mark_wa_id msg resp w1 = (q, w2)"
      by (cases "mark_wa_id msg resp w1")
    from uploads_mark_wa_id [of msg resp w1] mw have u2: "uploads w2 = uploads w1" by simp
    show ?thesis
    proof (cases q)
      case (Inl er)
      with assms sf Inr mw u2 show ?thesis by (simp add: send_body_def)
    next
      case q: (Inr okm)
      obtain ok m where okm: "okm = (ok, m)" by (cases okm)
      from assms sf Inr mw q okm u2 show ?thesis by (simp add: send_body_def)
    qed
  qed
qed

lemma uploads_handle:
  assumes "find (\<lambda>r. row_id r = Some k) (messages w) = Some msg"
    and "\<not> is_archived msg" and "from_app msg"
  shows "uploads (snd (msg_outbox_handle e k w)) = uploads (snd (send_body e msg w))"
proof -
  obtain r w1 where sb: "send_body e msg w = (r, w1)" by (cases "send_body e msg w")
  show ?thesis
  proof (cases r)
    case (Inr u)
    with assms sb show ?thesis by (simp add: msg_outbox_handle_def)
  next
    case (Inl er)
    with assms sb show ?thesis
      by (simp add: msg_outbox_handle_def split: prod.splits)
         (metis snd_conv uploads_mark_status uploads_notify)
  qed
qed

text \<open>
  Where the loop stops: every call it made was for a file it could read, every call but
  the last was answered, and when calls are missing, the last call raised or the next
  file could not be read.
\<close>

lemma send_files_loop_stop:
  "send_files_loop e chat fl cap resp w = (r, w') \<Longrightarrow>
     \<exists>new. w' = w\<lparr>uploads := uploads w @ new\<rparr>
       \<and> length new \<le> length fl
       \<and> (\<forall>i < length new. \<exists>data. fs w (file_path (fl ! i)) = Some data
             \<and> new ! i = \<lparr>u_chat_id = chat, u_filename = f_name (fl ! i), u_mime = mime (fl ! i),
                           u_bytes = data, u_caption = (if i = 0 then cap else JStr [])\<rparr>)
       \<and> (\<forall>i. Suc i < length new \<longrightarrow>
             (\<exists>v. send_file_reply e (length (uploads w) + i) (new ! i) = Inr v))
       \<and> (length new < length fl \<longrightarrow>
             (new \<noteq> [] \<and> (\<exists>er. send_file_reply e (length (uploads w) + (length new - 1)) (last new)
                                  = Inl er))
             \<or> fs w (file_path (fl ! length new)) = None)"
proof (induction fl arbitrary: cap resp w r w')
  case Nil
  then have "w' = w\<lparr>uploads := uploads w @ []\<rparr>" by simp
  then show ?case by (intro exI [of _ "[]"]) simp
next
  case (Cons f rest)
  show ?case
  proof (cases "fs w (file_path f)")
    case None
    with Cons.prems have "w' = w\<lparr>uploads := uploads w @ []\<rparr>" by simp
    with None show ?thesis by (intro exI [of _ "[]"]) simp
  next
    case (Some data)
    let ?u = "\<lparr>u_chat_id = chat, u_filename = f_name f, u_mime = mime f,
                    u_bytes = data, u_caption = cap\<rparr>"
    let ?w1 = "w\<lparr>uploads := uploads w @ [?u]\<rparr>"
    show ?thesis
    proof (cases "send_file_reply e (length (uploads w)) ?u")
      case (Inl er)
      with Cons.prems Some have "w' = w\<lparr>uploads := uploads w @ [?u]\<rparr>"
        by (simp add: Let_def)
      with Some Inl show ?thesis by (intro exI [of _ "[?u]"]) simp
    next
      case (Inr rp)
      with Cons.prems Some
      have "send_files_loop e chat rest (JStr []) rp ?w1 = (r, w')"
        by (simp add: Let_def)
      from Cons.IH [OF this] obtain new where
        n1: "w' = ?w1\<lparr>uploads := uploads ?w1 @ new\<rparr>"
        and n2: "length new \<le> length rest"
        and n3: "\<forall>i < length new. \<exists>data. fs ?w1 (file_path (rest ! i)) = Some data
             \<and> new ! i = \<lparr>u_chat_id = chat, u_filename = f_name (rest ! i),
                           u_mime = mime (rest ! i), u_bytes = data,
                           u_caption = (if i = 0 then JStr [] else JStr [])\<rparr>"
        and n4: "\<forall>i. Suc i < length new \<longrightarrow>
             (\<exists>v. send_file_reply e (length (uploads ?w1) + i) (new ! i) = Inr v)"
        and n5: "length new < length rest \<longrightarrow>
             (new \<noteq> [] \<and> (\<exists>er. send_file_reply e (length (uploads ?w1) + (length new - 1))
                                    (last new) = Inl er))
             \<or> fs ?w1 (file_path (rest ! length new)) = None"
        by blast
      from n1 have a: "w' = w\<lparr>uploads := uploads w @ (?u # new)\<rparr>" by simp
      have b: "length (?u # new) \<le> length (f # rest)" using n2 by simp
      have c: "\<exists>data. fs w (file_path ((f # rest) ! i)) = Some data
             \<and> (?u # new) ! i = \<lparr>u_chat_id = chat, u_filename = f_name ((f # rest) ! i),
                     u_mime = mime ((f # rest) ! i), u_bytes = data,
                     u_caption = (if i = 0 then cap else JStr [])\<rparr>"
        if "i < length (?u # new)" for i
      proof (cases i)
        case 0
        with Some show ?thesis by simp
      next
        case (Suc j)
        with that have "j < length new" by simp
        with n3 Suc show ?thesis by simp
      qed
      have d: "\<exists>v. send_file_reply e (length (uploads w) + i) ((?u # new) ! i) = Inr v"
        if "Suc i < length (?u # new)" for i
      proof (cases i)
        case 0
        with Inr show ?thesis by simp
      next
        case (Suc j)
        with that have "Suc j < length new" by simp
        with n4 have "\<exists>v. send_file_reply e (length (uploads ?w1) + j) (new ! j) = Inr v"
          by blast
        with Suc show ?thesis by simp
      qed
      have e: "(?u # new \<noteq> [] \<and> (\<exists>er. send_file_reply e
                   (length (uploads w) + (length (?u # new) - 1)) (last (?u # new)) = Inl er))
             \<or> fs w (file_path ((f # rest) ! length (?u # new))) = None"
        if "length (?u # new) < length (f # rest)"
      proof -
        from that have "length new < length rest" by simp
        with n5 have "(new \<noteq> [] \<and> (\<exists>er. send_file_reply e
                   (length (uploads ?w1) + (length new - 1)) (last new) = Inl er))
             \<or> fs ?w1 (file_path (rest ! length new)) = None"
          by (rule mp)
        then show ?thesis
        proof (elim disjE conjE)
          assume up: "new \<noteq> []" "\<exists>er. send_file_reply e
                   (length (uploads ?w1) + (length new - 1)) (last new) = Inl er"
          from up(1) obtain x xs where "new = x # xs" by (cases new) auto
          with up show ?thesis by simp
        next
          assume "fs ?w1 (file_path (rest ! length new)) = None"
          then show ?thesis by simp
        qed
      qed
      from a b c d e show ?thesis
        by (intro exI [of _ "?u # new"]) blast
    qed
  qed
qed

text \<open>
  C9, as amended. For a stored message that came from the admin panel, is not archived
  and has \<open>n \<ge> 1\<close> attachments, of an account with a client: the dispatcher calls
  \<^verbatim>\<open>send_file\<close> for the attachments in their order, one after the other, and stops at
  the first attachment that cannot be read or whose upload raises. That is: each call
  is for the attachment at its place, with the chat, name, MIME type and bytes of that
  attachment; the first call carries the message's text (the empty text for none) as
  caption, every later call the empty caption; every call but the last was answered;
  and when there are fewer than \<open>n\<close> calls, the last call raised or the next attachment
  is not on disk. When every attachment is on disk and the provider answers every
  upload, there are exactly \<open>n\<close> calls.
\<close>

theorem dispatch_uploads:
  assumes "find (\<lambda>r. row_id r = Some k) (messages w) = Some msg"
    and "\<not> is_archived msg" and "from_app msg" and "files msg \<noteq> []"
    and "api_id_of (instance_id msg) w = Some api" and "has_client e (JInt api)"
  shows "\<exists>new. uploads (snd (msg_outbox_handle e k w)) = uploads w @ new
       \<and> length new \<le> length (files msg)
       \<and> map u_filename new = take (length new) (map f_name (files msg))
       \<and> map u_caption new =
           take (length new)
             (py_or (msg_text msg) (JStr []) # replicate (length (files msg) - 1) (JStr []))
       \<and> ((\<forall>j u. \<exists>v. send_file_reply e j u = Inr v)
            \<and> (\<forall>f \<in> set (files msg). fs w (file_path f) \<noteq> None) \<longrightarrow>
           length new = length (files msg)
           \<and> map u_filename new = map f_name (files msg)
           \<and> map u_caption new =
               py_or (msg_text msg) (JStr []) # replicate (length (files msg) - 1) (JStr []))
       \<and> (\<forall>i < length new. \<exists>data. fs w (file_path (files msg ! i)) = Some data
             \<and> new ! i = \<lparr>u_chat_id = chat_id msg, u_filename = f_name (files msg ! i),
                           u_mime = mime (files msg ! i), u_bytes = data,
                           u_caption = (if i = 0 then py_or (msg_text msg) (JStr [])
                                        else JStr [])\<rparr>)
       \<and> (\<forall>i. Suc i < length new \<longrightarrow>
             (\<exists>v. send_file_reply e (length (uploads w) + i) (new ! i) = Inr v))
       \<and> (length new < length (files msg) \<longrightarrow>
             (new \<noteq> [] \<and> (\<exists>er. send_file_reply e (length (uploads w) + (length new - 1))
                                  (last new) = Inl er))
             \<or> fs w (file_path (files msg ! length new)) = None)"
proof -
  let ?cap = "py_or (msg_text msg) (JStr [])"
  obtain r w1 where sf: "send_files_loop e (chat_id msg) (files msg) ?cap JNull w = (r, w1)"
    by (cases "send_files_loop e (chat_id msg) (files msg) ?cap JNull w")
  from send_files_loop_calls [OF sf] obtain new where
    n: "w1 = w\<lparr>uploads := uploads w @ new\<rparr>"
      "length new \<le> length (files msg)"
      "map u_filename new = take (length new) (map f_name (files msg))"
      "map u_caption new = take (length new) (?cap # replicate (length (files msg) - 1) (JStr []))"
      "\<forall>v. r = Inr v \<longrightarrow> length new = length (files msg)"
    by blast
  from send_files_loop_stop [OF sf] obtain new' where
    s1: "w1 = w\<lparr>uploads := uploads w @ new'\<rparr>"
    and s2: "\<forall>i < length new'. \<exists>data. fs w (file_path (files msg ! i)) = Some data
             \<and> new' ! i = \<lparr>u_chat_id = chat_id msg, u_filename = f_name (files msg ! i),
                           u_mime = mime (files msg ! i), u_bytes = data,
                           u_caption = (if i = 0 then ?cap else JStr [])\<rparr>"
    and s3: "\<forall>i. Suc i < length new' \<longrightarrow>
             (\<exists>v. send_file_reply e (length (uploads w) + i) (new' ! i) = Inr v)"
    and s4: "length new' < length (files msg) \<longrightarrow>
             (new' \<noteq> [] \<and> (\<exists>er. send_file_reply e (length (uploads w) + (length new' - 1))
                                  (last new') = Inl er))
             \<or> fs w (file_path (files msg ! length new')) = None"
    by blast
  from n(1) s1 have "uploads (w\<lparr>uploads := uploads w @ new\<rparr>)
      = uploads (w\<lparr>uploads := uploads w @ new'\<rparr>)"
    by simp
  then have same: "new' = new" by simp
  have "uploads (snd (msg_outbox_handle e k w)) = uploads w1"
    using uploads_handle [OF assms(1-3), of e] uploads_send_body [OF assms(4-6)] sf
    by (simp add: send_files_def)
  with n(1) have u: "uploads (snd (msg_outbox_handle e k w)) = uploads w @ new" by simp
  have full: "length new = length (files msg)"
    if "\<forall>j u. \<exists>v. send_file_reply e j u = Inr v"
      and "\<forall>f \<in> set (files msg). fs w (file_path f) \<noteq> None"
  proof -
    from that(1) have "\<And>j u. \<exists>v. send_file_reply e j u = Inr v" by blast
    from send_files_loop_ok [OF this that(2), of "chat_id msg" ?cap JNull] sf n(5)
    show ?thesis by auto
  qed
  have len: "length (?cap # replicate (length (files msg) - 1) (JStr [])) = length (files msg)"
    using assms(4) by (cases "files msg") simp_all
  from full n(3,4) len
  have s: "(\<forall>j u. \<exists>v. send_file_reply e j u = Inr v)
            \<and> (\<forall>f \<in> set (files msg). fs w (file_path f) \<noteq> None) \<longrightarrow>
           length new = length (files msg)
           \<and> map u_filename new = map f_name (files msg)
           \<and> map u_caption new = ?cap # replicate (length (files msg) - 1) (JStr [])"
    by (metis length_map order_refl take_all)
  note t2 = s2 [unfolded same] and t3 = s3 [unfolded same] and t4 = s4 [unfolded same]
  show ?thesis
    by (rule exI [of _ new]) (intro conjI u n(2) n(3) n(4) s t2 t3 t4)
qed

lemma world2_row: "find (\<lambda>r. row_id r = Some 1) (messages world2) = Some pending_row"
  by (simp add: world2_def world0_def pending_row_def)

lemma pending_row_facts:
  "\<not> is_archived pending_row" "from_app pending_row" "files pending_row = [file_a, file_b]"
  "instance_id pending_row = 1" "msg_text pending_row = JStr ''see attached''"
  "chat_id pending_row = ''79990001122@c.us''"
  by (simp_all add: pending_row_def)

lemma world2_api: "api_id_of 1 world2 = Some 1101"
  by (simp add: api_id_of_def world2_def world0_def)

text \<open>
  The pending message with the attachments \<^verbatim>\<open>a.jpg\<close> and \<^verbatim>\<open>b.pdf\<close>, and a provider
  that accepts every upload: two calls, the first with the text as caption. The same
  message when \<^verbatim>\<open>b.pdf\<close> is not on disk: one call, for \<^verbatim>\<open>a.jpg\<close>.
\<close>

theorem dispatch_uploads_witness:
  "find (\<lambda>r. row_id r = Some 1) (messages world2) = Some pending_row
   \<and> \<not> is_archived pending_row \<and> from_app pending_row \<and> files pending_row \<noteq> []
   \<and> api_id_of (instance_id pending_row) world2 = Some 1101 \<and> has_client env0 (JInt 1101)
   \<and> map u_filename (uploads (snd (msg_outbox_handle env0 1 world2))) = [''a.jpg'', ''b.pdf'']
   \<and> map u_caption (uploads (snd (msg_outbox_handle env0 1 world2)))
       = [JStr ''see attached'', JStr []]
   \<and> map u_filename
         (uploads (snd (msg_outbox_handle env0 1
            (world2\<lparr>fs := [''/app/media/2025/01/a.jpg'' \<mapsto> ''AAA'']\<rparr>))))
       = [''a.jpg'']"
proof -
  let ?w = "world2\<lparr>fs := [''/app/media/2025/01/a.jpg'' \<mapsto> ''AAA'']\<rparr>"
  have h4: "files pending_row \<noteq> []" by (simp add: pending_row_facts)
  have h5: "api_id_of (instance_id pending_row) world2 = Some 1101"
    by (simp add: pending_row_facts world2_api)
  have h6: "has_client env0 (JInt 1101)" by (simp add: env0_def)
  have ok: "\<forall>j u. \<exists>v. send_file_reply env0 j u = Inr v" by (simp add: env0_def)
  have rd: "\<forall>f \<in> set (files pending_row). fs world2 (file_path f) \<noteq> None"
    by (simp add: pending_row_facts world2_def file_a_def file_b_def)
  have u0: "uploads world2 = []" by (simp add: world2_def world0_def)
  from dispatch_uploads [OF world2_row pending_row_facts(1,2) h4 h5 h6]
  obtain new where
    n: "uploads (snd (msg_outbox_handle env0 1 world2)) = uploads world2 @ new"
    and imp: "(\<forall>j u. \<exists>v. send_file_reply env0 j u = Inr v)
            \<and> (\<forall>f \<in> set (files pending_row). fs world2 (file_path f) \<noteq> None) \<longrightarrow>
           length new = length (files pending_row)
           \<and> map u_filename new = map f_name (files pending_row)
           \<and> map u_caption new =
               py_or (msg_text pending_row) (JStr []) # replicate (length (files pending_row) - 1) (JStr [])"
    by (elim exE conjE)
  note full = mp [OF imp conjI [OF ok rd]]
  note 2 = full [THEN conjunct2, THEN conjunct1]
  note 3 = full [THEN conjunct2, THEN conjunct2]
  from n 2 3
  have a: "map u_filename (uploads (snd (msg_outbox_handle env0 1 world2))) = [''a.jpg'', ''b.pdf'']"
    and b: "map u_caption (uploads (snd (msg_outbox_handle env0 1 world2))) = [JStr ''see attached'', JStr []]"
    by (simp_all add: u0 pending_row_facts file_a_def file_b_def py_or_def)
  have r': "find (\<lambda>r. row_id r = Some 1) (messages ?w) = Some pending_row"
    using world2_row by simp
  have h5': "api_id_of (instance_id pending_row) ?w = Some 1101"
    using h5 by (simp add: api_id_of_def)
  have u0': "uploads ?w = []" by (simp add: u0)
  have fa: "fs ?w (file_path (files pending_row ! 0)) = Some ''AAA''"
    by (simp add: pending_row_facts file_a_def)
  have fb: "fs ?w (file_path (files pending_row ! 1)) = None"
    by (simp add: pending_row_facts file_b_def)
  from dispatch_uploads [OF r' pending_row_facts(1,2) h4 h5' h6]
  obtain new' where
    m: "uploads (snd (msg_outbox_handle env0 1 ?w)) = uploads ?w @ new'"
    and le: "length new' \<le> length (files pending_row)"
    and nm: "map u_filename new' = take (length new') (map f_name (files pending_row))"
    and ct: "\<forall>i < length new'. \<exists>data. fs ?w (file_path (files pending_row ! i)) = Some data
             \<and> new' ! i = \<lparr>u_chat_id = chat_id pending_row,
                            u_filename = f_name (files pending_row ! i),
                            u_mime = mime (files pending_row ! i), u_bytes = data,
                            u_caption = (if i = 0 then py_or (msg_text pending_row) (JStr [])
                                         else JStr [])\<rparr>"
    and st: "length new' < length (files pending_row) \<longrightarrow>
             (new' \<noteq> [] \<and> (\<exists>er. send_file_reply env0 (length (uploads ?w) + (length new' - 1))
                                  (last new') = Inl er))
             \<or> fs ?w (file_path (files pending_row ! length new')) = None"
    by (elim exE conjE)
  have "length new' \<noteq> 0"
  proof
    assume z: "length new' = 0"
    with st fa show False by (simp add: pending_row_facts)
  qed
  moreover have "length new' \<noteq> 2"
  proof
    assume "length new' = 2"
    then have "1 < length new'" by simp
    with ct obtain data where "fs ?w (file_path (files pending_row ! 1)) = Some data"
      by blast
    with fb show False by simp
  qed
  moreover from le have "length new' \<le> 2" by (simp add: pending_row_facts)
  ultimately have "length new' = 1" by arith
  with nm have "map u_filename new' = [''a.jpg'']"
    by (simp add: pending_row_facts file_a_def)
  with m u0' have c: "map u_filename (uploads (snd (msg_outbox_handle env0 1 ?w))) = [''a.jpg'']"
    by simp
  from world2_row pending_row_facts(1,2) h4 h5 h6 a b c show ?thesis by simp
qed

text \<open>
  The claim as stated fails when an upload fails: with a provider that refuses every
  upload, the same message with its two attachments gets one call, not two.
\<close>

theorem dispatch_uploads_counterexample:
  "find (\<lambda>r. row_id r = Some 1) (messages world2) = Some pending_row
   \<and> \<not> is_archived pending_row \<and> from_app pending_row
   \<and> length (files pending_row) = 2
   \<and> length (uploads (snd (msg_outbox_handle env2 1 world2))) = 1"
proof -
  have a: "fs world2 ''/app/media/2025/01/a.jpg'' = Some ''AAA''"
    by (simp add: world2_def)
  have r: "send_file_reply env2 j u = Inl (GreenAPIError ''GREEN-API 500: busy'')" for j u
    by (simp add: env2_def)
  have u0: "uploads world2 = []" by (simp add: world2_def world0_def)
  have sf: "uploads (snd (send_files env2 ''79990001122@c.us'' pending_row world2))
     = [\<lparr>u_chat_id = ''79990001122@c.us'', u_filename = ''a.jpg'', u_mime = JStr ''image/jpeg'',
         u_bytes = ''AAA'', u_caption = JStr ''see attached''\<rparr>]"
    by (simp add: send_files_def pending_row_facts file_a_def a r u0 py_or_def)
  have h: "has_client env2 (JInt 1101)" by (simp add: env2_def env0_def)
  from uploads_handle [OF world2_row pending_row_facts(1,2), of env2]
    uploads_send_body [of pending_row world2 1101 env2] world2_api h sf
  have "length (uploads (snd (msg_outbox_handle env2 1 world2))) = 1"
    by (simp add: pending_row_facts)
  with world2_row show ?thesis by (simp add: pending_row_facts)
qed

section \<open>The limiter and the block\<close>

text \<open>A bucket with room grants the slot at once.\<close>

lemma acquire_room:
  "level (leak now l) + 1 \<le> max_rate l \<Longrightarrow>
     acquire now l = Some (now, (leak now l)\<lparr>level := level (leak now l) + 1\<rparr>)"
  by (subst acquire.simps) simp

lemma leak_frame [simp]:
  "max_rate (leak now l) = max_rate l" "time_period (leak now l) = time_period l"
  "blocked_until (leak now l) = blocked_until l" "period (leak now l) = period l"
  by (simp_all add: leak_def)

text \<open>A slot is never granted before it is asked for.\<close>

lemma acquire_not_before_aux:
  assumes "acquire now l = Some y"
  shows "0 < max_rate l \<longrightarrow> 0 < time_period l \<longrightarrow> now \<le> fst y"
proof (rule acquire.raw_induct
    [where P = "\<lambda>now l y. 0 < max_rate l \<longrightarrow> 0 < time_period l \<longrightarrow> now \<le> fst y", OF _ assms],
    goal_cases)
  case (1 acq now l y)
  show ?case
  proof (cases "level (leak now l) + 1 \<le> max_rate l")
    case True
    with 1(2) show ?thesis by auto
  next
    case False
    with 1(2) have "acq (now + 1 / (max_rate l / time_period l)) (leak now l) = Some y" by simp
    from 1(1) [OF this]
    have ih: "0 < max_rate l \<longrightarrow> 0 < time_period l \<longrightarrow>
               now + 1 / (max_rate l / time_period l) \<le> fst y"
      by simp
    show ?thesis
    proof (intro impI)
      assume p: "0 < max_rate l" "0 < time_period l"
      then have "0 \<le> 1 / (max_rate l / time_period l)" by simp
      with ih p show "now \<le> fst y" by linarith
    qed
  qed
qed

lemma acquire_not_before:
  assumes "acquire now l = Some (t, l')" and "0 < max_rate l" and "0 < time_period l"
  shows "now \<le> t"
  using acquire_not_before_aux [OF assms(1)] assms(2,3) by simp

text \<open>
  \<^verbatim>\<open>wait_slot\<close> keeps the block: on a blocked limiter it grants no slot before the
  blocked-until time.
\<close>

lemma wait_slot_keeps_block:
  assumes "wait_slot now l = Some (t, l')" and "blocked_until l = Some until"
    and "0 < max_rate l" and "0 < time_period l"
  shows "until \<le> t"
proof (cases "0 < until - now")
  case True
  with assms(1,2) have "acquire (now + (until - now)) l = Some (t, l')"
    by (simp add: wait_slot_def)
  from acquire_not_before [OF this assms(3,4)] show ?thesis by simp
next
  case False
  with assms(1,2) have "acquire now l = Some (t, l')"
    by (simp add: wait_slot_def)
  from acquire_not_before [OF this assms(3,4)] False show ?thesis by simp
qed

text \<open>
  \<^verbatim>\<open>async with limiter\<close> does not look at the block: with room in the bucket the slot is
  granted at once, whatever the blocked-until time is.
\<close>

lemma aenter_ignores_block:
  assumes "level (leak now l) + 1 \<le> max_rate l"
  shows "aenter now (l\<lparr>blocked_until := b\<rparr>) =
           Some (now, (leak now l)\<lparr>level := level (leak now l) + 1, blocked_until := b\<rparr>)"
proof -
  have "leak now (l\<lparr>blocked_until := b\<rparr>) = (leak now l)\<lparr>blocked_until := b\<rparr>"
    by (simp add: leak_def)
  with assms show ?thesis
    by (simp add: aenter_def acquire_room)
qed

text \<open>
  C2, at an input where the code leaves the claim. The limiter of \<^verbatim>\<open>sendMessage\<close> runs
  at ten requests per second, so a block lasts 0.15 seconds. A first request at time
  100 is answered with 429: \<^verbatim>\<open>_json\<close> blocks the limiter until 100.15 and raises the
  throttle error. A second request at time 100 gets its slot at time 100 and is sent
  and answered, before the block is over: \<^verbatim>\<open>_json\<close> enters the limiter with
  \<^verbatim>\<open>async with limiter\<close>, which is the bucket's \<^verbatim>\<open>acquire\<close>; only \<^verbatim>\<open>wait_slot\<close> reads
  the blocked-until time, and nothing calls it. \<^verbatim>\<open>wait_slot\<close> would have granted the
  slot at 100.15.
\<close>

theorem json_request_ignores_block:
  "map_option (\<lambda>(r, t, cl). (r, t, cl ''sendMessage''))
     (json_request rates10 ''sendMessage'' 100 (answer too_many) Map.empty)
     = Some (Inl (GreenAPIThrottleError ''429 Too Many Requests''), 100,
             Some (limiter10\<lparr>blocked_until := Some (100 + 3 / 20)\<rparr>))
   \<and> map_option (\<lambda>(r, t, cl). (r, t))
       (json_request rates10 ''sendMessage'' 100 (answer sent_ok)
          [''sendMessage'' \<mapsto> limiter10\<lparr>blocked_until := Some (100 + 3 / 20)\<rparr>])
     = Some (Inr (JObj [(''idMessage'', JStr ''OUT1'')]), 100)
   \<and> (100 :: rat) < 100 + 3 / 20
   \<and> map_option fst (wait_slot 100 (limiter10\<lparr>blocked_until := Some (100 + 3 / 20)\<rparr>))
     = Some (100 + 3 / 20)"
proof -
  have s: "first_segment ''sendMessage'' = ''sendMessage''"
    by (simp add: first_segment_def)
  have 1: "map_option (\<lambda>(r, t, cl). (r, t, cl ''sendMessage''))
     (json_request rates10 ''sendMessage'' 100 (answer too_many) Map.empty)
     = Some (Inl (GreenAPIThrottleError ''429 Too Many Requests''), 100,
             Some (limiter10\<lparr>blocked_until := Some (100 + 3 / 20)\<rparr>))"
    by (simp add: json_request_def get_limiter_def s rates10_def SmartLimiter_def aenter_def
        acquire_room leak_def answer_def classify_response_def too_many_def block_def
        limiter10_def)
  have 2: "map_option (\<lambda>(r, t, cl). (r, t))
       (json_request rates10 ''sendMessage'' 100 (answer sent_ok)
          [''sendMessage'' \<mapsto> limiter10\<lparr>blocked_until := Some (100 + 3 / 20)\<rparr>])
     = Some (Inr (JObj [(''idMessage'', JStr ''OUT1'')]), 100)"
    by (simp add: json_request_def get_limiter_def s aenter_def
        acquire_room leak_def answer_def classify_response_def sent_ok_def limiter10_def)
  have 3: "map_option fst (wait_slot 100 (limiter10\<lparr>blocked_until := Some (100 + 3 / 20)\<rparr>))
     = Some (100 + 3 / 20)"
    by (simp add: wait_slot_def acquire_room leak_def limiter10_def)
  from 1 2 3 show ?thesis by simp
qed

section \<open>The classification of responses\<close>

lemma first_segment_endpoint: "first_segment (endpoint_of opn) = endpoint_of opn"
  by (cases opn) (simp_all add: first_segment_def)

lemma get_limiter_segment: "get_limiter rt (first_segment s) cl = get_limiter rt s cl"
  by (simp add: get_limiter_def first_segment_def)

lemma json_request_classifies:
  assumes "get_limiter rt endpoint cl = Inr (l, cl1)"
    and "aenter now l = Some (ts, l1)"
    and "exchange ts = (t, Inr r)"
  shows "json_request rt endpoint now exchange cl =
     Some ((if status_code r = 429 then Inl (GreenAPIThrottleError ''429 Too Many Requests'')
            else if 400 \<le> status_code r
              then Inl (GreenAPIError (''GREEN-API '' @ dec (status_code r) @ '': '' @ body_text r))
            else case body_json r of None \<Rightarrow> Inl JSONDecodeError | Some j \<Rightarrow> Inr j),
           t, cl1(first_segment endpoint \<mapsto> (if status_code r = 429 then block t l1 else l1)))"
  using assms
  by (simp add: json_request_def get_limiter_segment classify_response_def split: option.splits)

lemma block_block [simp]: "block t (block t l) = block t l"
  by (simp add: block_def)

lemma perform_plain:
  assumes "json_request rt (endpoint_of opn) now exchange cl = Some (x, t, cl')"
    and "opn \<noteq> GetQr"
  shows "perform rt sub opn now exchange cl = Some (finish sub opn x, t, cl')"
  using assms by (cases opn) (simp_all add: perform_def)

lemma perform_qr:
  assumes "json_request rt (endpoint_of GetQr) now exchange cl = Some (x, t, cl')"
    and "cl' ''qr'' = Some l'" and "block t l' = l'"
  shows "perform rt sub GetQr now exchange cl = Some (finish sub GetQr x, t, cl')"
proof -
  have "cl'(''qr'' \<mapsto> l') = cl'"
    using assms(2) by (simp add: map_upd_triv)
  with assms show ?thesis
    by (simp add: perform_def split: sum.splits py_error.splits)
qed

text \<open>
  C8, amended. Whatever the endpoint, once the limiter has granted the slot and the
  response is there, \<^verbatim>\<open>_json\<close> classifies it so: on status 429 it blocks the limiter of
  the endpoint and raises the throttle error; on any other status of 400 or more it
  raises the provider error, whose text holds the status and the body of the response;
  otherwise it returns the decoded body (or raises what the decoder raises). In all
  three cases the other limiters stay as they were.
  \<^verbatim>\<open>get_settings\<close>, \<^verbatim>\<open>last_incoming\<close>, \<^verbatim>\<open>last_outgoing\<close>, \<^verbatim>\<open>get_chat_history\<close>,
  \<^verbatim>\<open>send_message\<close> and \<^verbatim>\<open>send_file\<close> give their caller just that. \<^verbatim>\<open>get_state\<close>,
  \<^verbatim>\<open>logout\<close> and \<^verbatim>\<open>set_settings\<close> raise the same two errors and return, of the decoded
  body, the field \<^verbatim>\<open>stateInstance\<close>, the truth value of \<^verbatim>\<open>isLogout\<close> and the truth value
  of \<^verbatim>\<open>saveSettings\<close>. \<^verbatim>\<open>download_file\<close> returns \<^verbatim>\<open>None\<close> on the provider error (and on
  the throttle error when that is a kind of provider error, which the absent
  \<^verbatim>\<open>exceptions.py\<close> decides: \<open>sub\<close>), and otherwise the \<^verbatim>\<open>downloadUrl\<close> of the body or
  \<^verbatim>\<open>None\<close>. \<^verbatim>\<open>get_qr\<close> raises neither error: it returns an error object, with a fixed
  message on 429 and with the text of the provider error otherwise; on success it
  returns the object \<open>qr_payload\<close> builds from the body.
\<close>

theorem perform_classifies:
  assumes "get_limiter rt (endpoint_of opn) cl = Inr (l, cl1)"
    and "aenter now l = Some (ts, l1)"
    and "exchange ts = (t, Inr r)"
  shows
    "(let throttle = Inl (GreenAPIThrottleError ''429 Too Many Requests'');
          provider = ''GREEN-API '' @ dec (status_code r) @ '': '' @ body_text r;
          limiters = cl1(endpoint_of opn \<mapsto> (if status_code r = 429 then block t l1 else l1))
      in json_request rt (endpoint_of opn) now exchange cl =
           Some ((if status_code r = 429 then throttle
                  else if 400 \<le> status_code r then Inl (GreenAPIError provider)
                  else case body_json r of None \<Rightarrow> Inl JSONDecodeError | Some j \<Rightarrow> Inr j),
                 t, limiters)
       \<and> (opn \<in> {GetSettings, LastIncoming, LastOutgoing, GetChatHistory, SendMessage, SendFile}
            \<longrightarrow> perform rt sub opn now exchange cl =
                  Some ((if status_code r = 429 then throttle
                         else if 400 \<le> status_code r then Inl (GreenAPIError provider)
                         else case body_json r of
                                None \<Rightarrow> Inl JSONDecodeError
                              | Some j \<Rightarrow> Inr j),
                        t, limiters))
       \<and> (opn = GetState \<longrightarrow>
            perform rt sub opn now exchange cl =
              Some ((if status_code r = 429 then throttle
                     else if 400 \<le> status_code r then Inl (GreenAPIError provider)
                     else case body_json r of
                            None \<Rightarrow> Inl JSONDecodeError
                          | Some j \<Rightarrow> subscript j ''stateInstance''),
                    t, limiters))
       \<and> (opn = Logout \<longrightarrow>
            perform rt sub opn now exchange cl =
              Some ((if status_code r = 429 then throttle
                     else if 400 \<le> status_code r then Inl (GreenAPIError provider)
                     else case body_json r of
                            None \<Rightarrow> Inl JSONDecodeError
                          | Some j \<Rightarrow>
                              (case get j ''isLogout'' of
                                 Inl er \<Rightarrow> Inl er
                               | Inr v \<Rightarrow> Inr (JBool (truthy v)))),
                    t, limiters))
       \<and> (opn = SetSettings \<longrightarrow>
            perform rt sub opn now exchange cl =
              Some ((if status_code r = 429 then throttle
                     else if 400 \<le> status_code r then Inl (GreenAPIError provider)
                     else case body_json r of
                            None \<Rightarrow> Inl JSONDecodeError
                          | Some j \<Rightarrow>
                              (case get j ''saveSettings'' of
                                 Inl er \<Rightarrow> Inl er
                               | Inr v \<Rightarrow> Inr (JBool (truthy v)))),
                    t, limiters))
       \<and> (opn = DownloadFile \<longrightarrow>
            perform rt sub opn now exchange cl =
              Some ((if status_code r = 429 then (if sub then Inr JNull else throttle)
                     else if 400 \<le> status_code r then Inr JNull
                     else case body_json r of
                            None \<Rightarrow> Inl JSONDecodeError
                          | Some j \<Rightarrow>
                              (case get j ''downloadUrl'' of
                                 Inl er \<Rightarrow> Inl er
                               | Inr v \<Rightarrow> Inr (if truthy v then v else JNull))),
                    t, limiters))
       \<and> (opn = GetQr \<longrightarrow>
            perform rt sub opn now exchange cl =
              Some ((if status_code r = 429
                       then Inr (JObj [(''status'', JStr ''error''),
                                       (''message'', JStr ''too many requests (429)'')])
                     else if 400 \<le> status_code r
                       then Inr (JObj [(''status'', JStr ''error''), (''message'', JStr provider)])
                     else case body_json r of
                            None \<Rightarrow> Inl JSONDecodeError
                          | Some j \<Rightarrow> qr_payload j),
                    t, limiters)))"
proof -
  let ?x = "if status_code r = 429 then Inl (GreenAPIThrottleError ''429 Too Many Requests'')
            else if 400 \<le> status_code r
              then Inl (GreenAPIError (''GREEN-API '' @ dec (status_code r) @ '': '' @ body_text r))
            else case body_json r of None \<Rightarrow> Inl JSONDecodeError | Some j \<Rightarrow> Inr j"
  let ?cl = "cl1(endpoint_of opn \<mapsto> (if status_code r = 429 then block t l1 else l1))"
  note j = json_request_classifies [where exchange = exchange and ts = ts, OF assms,
      unfolded first_segment_endpoint]
  have p: "perform rt sub opn now exchange cl = Some (finish sub opn ?x, t, ?cl)"
  proof (cases "opn = GetQr")
    case False
    with j show ?thesis by (rule perform_plain)
  next
    case True
    show ?thesis
    proof (cases "status_code r = 429")
      case t: True
      from j have "json_request rt (endpoint_of GetQr) now exchange cl = Some (?x, t, ?cl)"
        by (simp add: True)
      then have "perform rt sub GetQr now exchange cl = Some (finish sub GetQr ?x, t, ?cl)"
        by (rule perform_qr [where l' = "block t l1"]) (simp_all add: True t)
      with True show ?thesis by simp
    next
      case False
      with j True show ?thesis
        by (simp add: perform_def split: option.splits)
    qed
  qed
  show ?thesis
    unfolding Let_def p j
    by (cases opn)
       (simp_all add: is_api_error_def get_def py_or_def split: option.splits sum.splits)
qed

text \<open>
  An instance: the first \<^verbatim>\<open>send_message\<close> of a client, at time 100, answered with 429.
\<close>

theorem perform_classifies_witness:
  "get_limiter rates10 (endpoint_of SendMessage) Map.empty
     = Inr (limiter10\<lparr>level := 0, last_check := 0\<rparr>,
            [''sendMessage'' \<mapsto> limiter10\<lparr>level := 0, last_check := 0\<rparr>])
   \<and> aenter 100 (limiter10\<lparr>level := 0, last_check := 0\<rparr>) = Some (100, limiter10)
   \<and> answer too_many 100 = (100, Inr too_many)
   \<and> perform rates10 True SendMessage 100 (answer too_many) Map.empty
     = Some (Inl (GreenAPIThrottleError ''429 Too Many Requests''), 100,
             [''sendMessage'' \<mapsto> limiter10\<lparr>blocked_until := Some (100 + 3 / 20)\<rparr>])"
proof -
  have g: "get_limiter rates10 (endpoint_of SendMessage) Map.empty
     = Inr (limiter10\<lparr>level := 0, last_check := 0\<rparr>,
            [''sendMessage'' \<mapsto> limiter10\<lparr>level := 0, last_check := 0\<rparr>])"
    by (simp add: get_limiter_def first_segment_def rates10_def SmartLimiter_def limiter10_def)
  have a: "aenter 100 (limiter10\<lparr>level := 0, last_check := 0\<rparr>) = Some (100, limiter10)"
    by (simp add: aenter_def acquire_room leak_def limiter10_def)
  have x: "answer too_many 100 = (100, Inr too_many)"
    by (simp add: answer_def)
  note n = perform_classifies [where exchange = "answer too_many" and ts = 100 and sub = True,
      OF g a x, unfolded Let_def, THEN conjunct2, THEN conjunct1]
  have "perform rates10 True SendMessage 100 (answer too_many) Map.empty
     = Some (Inl (GreenAPIThrottleError ''429 Too Many Requests''), 100,
             [''sendMessage'' \<mapsto> limiter10\<lparr>blocked_until := Some (100 + 3 / 20)\<rparr>])"
    using n by (simp add: too_many_def block_def limiter10_def)
  with g a x show ?thesis by simp
qed

text \<open>
  C8 as stated, at an input where it fails. \<^verbatim>\<open>download_file\<close> at time 100 is answered
  with status 500 and the body \<^verbatim>\<open>busy\<close>: \<^verbatim>\<open>_json\<close> raises the provider error, but the
  operation catches it and returns \<^verbatim>\<open>None\<close> to its caller. \<^verbatim>\<open>get_qr\<close> answered with 429
  raises nothing either and returns an error object.
\<close>

theorem download_file_swallows_error:
  "map_option fst (json_request rates10 (endpoint_of DownloadFile) 100 (answer busy) Map.empty)
     = Some (Inl (GreenAPIError ''GREEN-API 500: busy''))
   \<and> map_option fst (perform rates10 True DownloadFile 100 (answer busy) Map.empty)
     = Some (Inr JNull)
   \<and> map_option fst (perform rates10 False DownloadFile 100 (answer busy) Map.empty)
     = Some (Inr JNull)
   \<and> map_option fst (perform rates10 True GetQr 100 (answer too_many) Map.empty)
     = Some (Inr (JObj [(''status'', JStr ''error''),
                        (''message'', JStr ''too many requests (429)'')]))"
proof -
  have d: "dec 500 = ''500''"
    by (simp add: dec.simps digit_char_def)
  have l: "SmartLimiter 10 = Inr (limiter10\<lparr>level := 0, last_check := 0\<rparr>)"
    by (simp add: SmartLimiter_def limiter10_def)
  have a: "aenter 100 (limiter10\<lparr>level := 0, last_check := 0\<rparr>) = Some (100, limiter10)"
    by (simp add: aenter_def acquire_room leak_def limiter10_def)
  have 1: "json_request rates10 (endpoint_of DownloadFile) 100 (answer busy) Map.empty
     = Some (Inl (GreenAPIError ''GREEN-API 500: busy''), 100, [''downloadFile'' \<mapsto> limiter10])"
    by (simp add: json_request_def get_limiter_def first_segment_def rates10_def l a
        answer_def classify_response_def busy_def d)
  have 2: "json_request rates10 (endpoint_of GetQr) 100 (answer too_many) Map.empty
     = Some (Inl (GreenAPIThrottleError ''429 Too Many Requests''), 100,
             [''qr'' \<mapsto> block 100 limiter10])"
    by (simp add: json_request_def get_limiter_def first_segment_def rates10_def l a
        answer_def classify_response_def too_many_def)
  from 1 2 show ?thesis
    by (simp add: perform_def is_api_error_def)
qed

end
